theory Spec2Isabelle
  imports Complex_Main
begin

section \<open>Two-dimensional arrays\<close>

text \<open>
  Every field of the solver is a two-dimensional numpy array whose first axis is the
  longitudinal index and whose second axis is the radial index. An array is modelled by
  the list of its rows. Floating-point numbers are modelled by the reals and complex
  floating-point numbers by the complex numbers, so every statement below is a statement
  of exact arithmetic.

  The arithmetic operators of numpy act element by element on arrays of one shape. The
  model pairs the elements of the two operands with \<open>zip\<close>; where numpy would raise on
  operands of different shapes the model truncates, and the shape invariants of the grids
  (\<open>has_shape\<close>) exclude that case.
\<close>

datatype 'a ndarray = NDArray (rows: "'a list list")

definition elem :: "'a ndarray \<Rightarrow> nat \<Rightarrow> nat \<Rightarrow> 'a" where
  "elem A i j = rows A ! i ! j"

definition has_shape :: "nat \<Rightarrow> nat \<Rightarrow> 'a ndarray \<Rightarrow> bool" where
  "has_shape nz nr A \<longleftrightarrow> length (rows A) = nz \<and> list_all (\<lambda>row. length row = nr) (rows A)"

definition amap :: "('a \<Rightarrow> 'b) \<Rightarrow> 'a ndarray \<Rightarrow> 'b ndarray" where
  "amap f A = NDArray (map (map f) (rows A))"

definition amap2 :: "('a \<Rightarrow> 'b \<Rightarrow> 'c) \<Rightarrow> 'a ndarray \<Rightarrow> 'b ndarray \<Rightarrow> 'c ndarray" where
  "amap2 f A B = NDArray (map2 (map2 f) (rows A) (rows B))"

instantiation ndarray :: (plus) plus
begin
definition plus_ndarray :: "'a ndarray \<Rightarrow> 'a ndarray \<Rightarrow> 'a ndarray" where
  "plus_ndarray A B = amap2 (+) A B"
instance ..
end

instantiation ndarray :: (minus) minus
begin
definition minus_ndarray :: "'a ndarray \<Rightarrow> 'a ndarray \<Rightarrow> 'a ndarray" where
  "minus_ndarray A B = amap2 (-) A B"
instance ..
end

instantiation ndarray :: (times) times
begin
definition times_ndarray :: "'a ndarray \<Rightarrow> 'a ndarray \<Rightarrow> 'a ndarray" where
  "times_ndarray A B = amap2 (*) A B"
instance ..
end

instantiation ndarray :: (uminus) uminus
begin
definition uminus_ndarray :: "'a ndarray \<Rightarrow> 'a ndarray" where
  "uminus_ndarray A = amap uminus A"
instance ..
end

text \<open>\<open>c * A\<close> and \<open>A * c\<close> for a scalar \<open>c\<close>.\<close>

definition scal :: "'a::times \<Rightarrow> 'a ndarray \<Rightarrow> 'a ndarray" where
  "scal c A = amap (\<lambda>x. c * x) A"

text \<open>The promotion of a real array to a complex one, implicit in numpy.\<close>

definition cplx :: "real ndarray \<Rightarrow> complex ndarray" where
  "cplx A = amap complex_of_real A"

text \<open>\<open>A ** 2\<close>, \<open>1. / A\<close>, \<open>np.sqrt(A)\<close>, \<open>np.cos(A)\<close>, \<open>np.sin(A)\<close>.\<close>

definition sq :: "real ndarray \<Rightarrow> real ndarray" where
  "sq A = amap (\<lambda>x. x ^ 2) A"

definition recip :: "real ndarray \<Rightarrow> real ndarray" where
  "recip A = amap (\<lambda>x. 1 / x) A"

definition np_sqrt :: "real ndarray \<Rightarrow> real ndarray" where
  "np_sqrt A = amap sqrt A"

definition np_cos :: "real ndarray \<Rightarrow> real ndarray" where
  "np_cos A = amap cos A"

definition np_sin :: "real ndarray \<Rightarrow> real ndarray" where
  "np_sin A = amap sin A"

text \<open>\<open>np.zeros((nz, nr))\<close>.\<close>

definition zeros :: "nat \<Rightarrow> nat \<Rightarrow> 'a::zero ndarray" where
  "zeros nz nr = NDArray (replicate nz (replicate nr 0))"

text \<open>
  \<open>dst[:,:] = src\<close> overwrites the entries of \<open>dst\<close> in place and keeps its shape;
  \<open>dst[:,:] = v\<close> does so with a scalar.
\<close>

definition assign_all :: "'a ndarray \<Rightarrow> 'a ndarray \<Rightarrow> 'a ndarray" where
  "assign_all dst src = amap2 (\<lambda>d x. x) dst src"

definition fill :: "'a ndarray \<Rightarrow> 'a \<Rightarrow> 'a ndarray" where
  "fill dst v = amap (\<lambda>d. v) dst"

text \<open>
  Boolean masks: \<open>A == 0\<close>, \<open>M1 & M2\<close>, \<open>np.where(M, v, A)\<close> and the masked assignment
  \<open>A[M] = v\<close>.
\<close>

definition eq0 :: "real ndarray \<Rightarrow> bool ndarray" where
  "eq0 A = amap (\<lambda>x. x = 0) A"

definition mask_and :: "bool ndarray \<Rightarrow> bool ndarray \<Rightarrow> bool ndarray" where
  "mask_and M1 M2 = amap2 (\<and>) M1 M2"

definition where_scalar :: "bool ndarray \<Rightarrow> 'a \<Rightarrow> 'a ndarray \<Rightarrow> 'a ndarray" where
  "where_scalar M v A = amap2 (\<lambda>b x. if b then v else x) M A"

definition set_masked :: "'a ndarray \<Rightarrow> bool ndarray \<Rightarrow> 'a \<Rightarrow> 'a ndarray" where
  "set_masked A M v = amap2 (\<lambda>x b. if b then v else x) A M"

text \<open>\<open>np.meshgrid(kz, kr, indexing='ij')\<close>.\<close>

definition meshgrid_ij :: "'a list \<Rightarrow> 'a list \<Rightarrow> 'a ndarray \<times> 'a ndarray" where
  "meshgrid_ij xs ys = (NDArray (map (\<lambda>x. map (\<lambda>y. x) ys) xs), NDArray (map (\<lambda>x. ys) xs))"

text \<open>\<open>np.sum(A)\<close>.\<close>

definition asum :: "'a::monoid_add ndarray \<Rightarrow> 'a" where
  "asum A = sum_list (map sum_list (rows A))"

section \<open>Errors\<close>

text \<open>
  The exceptions of the source: \<open>ValueError('Invalid string for fieldtype: ...')\<close>,
  \<open>ValueError('Unrecognized `direction` : ...')\<close>, numpy's \<open>ValueError\<close> for the maximum
  of an empty array, \<open>IndexError\<close>, \<open>AssertionError\<close> and \<open>ZeroDivisionError\<close>.
  A method that raises leaves its object as it is at that moment, so a raised error is
  paired with the state reached.
\<close>

datatype error =
    InvalidFieldtype string
  | UnrecognizedDirection string
  | ZeroSizeReduction
  | IndexError
  | AssertionError
  | ZeroDivisionError

type_synonym 's result = "(error \<times> 's) + 's"

section \<open>Physical constants\<close>

text \<open>
  \<open>scipy.constants.c\<close> (here \<open>c_light\<close>), \<open>mu_0\<close> and \<open>epsilon_0\<close>. The speed of light
  is exact in SI units; the two others are related by \<open>epsilon_0 = 1 / (mu_0 * c ** 2)\<close>.
  No result below depends on the numerical values of \<open>mu_0\<close> and \<open>epsilon_0\<close>.
\<close>

definition c_light :: real where
  "c_light = 299792458"

definition mu_0 :: real where
  "mu_0 = 4 * pi / 10 ^ 7"

definition epsilon_0 :: real where
  "epsilon_0 = 1 / (mu_0 * c_light ^ 2)"

section \<open>The binomial filter\<close>

text \<open>
  The slices of a one-dimensional sequence used by \<open>binomial_filter\<close>: \<open>xs[1:-1]\<close>,
  \<open>xs[:-2]\<close>, \<open>xs[2:]\<close>, and the slice assignment \<open>xs[1:-1] = ys\<close>, which changes
  nothing when \<open>xs\<close> has fewer than two elements.
\<close>

definition slice_1_m1 :: "'a list \<Rightarrow> 'a list" where
  "slice_1_m1 xs = butlast (tl xs)"

definition slice_to_m2 :: "'a list \<Rightarrow> 'a list" where
  "slice_to_m2 xs = take (length xs - 2) xs"

definition slice_from_2 :: "'a list \<Rightarrow> 'a list" where
  "slice_from_2 xs = drop 2 xs"

definition set_slice_1_m1 :: "'a list \<Rightarrow> 'a list \<Rightarrow> 'a list" where
  "set_slice_1_m1 xs ys = (if length xs < 2 then xs else hd xs # ys @ [last xs])"

text \<open>
  The same slices along the second axis of an array (\<open>A[:,1:-1]\<close>, ...), the columns
  \<open>A[:,j]\<close> and \<open>A[:,-k]\<close>, and the assignments to a column.
\<close>

definition cols_1_m1 :: "'a ndarray \<Rightarrow> 'a ndarray" where
  "cols_1_m1 A = NDArray (map slice_1_m1 (rows A))"

definition cols_to_m2 :: "'a ndarray \<Rightarrow> 'a ndarray" where
  "cols_to_m2 A = NDArray (map slice_to_m2 (rows A))"

definition cols_from_2 :: "'a ndarray \<Rightarrow> 'a ndarray" where
  "cols_from_2 A = NDArray (map slice_from_2 (rows A))"

definition set_cols_1_m1 :: "'a ndarray \<Rightarrow> 'a ndarray \<Rightarrow> 'a ndarray" where
  "set_cols_1_m1 A B = NDArray (map2 set_slice_1_m1 (rows A) (rows B))"

definition col :: "'a ndarray \<Rightarrow> nat \<Rightarrow> 'a list" where
  "col A j = map (\<lambda>row. row ! j) (rows A)"

definition col_neg :: "'a ndarray \<Rightarrow> nat \<Rightarrow> 'a list" where
  "col_neg A k = map (\<lambda>row. row ! (length row - k)) (rows A)"

definition set_col :: "'a ndarray \<Rightarrow> nat \<Rightarrow> 'a list \<Rightarrow> 'a ndarray" where
  "set_col A j v = NDArray (map2 (\<lambda>row x. row[j := x]) (rows A) v)"

definition set_col_neg :: "'a ndarray \<Rightarrow> nat \<Rightarrow> 'a list \<Rightarrow> 'a ndarray" where
  "set_col_neg A k v = NDArray (map2 (\<lambda>row x. row[length row - k := x]) (rows A) v)"

text \<open>The slices along the first axis (\<open>A[1:-1,:]\<close>, ...) and the rows \<open>A[i,:]\<close>, \<open>A[-k,:]\<close>.\<close>

definition rows_1_m1 :: "'a ndarray \<Rightarrow> 'a ndarray" where
  "rows_1_m1 A = NDArray (slice_1_m1 (rows A))"

definition rows_to_m2 :: "'a ndarray \<Rightarrow> 'a ndarray" where
  "rows_to_m2 A = NDArray (slice_to_m2 (rows A))"

definition rows_from_2 :: "'a ndarray \<Rightarrow> 'a ndarray" where
  "rows_from_2 A = NDArray (slice_from_2 (rows A))"

definition set_rows_1_m1 :: "'a ndarray \<Rightarrow> 'a ndarray \<Rightarrow> 'a ndarray" where
  "set_rows_1_m1 A B = NDArray (set_slice_1_m1 (rows A) (rows B))"

definition row_neg :: "'a ndarray \<Rightarrow> nat \<Rightarrow> 'a list" where
  "row_neg A k = rows A ! (length (rows A) - k)"

definition set_row :: "'a ndarray \<Rightarrow> nat \<Rightarrow> 'a list \<Rightarrow> 'a ndarray" where
  "set_row A i v = NDArray ((rows A)[i := v])"

definition set_row_neg :: "'a ndarray \<Rightarrow> nat \<Rightarrow> 'a list \<Rightarrow> 'a ndarray" where
  "set_row_neg A k v = NDArray ((rows A)[length (rows A) - k := v])"

text \<open>Sums and scalar multiples of one-dimensional arrays.\<close>

definition vadd :: "'a::plus list \<Rightarrow> 'a list \<Rightarrow> 'a list" where
  "vadd xs ys = map2 (+) xs ys"

definition vscal :: "'a::times \<Rightarrow> 'a list \<Rightarrow> 'a list" where
  "vscal a xs = map (\<lambda>x. a * x) xs"

text \<open>
  \<open>binomial_filter\<close>. The filtered values are computed from the copy \<open>F_unfiltered\<close> of the
  input. In either direction the interior is assigned first, then the entry of index 0,
  then the entry of index -1. Reading the column (or row) of index 1 or -2 raises
  \<open>IndexError\<close> when the axis has fewer than two entries; the interior slice is empty
  then, so nothing has been written. An array is taken to have at least one row, so that
  the length of its second axis is the length of its rows.
\<close>

definition binomial_filter :: "complex ndarray \<Rightarrow> string \<Rightarrow> int \<Rightarrow> complex ndarray result" where
  "binomial_filter A direction sign_guard =
     (let F_unfiltered = A in
      if direction = ''z'' then
        (let A1 = set_rows_1_m1 A
                    (scal 0.25 (rows_to_m2 F_unfiltered)
                     + scal 0.5 (rows_1_m1 F_unfiltered)
                     + scal 0.25 (rows_from_2 F_unfiltered))
         in if length (rows F_unfiltered) < 2 then Inl (IndexError, A1)
            else
              let A2 = set_row A1 0
                         (vadd (vadd (vscal 0.25 (row_neg F_unfiltered 1))
                                     (vscal 0.5 (rows F_unfiltered ! 0)))
                               (vscal 0.25 (rows F_unfiltered ! 1)));
                  A3 = set_row_neg A2 1
                         (vadd (vadd (vscal 0.25 (row_neg F_unfiltered 2))
                                     (vscal 0.5 (row_neg F_unfiltered 1)))
                               (vscal 0.25 (rows F_unfiltered ! 0)))
              in Inr A3)
      else if direction = ''r'' then
        (let A1 = set_cols_1_m1 A
                    (scal 0.25 (cols_to_m2 F_unfiltered)
                     + scal 0.5 (cols_1_m1 F_unfiltered)
                     + scal 0.25 (cols_from_2 F_unfiltered))
         in if list_ex (\<lambda>row. length row < 2) (rows F_unfiltered) then Inl (IndexError, A1)
            else
              let A2 = set_col A1 0
                         (vadd (vadd (vscal (0.25 * of_int sign_guard) (col F_unfiltered 0))
                                     (vscal 0.5 (col F_unfiltered 0)))
                               (vscal 0.5 (col F_unfiltered 1)));
                  A3 = set_col_neg A2 1
                         (vadd (vadd (vscal 0.25 (col_neg F_unfiltered 1))
                                     (vscal 0.5 (col_neg F_unfiltered 1)))
                               (vscal 0.25 (col_neg F_unfiltered 2)))
              in Inr A3)
      else Inl (UnrecognizedDirection direction, A))"

section \<open>The interpolation grid\<close>

text \<open>
  \<open>InterpolationGrid\<close>: the fields on the (z, r) grid of one azimuthal mode. The
  attributes that describe the geometry (\<open>z\<close>, \<open>r\<close>, \<open>dz\<close>, \<open>dr\<close>, the extents) are left
  out; \<open>invvol\<close> is the inverse of the cell volume, one value per radial index. The
  attributes \<open>Nz\<close>, \<open>Nr\<close>, \<open>m\<close>, \<open>Ez\<close>, \<open>Bz\<close>, \<open>Jz\<close> carry the suffix \<open>_interp\<close>, since
  the spectral grid has attributes of the same names.
\<close>

record InterpolationGrid =
  Nz_interp :: nat
  Nr_interp :: nat
  m_interp :: nat
  invvol :: "real list"
  Er :: "complex ndarray"
  Et :: "complex ndarray"
  Ez_interp :: "complex ndarray"
  Br :: "complex ndarray"
  Bt :: "complex ndarray"
  Bz_interp :: "complex ndarray"
  Jr :: "complex ndarray"
  Jt :: "complex ndarray"
  Jz_interp :: "complex ndarray"
  rho :: "complex ndarray"

text \<open>Sequencing of calls that may raise: the first error ends the sequence.\<close>

definition bind_result :: "'s result \<Rightarrow> ('s \<Rightarrow> 's result) \<Rightarrow> 's result" where
  "bind_result r f = (case r of Inl e \<Rightarrow> Inl e | Inr s \<Rightarrow> f s)"

text \<open>
  One call \<open>binomial_filter( self.X, direction, sign )\<close>: the array \<open>X\<close> of the grid is
  filtered in place.
\<close>

definition filter_component ::
  "(InterpolationGrid \<Rightarrow> complex ndarray) \<Rightarrow> (complex ndarray \<Rightarrow> InterpolationGrid \<Rightarrow> InterpolationGrid)
   \<Rightarrow> string \<Rightarrow> int \<Rightarrow> InterpolationGrid \<Rightarrow> InterpolationGrid result" where
  "filter_component get put direction sign_guard g =
     (case binomial_filter (get g) direction sign_guard of
        Inl (e, a) \<Rightarrow> Inl (e, put a g)
      | Inr a \<Rightarrow> Inr (put a g))"

text \<open>
  \<open>InterpolationGrid.filter\<close>. The sign of the guard cell below the axis is \<open>(-1)**m\<close>
  for \<open>rho\<close> and the z components, and \<open>-(-1)**m\<close> for the r and t components.
\<close>

definition InterpolationGrid_filter ::
  "InterpolationGrid \<Rightarrow> string \<Rightarrow> string \<Rightarrow> InterpolationGrid result" where
  "InterpolationGrid_filter g fieldtype direction =
     (if fieldtype = ''rho'' then
        filter_component rho (\<lambda>a g. g\<lparr> rho := a \<rparr>) direction ((- 1) ^ m_interp g) g
      else if fieldtype = ''J'' then
        bind_result (bind_result
          (filter_component Jr (\<lambda>a g. g\<lparr> Jr := a \<rparr>) direction (- ((- 1) ^ m_interp g)) g)
          (filter_component Jt (\<lambda>a g. g\<lparr> Jt := a \<rparr>) direction (- ((- 1) ^ m_interp g))))
          (filter_component Jz_interp (\<lambda>a g. g\<lparr> Jz_interp := a \<rparr>) direction ((- 1) ^ m_interp g))
      else if fieldtype = ''E'' then
        bind_result (bind_result
          (filter_component Er (\<lambda>a g. g\<lparr> Er := a \<rparr>) direction (- ((- 1) ^ m_interp g)) g)
          (filter_component Et (\<lambda>a g. g\<lparr> Et := a \<rparr>) direction (- ((- 1) ^ m_interp g))))
          (filter_component Ez_interp (\<lambda>a g. g\<lparr> Ez_interp := a \<rparr>) direction ((- 1) ^ m_interp g))
      else if fieldtype = ''B'' then
        bind_result (bind_result
          (filter_component Br (\<lambda>a g. g\<lparr> Br := a \<rparr>) direction (- ((- 1) ^ m_interp g)) g)
          (filter_component Bt (\<lambda>a g. g\<lparr> Bt := a \<rparr>) direction (- ((- 1) ^ m_interp g))))
          (filter_component Bz_interp (\<lambda>a g. g\<lparr> Bz_interp := a \<rparr>) direction ((- 1) ^ m_interp g))
      else Inl (InvalidFieldtype fieldtype, g))"

section \<open>The spectral grid\<close>

text \<open>
  \<open>SpectralGrid\<close>: the meshes \<open>kz\<close>, \<open>kr\<close>, the fields on the (kz, kr) grid of one
  azimuthal mode, and the auxiliary arrays. The methods follow the CPU branch.
\<close>

record SpectralGrid =
  Nr :: nat
  Nz :: nat
  m :: nat
  kz :: "real ndarray"
  kr :: "real ndarray"
  Ep :: "complex ndarray"
  Em :: "complex ndarray"
  Ez :: "complex ndarray"
  Bp :: "complex ndarray"
  Bm :: "complex ndarray"
  Bz :: "complex ndarray"
  Jp :: "complex ndarray"
  Jm :: "complex ndarray"
  Jz :: "complex ndarray"
  rho_prev :: "complex ndarray"
  rho_next :: "complex ndarray"
  F :: "complex ndarray"
  inv_k2 :: "real ndarray"
  filter_array :: "real ndarray"

text \<open>
  \<open>get_filter_array\<close>: the product of the one-dimensional filters
  \<open>1 - sin(k / kmax * pi/2) ** 2\<close>. \<open>kz.max()\<close> raises on an empty array. (A maximum
  equal to zero makes \<open>1. / kz.max()\<close> infinite in floating point; no statement below
  depends on the filter weights.)
\<close>

definition get_filter_array :: "real list \<Rightarrow> real list \<Rightarrow> error + real ndarray" where
  "get_filter_array kz1 kr1 =
     (if kz1 = [] then Inl ZeroSizeReduction
      else let coef_z = 1 / Max (set kz1) * pi / 2;
               filt_z = map (\<lambda>k. 1 - sin (k * coef_z) ^ 2) kz1
      in if kr1 = [] then Inl ZeroSizeReduction
      else let coef_r = 1 / Max (set kr1) * pi / 2;
               filt_r = map (\<lambda>k. 1 - sin (k * coef_r) ^ 2) kr1
      in Inr (NDArray (map (\<lambda>fz. map (\<lambda>fr. fz * fr) filt_r) filt_z)))"

text \<open>
  \<open>SpectralGrid.__init__\<close>. The array \<open>inv_k2\<close> is \<open>1 / (kz ** 2 + kr ** 2)\<close>, where the
  divisor is replaced by 1 at the points with \<open>kz = 0\<close> and \<open>kr = 0\<close>, and the entry is
  then set to 0 at those points.
\<close>

definition k0_mask :: "real ndarray \<Rightarrow> real ndarray \<Rightarrow> bool ndarray" where
  "k0_mask kzm krm = mask_and (eq0 kzm) (eq0 krm)"

definition inv_k2_divisor :: "real ndarray \<Rightarrow> real ndarray \<Rightarrow> real ndarray" where
  "inv_k2_divisor kzm krm = where_scalar (k0_mask kzm krm) 1 (sq kzm + sq krm)"

definition inv_k2_of :: "real ndarray \<Rightarrow> real ndarray \<Rightarrow> real ndarray" where
  "inv_k2_of kzm krm =
     (let inv = recip (inv_k2_divisor kzm krm)
      in set_masked inv (k0_mask kzm krm) 0)"

definition SpectralGrid_init :: "real list \<Rightarrow> real list \<Rightarrow> nat \<Rightarrow> error + SpectralGrid" where
  "SpectralGrid_init kz1 kr1 m0 =
     (let nz = length kz1;
          nr = length kr1;
          (kzm, krm) = meshgrid_ij kz1 kr1
      in case get_filter_array kz1 kr1 of
           Inl e \<Rightarrow> Inl e
         | Inr fa \<Rightarrow> Inr
            \<lparr> Nr = nr, Nz = nz, m = m0, kz = kzm, kr = krm,
              Ep = zeros nz nr, Em = zeros nz nr, Ez = zeros nz nr,
              Bp = zeros nz nr, Bm = zeros nz nr, Bz = zeros nz nr,
              Jp = zeros nz nr, Jm = zeros nz nr, Jz = zeros nz nr,
              rho_prev = zeros nz nr, rho_next = zeros nz nr,
              F = zeros nz nr, inv_k2 = inv_k2_of kzm krm, filter_array = fa \<rparr>)"

text \<open>
  \<open>SpectralGrid.correct_currents\<close>, CPU branch. The scratch array \<open>F\<close> is computed from
  the currents before the correction, and the three currents are then updated in turn.
\<close>

definition correct_currents :: "real \<Rightarrow> SpectralGrid \<Rightarrow> SpectralGrid result" where
  "correct_currents dt s =
     (if dt = 0 then Inl (ZeroDivisionError, s)
      else let inv_dt = 1 / dt;
               s1 = s\<lparr> F := assign_all (F s)
                      (- cplx (inv_k2 s) *
                         (scal (complex_of_real inv_dt) (rho_next s - rho_prev s)
                          + scal \<i> (cplx (kz s)) * Jz s
                          + cplx (kr s) * (Jp s - Jm s))) \<rparr>;
               s2 = s1\<lparr> Jp := Jp s1 + scal 0.5 (cplx (kr s1)) * F s1 \<rparr>;
               s3 = s2\<lparr> Jm := Jm s2 + scal (- 0.5) (cplx (kr s2)) * F s2 \<rparr>;
               s4 = s3\<lparr> Jz := Jz s3 + scal (- \<i>) (cplx (kz s3)) * F s3 \<rparr>
      in Inr s4)"

text \<open>\<open>SpectralGrid.push_rho\<close>, CPU branch.\<close>

definition push_rho :: "SpectralGrid \<Rightarrow> SpectralGrid" where
  "push_rho s =
     (let s1 = s\<lparr> rho_prev := assign_all (rho_prev s) (rho_next s) \<rparr>;
          s2 = s1\<lparr> rho_next := fill (rho_next s1) 0 \<rparr>
      in s2)"

text \<open>\<open>SpectralGrid.filter\<close>, CPU branch.\<close>

definition SpectralGrid_filter :: "SpectralGrid \<Rightarrow> string \<Rightarrow> SpectralGrid result" where
  "SpectralGrid_filter s fieldtype =
     (if fieldtype = ''rho_prev'' then
        Inr (s\<lparr> rho_prev := rho_prev s * cplx (filter_array s) \<rparr>)
      else if fieldtype = ''rho_next'' then
        Inr (s\<lparr> rho_next := rho_next s * cplx (filter_array s) \<rparr>)
      else if fieldtype = ''J'' then
        (let s1 = s\<lparr> Jp := Jp s * cplx (filter_array s) \<rparr>;
             s2 = s1\<lparr> Jm := Jm s1 * cplx (filter_array s1) \<rparr>;
             s3 = s2\<lparr> Jz := Jz s2 * cplx (filter_array s2) \<rparr>
         in Inr s3)
      else if fieldtype = ''E'' then
        (let s1 = s\<lparr> Ep := Ep s * cplx (filter_array s) \<rparr>;
             s2 = s1\<lparr> Em := Em s1 * cplx (filter_array s1) \<rparr>;
             s3 = s2\<lparr> Ez := Ez s2 * cplx (filter_array s2) \<rparr>
         in Inr s3)
      else if fieldtype = ''B'' then
        (let s1 = s\<lparr> Bp := Bp s * cplx (filter_array s) \<rparr>;
             s2 = s1\<lparr> Bm := Bm s1 * cplx (filter_array s1) \<rparr>;
             s3 = s2\<lparr> Bz := Bz s2 * cplx (filter_array s2) \<rparr>
         in Inr s3)
      else Inl (InvalidFieldtype fieldtype, s))"

section \<open>The coefficients of the PSATD scheme\<close>

text \<open>
  \<open>PsatdCoeffs\<close>. The attributes \<open>m\<close>, \<open>dt\<close> and the scratch arrays \<open>Ep\<close>, \<open>Em\<close>, \<open>Ez\<close>
  carry the prefix \<open>ps_\<close>.
\<close>

record PsatdCoeffs =
  ps_m :: nat
  ps_dt :: real
  C :: "real ndarray"
  S_w :: "real ndarray"
  j_coef :: "real ndarray"
  rho_prev_coef :: "real ndarray"
  rho_next_coef :: "real ndarray"
  ps_Ep :: "complex ndarray"
  ps_Em :: "complex ndarray"
  ps_Ez :: "complex ndarray"

text \<open>
  The array \<open>w = c * np.sqrt(kz ** 2 + kr ** 2)\<close> and the divisor
  \<open>np.where(w == 0, 1., w)\<close> of \<open>inv_w\<close>.
\<close>

definition omega :: "real ndarray \<Rightarrow> real ndarray \<Rightarrow> real ndarray" where
  "omega kzm krm = scal c_light (np_sqrt (sq kzm + sq krm))"

definition inv_w_divisor :: "real ndarray \<Rightarrow> real ndarray" where
  "inv_w_divisor w = where_scalar (eq0 w) 1 w"

text \<open>
  \<open>PsatdCoeffs.__init__\<close>. Each coefficient is first computed from the general formula
  with \<open>inv_w\<close>, and its entries at the points with \<open>w == 0\<close> are then overwritten by the
  limit. \<open>inv_dt = 1. / dt\<close> raises for \<open>dt = 0\<close>.
\<close>

definition PsatdCoeffs_init ::
  "real ndarray \<Rightarrow> real ndarray \<Rightarrow> nat \<Rightarrow> real \<Rightarrow> nat \<Rightarrow> nat \<Rightarrow> error + PsatdCoeffs" where
  "PsatdCoeffs_init kzm krm m0 dt nz nr =
     (let w = omega kzm krm;
          inv_w = recip (inv_w_divisor w);
          C0 = np_cos (scal dt w);
          S = np_sin (scal dt w) * inv_w;
          S = set_masked S (eq0 w) dt;
          j = scal (mu_0 * c_light ^ 2) (amap (\<lambda>x. 1 - x) C0) * sq inv_w;
          j = set_masked j (eq0 w) (mu_0 * c_light ^ 2 * (0.5 * dt ^ 2))
      in if dt = 0 then Inl ZeroDivisionError
         else
           let inv_dt = 1 / dt;
               rp = scal (c_light ^ 2 / epsilon_0) (C0 - scal inv_dt S) * sq inv_w;
               rp = set_masked rp (eq0 w) (c_light ^ 2 / epsilon_0 * (- 1 / 3 * dt ^ 2));
               rn = scal (c_light ^ 2 / epsilon_0) (amap (\<lambda>x. 1 - x) (scal inv_dt S)) * sq inv_w;
               rn = set_masked rn (eq0 w) (c_light ^ 2 / epsilon_0 * (1 / 6 * dt ^ 2))
           in Inr \<lparr> ps_m = m0, ps_dt = dt, C = C0, S_w = S, j_coef = j,
                    rho_prev_coef = rp, rho_next_coef = rn,
                    ps_Ep = zeros nz nr, ps_Em = zeros nz nr, ps_Ez = zeros nz nr \<rparr>)"

section \<open>The field push\<close>

text \<open>
  \<open>SpectralGrid.push_eb_with\<close>, CPU branch. The electric field is saved in the scratch
  arrays of the coefficients object before it is overwritten, since the push of the
  magnetic field needs its old value. The method changes both objects.
\<close>

definition push_eb_with ::
  "SpectralGrid \<Rightarrow> PsatdCoeffs \<Rightarrow> bool \<Rightarrow> bool \<Rightarrow> (SpectralGrid \<times> PsatdCoeffs) result" where
  "push_eb_with s ps ptcl_feedback use_true_rho =
     (if m s \<noteq> ps_m ps then Inl (AssertionError, (s, ps))
      else
        let c2 = c_light ^ 2;
            ps = ps\<lparr> ps_Ep := assign_all (ps_Ep ps) (Ep s) \<rparr>;
            ps = ps\<lparr> ps_Em := assign_all (ps_Em ps) (Em s) \<rparr>;
            ps = ps\<lparr> ps_Ez := assign_all (ps_Ez ps) (Ez s) \<rparr>
        in
        if ptcl_feedback then
          let rho_diff =
                (if use_true_rho then
                   cplx (rho_next_coef ps) * rho_next s - cplx (rho_prev_coef ps) * rho_prev s
                 else
                   cplx (scal epsilon_0 (rho_next_coef ps - rho_prev_coef ps))
                     * (cplx (kr s) * Ep s - cplx (kr s) * Em s + scal \<i> (cplx (kz s)) * Ez s)
                   - cplx (scal (ps_dt ps) (rho_next_coef ps))
                     * (cplx (kr s) * Jp s - cplx (kr s) * Jm s + scal \<i> (cplx (kz s)) * Jz s));
              s = s\<lparr> Ep := assign_all (Ep s)
                    (cplx (C ps) * Ep s + scal 0.5 (cplx (kr s)) * rho_diff
                     + cplx (scal c2 (S_w ps))
                       * (scal (- \<i> * 0.5) (cplx (kr s)) * Bz s + cplx (kz s) * Bp s
                          - scal (complex_of_real mu_0) (Jp s))) \<rparr>;
              s = s\<lparr> Em := assign_all (Em s)
                    (cplx (C ps) * Em s - scal 0.5 (cplx (kr s)) * rho_diff
                     + cplx (scal c2 (S_w ps))
                       * (scal (- \<i> * 0.5) (cplx (kr s)) * Bz s - cplx (kz s) * Bm s
                          - scal (complex_of_real mu_0) (Jm s))) \<rparr>;
              s = s\<lparr> Ez := assign_all (Ez s)
                    (cplx (C ps) * Ez s - scal \<i> (cplx (kz s)) * rho_diff
                     + cplx (scal c2 (S_w ps))
                       * (scal \<i> (cplx (kr s)) * Bp s + scal \<i> (cplx (kr s)) * Bm s
                          - scal (complex_of_real mu_0) (Jz s))) \<rparr>;
              s = s\<lparr> Bp := assign_all (Bp s)
                    (cplx (C ps) * Bp s
                     - cplx (S_w ps)
                       * (scal (- \<i> * 0.5) (cplx (kr s)) * ps_Ez ps + cplx (kz s) * ps_Ep ps)
                     + cplx (j_coef ps)
                       * (scal (- \<i> * 0.5) (cplx (kr s)) * Jz s + cplx (kz s) * Jp s)) \<rparr>;
              s = s\<lparr> Bm := assign_all (Bm s)
                    (cplx (C ps) * Bm s
                     - cplx (S_w ps)
                       * (scal (- \<i> * 0.5) (cplx (kr s)) * ps_Ez ps - cplx (kz s) * ps_Em ps)
                     + cplx (j_coef ps)
                       * (scal (- \<i> * 0.5) (cplx (kr s)) * Jz s - cplx (kz s) * Jm s)) \<rparr>;
              s = s\<lparr> Bz := assign_all (Bz s)
                    (cplx (C ps) * Bz s
                     - cplx (S_w ps)
                       * (scal \<i> (cplx (kr s)) * ps_Ep ps + scal \<i> (cplx (kr s)) * ps_Em ps)
                     + cplx (j_coef ps)
                       * (scal \<i> (cplx (kr s)) * Jp s + scal \<i> (cplx (kr s)) * Jm s)) \<rparr>
          in Inr (s, ps)
        else
          let s = s\<lparr> Ep := assign_all (Ep s)
                    (cplx (C ps) * Ep s
                     + cplx (scal c2 (S_w ps))
                       * (scal (- \<i> * 0.5) (cplx (kr s)) * Bz s + cplx (kz s) * Bp s)) \<rparr>;
              s = s\<lparr> Em := assign_all (Em s)
                    (cplx (C ps) * Em s
                     + cplx (scal c2 (S_w ps))
                       * (scal (- \<i> * 0.5) (cplx (kr s)) * Bz s - cplx (kz s) * Bm s)) \<rparr>;
              s = s\<lparr> Ez := assign_all (Ez s)
                    (cplx (C ps) * Ez s
                     + cplx (scal c2 (S_w ps))
                       * (scal \<i> (cplx (kr s)) * Bp s + scal \<i> (cplx (kr s)) * Bm s)) \<rparr>;
              s = s\<lparr> Bp := assign_all (Bp s)
                    (cplx (C ps) * Bp s
                     - cplx (S_w ps)
                       * (scal (- \<i> * 0.5) (cplx (kr s)) * ps_Ez ps + cplx (kz s) * ps_Ep ps)) \<rparr>;
              s = s\<lparr> Bm := assign_all (Bm s)
                    (cplx (C ps) * Bm s
                     - cplx (S_w ps)
                       * (scal (- \<i> * 0.5) (cplx (kr s)) * ps_Ez ps - cplx (kz s) * ps_Em ps)) \<rparr>;
              s = s\<lparr> Bz := assign_all (Bz s)
                    (cplx (C ps) * Bz s
                     - cplx (S_w ps)
                       * (scal \<i> (cplx (kr s)) * ps_Ep ps + scal \<i> (cplx (kr s)) * ps_Em ps)) \<rparr>
          in Inr (s, ps))"

section \<open>The spectral transformer\<close>

text \<open>
  \<open>SpectralTransformer\<close>. The discrete Hankel transforms \<open>dht0\<close>, \<open>dhtp\<close>, \<open>dhtm\<close> (of the
  module \<open>hankel_dt\<close>) and the Fourier transforms along z (of \<open>pyfftw\<close>) are external: each
  is a field of the record, a function from the array it reads to the array it writes.
  \<open>spect_buffer_p\<close> and \<open>spect_buffer_m\<close> are second names of the arrays
  \<open>spect_buffer_r\<close> and \<open>spect_buffer_t\<close>, so the record has one field for each pair.
\<close>

record SpectralTransformer =
  dht0_transform :: "complex ndarray \<Rightarrow> complex ndarray"
  dht0_inverse_transform :: "complex ndarray \<Rightarrow> complex ndarray"
  dhtp_transform :: "complex ndarray \<Rightarrow> complex ndarray"
  dhtp_inverse_transform :: "complex ndarray \<Rightarrow> complex ndarray"
  dhtm_transform :: "complex ndarray \<Rightarrow> complex ndarray"
  dhtm_inverse_transform :: "complex ndarray \<Rightarrow> complex ndarray"
  fft_r :: "complex ndarray \<Rightarrow> complex ndarray"
  ifft_r :: "complex ndarray \<Rightarrow> complex ndarray"
  fft_t :: "complex ndarray \<Rightarrow> complex ndarray"
  ifft_t :: "complex ndarray \<Rightarrow> complex ndarray"
  interp_buffer_r :: "complex ndarray"
  spect_buffer_r :: "complex ndarray"
  interp_buffer_t :: "complex ndarray"
  spect_buffer_t :: "complex ndarray"

text \<open>
  The four conversions. Each takes the transformer, the arrays it reads and the arrays it
  overwrites, and returns the transformer with its buffers updated and the new contents
  of the overwritten arrays.
\<close>

definition spect2interp_scal ::
  "SpectralTransformer \<Rightarrow> complex ndarray \<Rightarrow> complex ndarray
   \<Rightarrow> SpectralTransformer \<times> complex ndarray" where
  "spect2interp_scal tr spect_array interp_array =
     (let tr = tr\<lparr> spect_buffer_r := dht0_inverse_transform tr spect_array \<rparr>;
          tr = tr\<lparr> interp_buffer_r := ifft_r tr (spect_buffer_r tr) \<rparr>
      in (tr, assign_all interp_array (interp_buffer_r tr)))"

definition spect2interp_vect ::
  "SpectralTransformer \<Rightarrow> complex ndarray \<Rightarrow> complex ndarray \<Rightarrow> complex ndarray \<Rightarrow> complex ndarray
   \<Rightarrow> SpectralTransformer \<times> complex ndarray \<times> complex ndarray" where
  "spect2interp_vect tr spect_array_p spect_array_m interp_array_r interp_array_t =
     (let tr = tr\<lparr> spect_buffer_r := dhtp_inverse_transform tr spect_array_p \<rparr>;
          tr = tr\<lparr> spect_buffer_t := dhtm_inverse_transform tr spect_array_m \<rparr>;
          new_p = spect_buffer_r tr + spect_buffer_t tr;
          new_m = scal \<i> (spect_buffer_r tr - spect_buffer_t tr);
          tr = tr\<lparr> spect_buffer_r := assign_all (spect_buffer_r tr) new_p \<rparr>;
          tr = tr\<lparr> spect_buffer_t := assign_all (spect_buffer_t tr) new_m \<rparr>;
          tr = tr\<lparr> interp_buffer_r := ifft_r tr (spect_buffer_r tr) \<rparr>;
          out_r = assign_all interp_array_r (interp_buffer_r tr);
          tr = tr\<lparr> interp_buffer_t := ifft_t tr (spect_buffer_t tr) \<rparr>;
          out_t = assign_all interp_array_t (interp_buffer_t tr)
      in (tr, out_r, out_t))"

definition interp2spect_scal ::
  "SpectralTransformer \<Rightarrow> complex ndarray \<Rightarrow> complex ndarray
   \<Rightarrow> SpectralTransformer \<times> complex ndarray" where
  "interp2spect_scal tr interp_array spect_array =
     (let tr = tr\<lparr> interp_buffer_r := assign_all (interp_buffer_r tr) interp_array \<rparr>;
          tr = tr\<lparr> spect_buffer_r := fft_r tr (interp_buffer_r tr) \<rparr>
      in (tr, dht0_transform tr (spect_buffer_r tr)))"

definition interp2spect_vect ::
  "SpectralTransformer \<Rightarrow> complex ndarray \<Rightarrow> complex ndarray \<Rightarrow> complex ndarray \<Rightarrow> complex ndarray
   \<Rightarrow> SpectralTransformer \<times> complex ndarray \<times> complex ndarray" where
  "interp2spect_vect tr interp_array_r interp_array_t spect_array_p spect_array_m =
     (let tr = tr\<lparr> interp_buffer_r := assign_all (interp_buffer_r tr) interp_array_r \<rparr>;
          tr = tr\<lparr> spect_buffer_r := fft_r tr (interp_buffer_r tr) \<rparr>;
          tr = tr\<lparr> interp_buffer_t := assign_all (interp_buffer_t tr) interp_array_t \<rparr>;
          tr = tr\<lparr> spect_buffer_t := fft_t tr (interp_buffer_t tr) \<rparr>;
          new_p = scal 0.5 (spect_buffer_r tr - scal \<i> (spect_buffer_t tr));
          new_m = scal 0.5 (spect_buffer_r tr + scal \<i> (spect_buffer_t tr));
          tr = tr\<lparr> spect_buffer_r := assign_all (spect_buffer_r tr) new_p \<rparr>;
          tr = tr\<lparr> spect_buffer_t := assign_all (spect_buffer_t tr) new_m \<rparr>
      in (tr, dhtp_transform tr (spect_buffer_r tr), dhtm_transform tr (spect_buffer_t tr)))"

section \<open>The fields of the simulation\<close>

text \<open>
  \<open>Fields\<close>: one transformer, one interpolation grid, one spectral grid and one set of
  coefficients per azimuthal mode, in four lists indexed by the mode. The attributes
  \<open>Nz\<close>, \<open>Nr\<close>, \<open>rmax\<close>, \<open>dt\<close> carry the suffix \<open>_fields\<close>. The methods follow the
  CPU branch (\<open>use_cuda = False\<close>); the other branch launches kernels of the module
  \<open>cuda_methods\<close>, and the choice between the two is a choice of execution target.
\<close>

record Fields =
  Nz_fields :: nat
  Nr_fields :: nat
  rmax_fields :: real
  Nm :: nat
  dt_fields :: real
  trans :: "SpectralTransformer list"
  interp :: "InterpolationGrid list"
  spect :: "SpectralGrid list"
  psatd :: "PsatdCoeffs list"

text \<open>
  \<open>for m in range(self.Nm)\<close>: the body is run for each mode in turn, and the first error
  ends the loop.
\<close>

fun for_modes :: "nat list \<Rightarrow> (nat \<Rightarrow> 's \<Rightarrow> 's result) \<Rightarrow> 's \<Rightarrow> 's result" where
  "for_modes [] body fs = Inr fs"
| "for_modes (k # ks) body fs =
     (case body k fs of Inl e \<Rightarrow> Inl e | Inr fs' \<Rightarrow> for_modes ks body fs')"

text \<open>
  The calls of the transformer of mode \<open>k\<close> on arrays of the two grids of mode \<open>k\<close>.
  Indexing one of the lists beyond its length raises \<open>IndexError\<close>.
\<close>

definition i2s_scal ::
  "(InterpolationGrid \<Rightarrow> complex ndarray) \<Rightarrow> (SpectralGrid \<Rightarrow> complex ndarray)
   \<Rightarrow> (complex ndarray \<Rightarrow> SpectralGrid \<Rightarrow> SpectralGrid) \<Rightarrow> nat \<Rightarrow> Fields \<Rightarrow> Fields result" where
  "i2s_scal src dst put k fs =
     (if k < length (trans fs) \<and> k < length (interp fs) \<and> k < length (spect fs) then
        let (tr, out) = interp2spect_scal (trans fs ! k) (src (interp fs ! k)) (dst (spect fs ! k))
        in Inr (fs\<lparr> trans := (trans fs)[k := tr],
                    spect := (spect fs)[k := put out (spect fs ! k)] \<rparr>)
      else Inl (IndexError, fs))"

definition i2s_vect ::
  "(InterpolationGrid \<Rightarrow> complex ndarray) \<Rightarrow> (InterpolationGrid \<Rightarrow> complex ndarray)
   \<Rightarrow> (SpectralGrid \<Rightarrow> complex ndarray) \<Rightarrow> (SpectralGrid \<Rightarrow> complex ndarray)
   \<Rightarrow> (complex ndarray \<Rightarrow> complex ndarray \<Rightarrow> SpectralGrid \<Rightarrow> SpectralGrid)
   \<Rightarrow> nat \<Rightarrow> Fields \<Rightarrow> Fields result" where
  "i2s_vect src_r src_t dst_p dst_m put k fs =
     (if k < length (trans fs) \<and> k < length (interp fs) \<and> k < length (spect fs) then
        let (tr, out_p, out_m) =
              interp2spect_vect (trans fs ! k) (src_r (interp fs ! k)) (src_t (interp fs ! k))
                (dst_p (spect fs ! k)) (dst_m (spect fs ! k))
        in Inr (fs\<lparr> trans := (trans fs)[k := tr],
                    spect := (spect fs)[k := put out_p out_m (spect fs ! k)] \<rparr>)
      else Inl (IndexError, fs))"

definition s2i_scal ::
  "(SpectralGrid \<Rightarrow> complex ndarray) \<Rightarrow> (InterpolationGrid \<Rightarrow> complex ndarray)
   \<Rightarrow> (complex ndarray \<Rightarrow> InterpolationGrid \<Rightarrow> InterpolationGrid) \<Rightarrow> nat \<Rightarrow> Fields \<Rightarrow> Fields result" where
  "s2i_scal src dst put k fs =
     (if k < length (trans fs) \<and> k < length (spect fs) \<and> k < length (interp fs) then
        let (tr, out) = spect2interp_scal (trans fs ! k) (src (spect fs ! k)) (dst (interp fs ! k))
        in Inr (fs\<lparr> trans := (trans fs)[k := tr],
                    interp := (interp fs)[k := put out (interp fs ! k)] \<rparr>)
      else Inl (IndexError, fs))"

definition s2i_vect ::
  "(SpectralGrid \<Rightarrow> complex ndarray) \<Rightarrow> (SpectralGrid \<Rightarrow> complex ndarray)
   \<Rightarrow> (InterpolationGrid \<Rightarrow> complex ndarray) \<Rightarrow> (InterpolationGrid \<Rightarrow> complex ndarray)
   \<Rightarrow> (complex ndarray \<Rightarrow> complex ndarray \<Rightarrow> InterpolationGrid \<Rightarrow> InterpolationGrid)
   \<Rightarrow> nat \<Rightarrow> Fields \<Rightarrow> Fields result" where
  "s2i_vect src_p src_m dst_r dst_t put k fs =
     (if k < length (trans fs) \<and> k < length (spect fs) \<and> k < length (interp fs) then
        let (tr, out_r, out_t) =
              spect2interp_vect (trans fs ! k) (src_p (spect fs ! k)) (src_m (spect fs ! k))
                (dst_r (interp fs ! k)) (dst_t (interp fs ! k))
        in Inr (fs\<lparr> trans := (trans fs)[k := tr],
                    interp := (interp fs)[k := put out_r out_t (interp fs ! k)] \<rparr>)
      else Inl (IndexError, fs))"

text \<open>\<open>Fields.interp2spect\<close>.\<close>

definition interp2spect :: "Fields \<Rightarrow> string \<Rightarrow> Fields result" where
  "interp2spect fs fieldtype =
     (if fieldtype = ''E'' then
        for_modes [0..<Nm fs] (\<lambda>k fs. bind_result
          (i2s_scal Ez_interp Ez (\<lambda>a s. s\<lparr> Ez := a \<rparr>) k fs)
          (i2s_vect Er Et Ep Em (\<lambda>a b s. s\<lparr> Ep := a, Em := b \<rparr>) k)) fs
      else if fieldtype = ''B'' then
        for_modes [0..<Nm fs] (\<lambda>k fs. bind_result
          (i2s_scal Bz_interp Bz (\<lambda>a s. s\<lparr> Bz := a \<rparr>) k fs)
          (i2s_vect Br Bt Bp Bm (\<lambda>a b s. s\<lparr> Bp := a, Bm := b \<rparr>) k)) fs
      else if fieldtype = ''J'' then
        for_modes [0..<Nm fs] (\<lambda>k fs. bind_result
          (i2s_scal Jz_interp Jz (\<lambda>a s. s\<lparr> Jz := a \<rparr>) k fs)
          (i2s_vect Jr Jt Jp Jm (\<lambda>a b s. s\<lparr> Jp := a, Jm := b \<rparr>) k)) fs
      else if fieldtype = ''rho_next'' then
        for_modes [0..<Nm fs] (i2s_scal rho rho_next (\<lambda>a s. s\<lparr> rho_next := a \<rparr>)) fs
      else if fieldtype = ''rho_prev'' then
        for_modes [0..<Nm fs] (i2s_scal rho rho_prev (\<lambda>a s. s\<lparr> rho_prev := a \<rparr>)) fs
      else Inl (InvalidFieldtype fieldtype, fs))"

text \<open>\<open>Fields.spect2interp\<close>.\<close>

definition spect2interp :: "Fields \<Rightarrow> string \<Rightarrow> Fields result" where
  "spect2interp fs fieldtype =
     (if fieldtype = ''E'' then
        for_modes [0..<Nm fs] (\<lambda>k fs. bind_result
          (s2i_scal Ez Ez_interp (\<lambda>a g. g\<lparr> Ez_interp := a \<rparr>) k fs)
          (s2i_vect Ep Em Er Et (\<lambda>a b g. g\<lparr> Er := a, Et := b \<rparr>) k)) fs
      else if fieldtype = ''B'' then
        for_modes [0..<Nm fs] (\<lambda>k fs. bind_result
          (s2i_scal Bz Bz_interp (\<lambda>a g. g\<lparr> Bz_interp := a \<rparr>) k fs)
          (s2i_vect Bp Bm Br Bt (\<lambda>a b g. g\<lparr> Br := a, Bt := b \<rparr>) k)) fs
      else if fieldtype = ''J'' then
        for_modes [0..<Nm fs] (\<lambda>k fs. bind_result
          (s2i_scal Jz Jz_interp (\<lambda>a g. g\<lparr> Jz_interp := a \<rparr>) k fs)
          (s2i_vect Jp Jm Jr Jt (\<lambda>a b g. g\<lparr> Jr := a, Jt := b \<rparr>) k)) fs
      else if fieldtype = ''rho'' then
        for_modes [0..<Nm fs] (s2i_scal rho_next rho (\<lambda>a g. g\<lparr> rho := a \<rparr>)) fs
      else Inl (InvalidFieldtype fieldtype, fs))"

text \<open>A statement on the interpolation grid of mode \<open>k\<close>.\<close>

definition on_interp :: "(InterpolationGrid \<Rightarrow> InterpolationGrid) \<Rightarrow> nat \<Rightarrow> Fields \<Rightarrow> Fields result" where
  "on_interp upd k fs =
     (if k < length (interp fs) then Inr (fs\<lparr> interp := (interp fs)[k := upd (interp fs ! k)] \<rparr>)
      else Inl (IndexError, fs))"

text \<open>\<open>Fields.erase\<close>, CPU branch.\<close>

definition erase :: "Fields \<Rightarrow> string \<Rightarrow> Fields result" where
  "erase fs fieldtype =
     (if fieldtype = ''rho'' then
        for_modes [0..<Nm fs] (on_interp (\<lambda>g. g\<lparr> rho := fill (rho g) 0 \<rparr>)) fs
      else if fieldtype = ''J'' then
        for_modes [0..<Nm fs] (on_interp (\<lambda>g.
          g\<lparr> Jr := fill (Jr g) 0, Jt := fill (Jt g) 0, Jz_interp := fill (Jz_interp g) 0 \<rparr>)) fs
      else if fieldtype = ''E'' then
        for_modes [0..<Nm fs] (on_interp (\<lambda>g.
          g\<lparr> Er := fill (Er g) 0, Et := fill (Et g) 0, Ez_interp := fill (Ez_interp g) 0 \<rparr>)) fs
      else if fieldtype = ''B'' then
        for_modes [0..<Nm fs] (on_interp (\<lambda>g.
          g\<lparr> Br := fill (Br g) 0, Bt := fill (Bt g) 0, Bz_interp := fill (Bz_interp g) 0 \<rparr>)) fs
      else Inl (InvalidFieldtype fieldtype, fs))"

text \<open>
  \<open>A * invvol[np.newaxis,:]\<close>: every row of \<open>A\<close> is multiplied, entry by entry, by the
  one-dimensional array \<open>invvol\<close>.
\<close>

definition times_newaxis :: "complex ndarray \<Rightarrow> real list \<Rightarrow> complex ndarray" where
  "times_newaxis A v = NDArray (map (\<lambda>row. map2 (\<lambda>x a. x * complex_of_real a) row v) (rows A))"

text \<open>\<open>Fields.divide_by_volume\<close>, CPU branch.\<close>

definition divide_by_volume :: "Fields \<Rightarrow> string \<Rightarrow> Fields result" where
  "divide_by_volume fs fieldtype =
     (if fieldtype = ''rho'' then
        for_modes [0..<Nm fs] (on_interp (\<lambda>g. g\<lparr> rho := times_newaxis (rho g) (invvol g) \<rparr>)) fs
      else if fieldtype = ''J'' then
        for_modes [0..<Nm fs] (on_interp (\<lambda>g.
          g\<lparr> Jr := times_newaxis (Jr g) (invvol g),
             Jt := times_newaxis (Jt g) (invvol g),
             Jz_interp := times_newaxis (Jz_interp g) (invvol g) \<rparr>)) fs
      else Inl (InvalidFieldtype fieldtype, fs))"

text \<open>
  \<open>Fields.filter_interp\<close> and \<open>Fields.filter_spect\<close> call the method \<open>filter\<close> of the grid
  of each mode; the field type is examined there.
\<close>

definition filter_interp :: "Fields \<Rightarrow> string \<Rightarrow> string \<Rightarrow> Fields result" where
  "filter_interp fs fieldtype direction =
     for_modes [0..<Nm fs] (\<lambda>k fs.
       if k < length (interp fs) then
         (case InterpolationGrid_filter (interp fs ! k) fieldtype direction of
            Inl (e, g) \<Rightarrow> Inl (e, fs\<lparr> interp := (interp fs)[k := g] \<rparr>)
          | Inr g \<Rightarrow> Inr (fs\<lparr> interp := (interp fs)[k := g] \<rparr>))
       else Inl (IndexError, fs)) fs"

definition filter_spect :: "Fields \<Rightarrow> string \<Rightarrow> Fields result" where
  "filter_spect fs fieldtype =
     for_modes [0..<Nm fs] (\<lambda>k fs.
       if k < length (spect fs) then
         (case SpectralGrid_filter (spect fs ! k) fieldtype of
            Inl (e, s) \<Rightarrow> Inl (e, fs\<lparr> spect := (spect fs)[k := s] \<rparr>)
          | Inr s \<Rightarrow> Inr (fs\<lparr> spect := (spect fs)[k := s] \<rparr>))
       else Inl (IndexError, fs)) fs"

text \<open>
  \<open>Fields.push\<close>: \<open>push_eb_with\<close> (with its default \<open>use_true_rho = False\<close>) and then
  \<open>push_rho\<close>, for each mode. \<open>Fields.correct_currents\<close>: the correction of each mode with
  the time step of the simulation.
\<close>

definition push :: "Fields \<Rightarrow> bool \<Rightarrow> Fields result" where
  "push fs ptcl_feedback =
     for_modes [0..<Nm fs] (\<lambda>k fs.
       if k < length (spect fs) \<and> k < length (psatd fs) then
         (case push_eb_with (spect fs ! k) (psatd fs ! k) ptcl_feedback False of
            Inl (e, (s, ps)) \<Rightarrow>
              Inl (e, fs\<lparr> spect := (spect fs)[k := s], psatd := (psatd fs)[k := ps] \<rparr>)
          | Inr (s, ps) \<Rightarrow>
              Inr (fs\<lparr> spect := (spect fs)[k := push_rho s], psatd := (psatd fs)[k := ps] \<rparr>))
       else Inl (IndexError, fs)) fs"

definition correct_currents_fields :: "Fields \<Rightarrow> Fields result" where
  "correct_currents_fields fs =
     for_modes [0..<Nm fs] (\<lambda>k fs.
       if k < length (spect fs) then
         (case correct_currents (dt_fields fs) (spect fs ! k) of
            Inl (e, s) \<Rightarrow> Inl (e, fs\<lparr> spect := (spect fs)[k := s] \<rparr>)
          | Inr s \<Rightarrow> Inr (fs\<lparr> spect := (spect fs)[k := s] \<rparr>))
       else Inl (IndexError, fs)) fs"

section \<open>Invariants and quantities of the statements\<close>

text \<open>
  The invariant of a spectral grid: every array has the shape \<open>(Nz, Nr)\<close>, and \<open>inv_k2\<close>
  is the array that the constructor computes from \<open>kz\<close> and \<open>kr\<close>. The constructor
  establishes it and no method assigns to \<open>kz\<close>, \<open>kr\<close> or \<open>inv_k2\<close>.
\<close>

definition wf_spect :: "SpectralGrid \<Rightarrow> bool" where
  "wf_spect s \<longleftrightarrow>
     has_shape (Nz s) (Nr s) (kz s) \<and> has_shape (Nz s) (Nr s) (kr s) \<and>
     has_shape (Nz s) (Nr s) (Ep s) \<and> has_shape (Nz s) (Nr s) (Em s) \<and>
     has_shape (Nz s) (Nr s) (Ez s) \<and> has_shape (Nz s) (Nr s) (Bp s) \<and>
     has_shape (Nz s) (Nr s) (Bm s) \<and> has_shape (Nz s) (Nr s) (Bz s) \<and>
     has_shape (Nz s) (Nr s) (Jp s) \<and> has_shape (Nz s) (Nr s) (Jm s) \<and>
     has_shape (Nz s) (Nr s) (Jz s) \<and> has_shape (Nz s) (Nr s) (rho_prev s) \<and>
     has_shape (Nz s) (Nr s) (rho_next s) \<and> has_shape (Nz s) (Nr s) (F s) \<and>
     has_shape (Nz s) (Nr s) (filter_array s) \<and>
     inv_k2 s = inv_k2_of (kz s) (kr s)"

text \<open>
  The invariant of a coefficients object for a grid of shape \<open>(nz, nr)\<close>, and the
  relation between a grid and the coefficients that belong to it: \<open>ps\<close> holds the
  coefficients that the constructor computes from the meshes \<open>kz\<close>, \<open>kr\<close> of the grid
  and the time step \<open>dt\<close>. The scratch arrays may hold anything of the right shape,
  since every push overwrites them.
\<close>

definition wf_psatd :: "nat \<Rightarrow> nat \<Rightarrow> PsatdCoeffs \<Rightarrow> bool" where
  "wf_psatd nz nr ps \<longleftrightarrow>
     has_shape nz nr (C ps) \<and> has_shape nz nr (S_w ps) \<and> has_shape nz nr (j_coef ps) \<and>
     has_shape nz nr (rho_prev_coef ps) \<and> has_shape nz nr (rho_next_coef ps) \<and>
     has_shape nz nr (ps_Ep ps) \<and> has_shape nz nr (ps_Em ps) \<and> has_shape nz nr (ps_Ez ps)"

definition coeffs_for :: "SpectralGrid \<Rightarrow> real \<Rightarrow> PsatdCoeffs \<Rightarrow> bool" where
  "coeffs_for s dt ps \<longleftrightarrow>
     (case PsatdCoeffs_init (kz s) (kr s) (m s) dt (Nz s) (Nr s) of
        Inl e \<Rightarrow> False
      | Inr ps0 \<Rightarrow>
          ps_m ps = ps_m ps0 \<and> ps_dt ps = ps_dt ps0 \<and> C ps = C ps0 \<and> S_w ps = S_w ps0 \<and>
          j_coef ps = j_coef ps0 \<and> rho_prev_coef ps = rho_prev_coef ps0 \<and>
          rho_next_coef ps = rho_next_coef ps0 \<and>
          has_shape (Nz s) (Nr s) (ps_Ep ps) \<and> has_shape (Nz s) (Nr s) (ps_Em ps) \<and>
          has_shape (Nz s) (Nr s) (ps_Ez ps))"

text \<open>
  The residual of the continuity equation,
  \<open>(rho_next - rho_prev)/dt + i kz Jz + kr (Jp - Jm)\<close>, as an array.
\<close>

definition continuity_residual :: "real \<Rightarrow> SpectralGrid \<Rightarrow> complex ndarray" where
  "continuity_residual dt s =
     amap (\<lambda>x. x / complex_of_real dt) (rho_next s - rho_prev s)
     + scal \<i> (cplx (kz s)) * Jz s
     + cplx (kr s) * (Jp s - Jm s)"

text \<open>
  The quantity \<open>|Ep|^2 + |Em|^2 + |Ez|^2 + c^2 (|Bp|^2 + |Bm|^2 + |Bz|^2)\<close> summed over
  the grid, and the same sum with the weight 2 on the \<open>p\<close> and \<open>m\<close> components. Since
  \<open>Er = Ep + Em\<close> and \<open>Et = i (Ep - Em)\<close>, the second one is the sum of
  \<open>|Er|^2 + |Et|^2 + |Ez|^2 + c^2 (|Br|^2 + |Bt|^2 + |Bz|^2)\<close>.
\<close>

definition abs2 :: "complex ndarray \<Rightarrow> real ndarray" where
  "abs2 A = amap (\<lambda>x. (cmod x) ^ 2) A"

definition field_energy :: "SpectralGrid \<Rightarrow> real" where
  "field_energy s =
     asum (abs2 (Ep s) + abs2 (Em s) + abs2 (Ez s)
           + scal (c_light ^ 2) (abs2 (Bp s) + abs2 (Bm s) + abs2 (Bz s)))"

definition weighted_energy_density :: "SpectralGrid \<Rightarrow> real ndarray" where
  "weighted_energy_density s =
     scal 2 (abs2 (Ep s)) + scal 2 (abs2 (Em s)) + abs2 (Ez s)
     + scal (c_light ^ 2) (scal 2 (abs2 (Bp s)) + scal 2 (abs2 (Bm s)) + abs2 (Bz s))"

definition weighted_energy :: "SpectralGrid \<Rightarrow> real" where
  "weighted_energy s = asum (weighted_energy_density s)"

text \<open>
  The divergences of the two fields in spectral space, \<open>kr (Ep - Em) + i kz Ez\<close> and
  \<open>kr (Bp - Bm) + i kz Bz\<close>, as the source writes the divergence of \<open>E\<close> in
  \<open>push_eb_with\<close>. A state is transverse when both vanish at every point.
\<close>

definition div_E :: "SpectralGrid \<Rightarrow> complex ndarray" where
  "div_E s = cplx (kr s) * Ep s - cplx (kr s) * Em s + scal \<i> (cplx (kz s)) * Ez s"

definition div_B :: "SpectralGrid \<Rightarrow> complex ndarray" where
  "div_B s = cplx (kr s) * Bp s - cplx (kr s) * Bm s + scal \<i> (cplx (kz s)) * Bz s"

definition transverse :: "SpectralGrid \<Rightarrow> bool" where
  "transverse s \<longleftrightarrow> div_E s = zeros (Nz s) (Nr s) \<and> div_B s = zeros (Nz s) (Nr s)"

text \<open>
  The same quantities at one spectral point: the weighted square norm of a vector with
  components \<open>p\<close>, \<open>m\<close>, \<open>z\<close>, and the curl and the divergence as the push writes them.
\<close>

definition wnorm :: "complex \<Rightarrow> complex \<Rightarrow> complex \<Rightarrow> real" where
  "wnorm p q z = 2 * (cmod p) ^ 2 + 2 * (cmod q) ^ 2 + (cmod z) ^ 2"

definition curl_p :: "real \<Rightarrow> real \<Rightarrow> complex \<Rightarrow> complex \<Rightarrow> complex \<Rightarrow> complex" where
  "curl_p kzv krv p q z = (- \<i> * 0.5) * complex_of_real krv * z + complex_of_real kzv * p"

definition curl_m :: "real \<Rightarrow> real \<Rightarrow> complex \<Rightarrow> complex \<Rightarrow> complex \<Rightarrow> complex" where
  "curl_m kzv krv p q z = (- \<i> * 0.5) * complex_of_real krv * z - complex_of_real kzv * q"

definition curl_z :: "real \<Rightarrow> real \<Rightarrow> complex \<Rightarrow> complex \<Rightarrow> complex \<Rightarrow> complex" where
  "curl_z kzv krv p q z = \<i> * complex_of_real krv * p + \<i> * complex_of_real krv * q"

definition div_pt :: "real \<Rightarrow> real \<Rightarrow> complex \<Rightarrow> complex \<Rightarrow> complex \<Rightarrow> complex" where
  "div_pt kzv krv p q z =
     complex_of_real krv * p - complex_of_real krv * q + \<i> * complex_of_real kzv * z"

text \<open>
  The contracts of the external transforms, for arrays of shape \<open>(nz, nr)\<close>: every
  transform returns an array of that shape; every inverse transform undoes its forward
  transform; and every transform, being linear, maps the zero array to the zero array.
\<close>

definition shape_preserving :: "nat \<Rightarrow> nat \<Rightarrow> SpectralTransformer \<Rightarrow> bool" where
  "shape_preserving nz nr tr \<longleftrightarrow>
     (\<forall>A. has_shape nz nr A \<longrightarrow>
        has_shape nz nr (fft_r tr A) \<and> has_shape nz nr (ifft_r tr A) \<and>
        has_shape nz nr (fft_t tr A) \<and> has_shape nz nr (ifft_t tr A) \<and>
        has_shape nz nr (dht0_transform tr A) \<and> has_shape nz nr (dht0_inverse_transform tr A) \<and>
        has_shape nz nr (dhtp_transform tr A) \<and> has_shape nz nr (dhtp_inverse_transform tr A) \<and>
        has_shape nz nr (dhtm_transform tr A) \<and> has_shape nz nr (dhtm_inverse_transform tr A))"

definition inverse_contract :: "nat \<Rightarrow> nat \<Rightarrow> SpectralTransformer \<Rightarrow> bool" where
  "inverse_contract nz nr tr \<longleftrightarrow>
     (\<forall>A. has_shape nz nr A \<longrightarrow>
        ifft_r tr (fft_r tr A) = A \<and> ifft_t tr (fft_t tr A) = A \<and>
        dht0_inverse_transform tr (dht0_transform tr A) = A \<and>
        dhtp_inverse_transform tr (dhtp_transform tr A) = A \<and>
        dhtm_inverse_transform tr (dhtm_transform tr A) = A)"

definition zero_preserving :: "nat \<Rightarrow> nat \<Rightarrow> SpectralTransformer \<Rightarrow> bool" where
  "zero_preserving nz nr tr \<longleftrightarrow>
     fft_r tr (zeros nz nr) = zeros nz nr \<and> ifft_r tr (zeros nz nr) = zeros nz nr \<and>
     fft_t tr (zeros nz nr) = zeros nz nr \<and> ifft_t tr (zeros nz nr) = zeros nz nr \<and>
     dht0_transform tr (zeros nz nr) = zeros nz nr \<and>
     dht0_inverse_transform tr (zeros nz nr) = zeros nz nr \<and>
     dhtp_transform tr (zeros nz nr) = zeros nz nr \<and>
     dhtp_inverse_transform tr (zeros nz nr) = zeros nz nr \<and>
     dhtm_transform tr (zeros nz nr) = zeros nz nr \<and>
     dhtm_inverse_transform tr (zeros nz nr) = zeros nz nr"

text \<open>
  Two states of one transformer: the same transforms, whatever the buffers hold. Every
  conversion changes the buffers only.
\<close>

definition same_transforms :: "SpectralTransformer \<Rightarrow> SpectralTransformer \<Rightarrow> bool" where
  "same_transforms tr tr' \<longleftrightarrow>
     dht0_transform tr' = dht0_transform tr \<and>
     dht0_inverse_transform tr' = dht0_inverse_transform tr \<and>
     dhtp_transform tr' = dhtp_transform tr \<and>
     dhtp_inverse_transform tr' = dhtp_inverse_transform tr \<and>
     dhtm_transform tr' = dhtm_transform tr \<and>
     dhtm_inverse_transform tr' = dhtm_inverse_transform tr \<and>
     fft_r tr' = fft_r tr \<and> ifft_r tr' = ifft_r tr \<and>
     fft_t tr' = fft_t tr \<and> ifft_t tr' = ifft_t tr"

text \<open>The buffers of a transformer have the shape of the grid.\<close>

definition wf_trans :: "nat \<Rightarrow> nat \<Rightarrow> SpectralTransformer \<Rightarrow> bool" where
  "wf_trans nz nr tr \<longleftrightarrow>
     has_shape nz nr (interp_buffer_r tr) \<and> has_shape nz nr (spect_buffer_r tr) \<and>
     has_shape nz nr (interp_buffer_t tr) \<and> has_shape nz nr (spect_buffer_t tr)"

text \<open>
  The scalar transforms as compositions: the Fourier transform along z followed by the
  Hankel transform of order m, and the two inverse transforms in the opposite order.
\<close>

definition to_spectral_scalar :: "SpectralTransformer \<Rightarrow> complex ndarray \<Rightarrow> complex ndarray" where
  "to_spectral_scalar tr A = dht0_transform tr (fft_r tr A)"

definition to_interp_scalar :: "SpectralTransformer \<Rightarrow> complex ndarray \<Rightarrow> complex ndarray" where
  "to_interp_scalar tr S = ifft_r tr (dht0_inverse_transform tr S)"

text \<open>The invariant of an interpolation grid: every array has the shape \<open>(Nz, Nr)\<close>.\<close>

definition wf_interp :: "InterpolationGrid \<Rightarrow> bool" where
  "wf_interp g \<longleftrightarrow>
     length (invvol g) = Nr_interp g \<and>
     has_shape (Nz_interp g) (Nr_interp g) (Er g) \<and> has_shape (Nz_interp g) (Nr_interp g) (Et g) \<and>
     has_shape (Nz_interp g) (Nr_interp g) (Ez_interp g) \<and>
     has_shape (Nz_interp g) (Nr_interp g) (Br g) \<and> has_shape (Nz_interp g) (Nr_interp g) (Bt g) \<and>
     has_shape (Nz_interp g) (Nr_interp g) (Bz_interp g) \<and>
     has_shape (Nz_interp g) (Nr_interp g) (Jr g) \<and> has_shape (Nz_interp g) (Nr_interp g) (Jt g) \<and>
     has_shape (Nz_interp g) (Nr_interp g) (Jz_interp g) \<and>
     has_shape (Nz_interp g) (Nr_interp g) (rho g)"

text \<open>
  The invariant of the fields that the transforms rely on: one transformer, one
  interpolation grid and one spectral grid per mode, all of the shape \<open>(Nz, Nr)\<close> of the
  simulation, and transforms that keep the shape. The coefficients take no part in the
  transforms.
\<close>

definition wf_mode :: "Fields \<Rightarrow> nat \<Rightarrow> bool" where
  "wf_mode fs k \<longleftrightarrow>
     wf_trans (Nz_fields fs) (Nr_fields fs) (trans fs ! k) \<and>
     shape_preserving (Nz_fields fs) (Nr_fields fs) (trans fs ! k) \<and>
     wf_interp (interp fs ! k) \<and>
     Nz_interp (interp fs ! k) = Nz_fields fs \<and> Nr_interp (interp fs ! k) = Nr_fields fs \<and>
     wf_spect (spect fs ! k) \<and>
     Nz (spect fs ! k) = Nz_fields fs \<and> Nr (spect fs ! k) = Nr_fields fs"

definition wf_fields :: "Fields \<Rightarrow> bool" where
  "wf_fields fs \<longleftrightarrow>
     length (trans fs) = Nm fs \<and> length (interp fs) = Nm fs \<and> length (spect fs) = Nm fs \<and>
     (\<forall>k < Nm fs. wf_mode fs k)"

text \<open>The entry of the scratch array \<open>F\<close> that \<open>correct_currents\<close> computes at one point.\<close>

definition F_point :: "real \<Rightarrow> SpectralGrid \<Rightarrow> nat \<Rightarrow> nat \<Rightarrow> complex" where
  "F_point dt s i j =
     - complex_of_real (elem (inv_k2 s) i j) *
       (complex_of_real (1 / dt) * (elem (rho_next s) i j - elem (rho_prev s) i j)
        + \<i> * complex_of_real (elem (kz s) i j) * elem (Jz s) i j
        + complex_of_real (elem (kr s) i j) * (elem (Jp s) i j - elem (Jm s) i j))"

section \<open>A concrete grid\<close>

text \<open>
  A spectral grid of mode 1 with three longitudinal wavenumbers, in the order of the
  Fourier transform, and two radial ones, the first of them zero. Its point of index
  \<open>(0, 0)\<close> is the point \<open>kz = kr = 0\<close>. The electric field has \<open>Ep = Em = 1\<close> at the point
  \<open>kz = 0\<close>, \<open>kr = 1\<close> and vanishes elsewhere, so that the state is transverse; the
  currents and charge densities are arbitrary.
\<close>

definition example_kz :: "real list" where
  "example_kz = [0, 1, - 1]"

definition example_kr :: "real list" where
  "example_kr = [0, 1]"

definition example_grid :: SpectralGrid where
  "example_grid =
     \<lparr> Nr = 2, Nz = 3, m = 1,
       kz = NDArray [[0, 0], [1, 1], [- 1, - 1]],
       kr = NDArray [[0, 1], [0, 1], [0, 1]],
       Ep = NDArray [[0, 1], [0, 0], [0, 0]],
       Em = NDArray [[0, 1], [0, 0], [0, 0]],
       Ez = NDArray [[0, 0], [0, 0], [0, 0]],
       Bp = NDArray [[0, 0], [0, 0], [0, 0]],
       Bm = NDArray [[0, 0], [0, 0], [0, 0]],
       Bz = NDArray [[0, 0], [0, 0], [0, 0]],
       Jp = NDArray [[1, 2], [3, \<i>], [0, 1]],
       Jm = NDArray [[2, 0], [1, 1], [\<i>, 4]],
       Jz = NDArray [[5, 1], [0, 2], [1, 1]],
       rho_prev = NDArray [[1, 1], [2, 0], [0, 3]],
       rho_next = NDArray [[3, 0], [1, 4], [\<i>, 1]],
       F = NDArray [[0, 0], [0, 0], [0, 0]],
       inv_k2 = NDArray [[0, 1], [1, 1 / 2], [1, 1 / 2]],
       filter_array = NDArray [[1, 0], [0, 0], [0, 0]] \<rparr>"

text \<open>The time step for which \<open>c * dt = pi / 2\<close>.\<close>

definition example_dt :: real where
  "example_dt = pi / (2 * c_light)"

text \<open>
  One push without particle feedback, with the coefficients built for the grid and the
  time step: the value of \<open>quantity\<close> on the state after the push.
\<close>

definition after_vacuum_push :: "(SpectralGrid \<Rightarrow> 'a) \<Rightarrow> SpectralGrid \<Rightarrow> real \<Rightarrow> 'a option" where
  "after_vacuum_push quantity s dt =
     (case PsatdCoeffs_init (kz s) (kr s) (m s) dt (Nz s) (Nr s) of
        Inl e \<Rightarrow> None
      | Inr ps \<Rightarrow>
          (case push_eb_with s ps False False of
             Inl e \<Rightarrow> None
           | Inr (s', ps') \<Rightarrow> Some (quantity s')))"

section \<open>Concrete fields\<close>

text \<open>
  Fields with two modes on the grid of three by two points. The spectral grid of mode 1
  is the concrete grid above; the one of mode 0 has the radial wavenumbers 1 and 2 and
  fields that vanish. The transforms of the concrete transformer are stand-ins that
  satisfy the contracts: the Fourier transform multiplies by 3 and its inverse divides by
  3, the Hankel transforms change the sign.
\<close>

definition example_grid0 :: SpectralGrid where
  "example_grid0 =
     \<lparr> Nr = 2, Nz = 3, m = 0,
       kz = NDArray [[0, 0], [1, 1], [- 1, - 1]],
       kr = NDArray [[1, 2], [1, 2], [1, 2]],
       Ep = zeros 3 2, Em = zeros 3 2, Ez = zeros 3 2,
       Bp = zeros 3 2, Bm = zeros 3 2, Bz = zeros 3 2,
       Jp = zeros 3 2, Jm = zeros 3 2, Jz = zeros 3 2,
       rho_prev = zeros 3 2,
       rho_next = NDArray [[1, 0], [0, 2], [\<i>, 0]],
       F = zeros 3 2,
       inv_k2 = NDArray [[1, 1 / 4], [1 / 2, 1 / 5], [1 / 2, 1 / 5]],
       filter_array = NDArray [[1 / 2, 0], [0, 0], [0, 0]] \<rparr>"

definition example_interp :: "nat \<Rightarrow> InterpolationGrid" where
  "example_interp k =
     \<lparr> Nz_interp = 3, Nr_interp = 2, m_interp = k, invvol = [1, 1 / 3],
       Er = NDArray [[1, 0], [2, \<i>], [0, 0]],
       Et = NDArray [[0, 1], [1, 1], [3, 0]],
       Ez_interp = NDArray [[2, 2], [0, 1], [\<i>, 0]],
       Br = zeros 3 2, Bt = zeros 3 2, Bz_interp = zeros 3 2,
       Jr = NDArray [[1, 1], [0, 0], [2, 0]],
       Jt = NDArray [[0, 0], [1, 0], [0, 5]],
       Jz_interp = NDArray [[3, 0], [0, 0], [0, 1]],
       rho = NDArray [[1, 2], [3, 4], [5, 6]] \<rparr>"

definition example_trans :: SpectralTransformer where
  "example_trans =
     \<lparr> dht0_transform = uminus, dht0_inverse_transform = uminus,
       dhtp_transform = uminus, dhtp_inverse_transform = uminus,
       dhtm_transform = uminus, dhtm_inverse_transform = uminus,
       fft_r = scal 3, ifft_r = scal (1 / 3), fft_t = scal 3, ifft_t = scal (1 / 3),
       interp_buffer_r = zeros 3 2, spect_buffer_r = zeros 3 2,
       interp_buffer_t = zeros 3 2, spect_buffer_t = zeros 3 2 \<rparr>"

text \<open>
  The concrete transformer in a later state: its buffers hold values left by earlier
  conversions, unrelated to the arrays converted next.
\<close>

definition example_trans_used :: SpectralTransformer where
  "example_trans_used =
     example_trans
       \<lparr> interp_buffer_r := NDArray [[7, 7], [7, 7], [7, 7]],
         spect_buffer_r := NDArray [[8, 8], [8, 8], [8, 8]],
         interp_buffer_t := NDArray [[9, 9], [9, 9], [9, 9]],
         spect_buffer_t := NDArray [[\<i>, \<i>], [\<i>, \<i>], [\<i>, \<i>]] \<rparr>"

text \<open>The coefficients that the constructor builds for a grid, as a list of one object.\<close>

definition example_coeffs :: "SpectralGrid \<Rightarrow> PsatdCoeffs list" where
  "example_coeffs s =
     (case PsatdCoeffs_init (kz s) (kr s) (m s) example_dt (Nz s) (Nr s) of
        Inl e \<Rightarrow> []
      | Inr ps \<Rightarrow> [ps])"

definition example_fields :: Fields where
  "example_fields =
     \<lparr> Nz_fields = 3, Nr_fields = 2, rmax_fields = 1, Nm = 2, dt_fields = example_dt,
       trans = [example_trans, example_trans],
       interp = [example_interp 0, example_interp 1],
       spect = [example_grid0, example_grid],
       psatd = example_coeffs example_grid0 @ example_coeffs example_grid \<rparr>"

text \<open>
  An interpolation grid of mode 0 with two points along z and three along r, whose
  \<open>rho\<close> is concentrated on the middle radial cell.
\<close>

definition filter_example :: InterpolationGrid where
  "filter_example =
     \<lparr> Nz_interp = 2, Nr_interp = 3, m_interp = 0, invvol = [1, 1 / 3, 1 / 5],
       Er = zeros 2 3, Et = zeros 2 3, Ez_interp = zeros 2 3,
       Br = zeros 2 3, Bt = zeros 2 3, Bz_interp = zeros 2 3,
       Jr = zeros 2 3, Jt = zeros 2 3, Jz_interp = zeros 2 3,
       rho = NDArray [[0, 1, 0], [0, 4, 0]] \<rparr>"

section \<open>The radial filter, entry by entry\<close>

text \<open>
  The stencil of the interior of a row, and the row that \<open>binomial_filter\<close> computes in
  the direction r from a row with at least two entries.
\<close>

definition stencil_row :: "complex list \<Rightarrow> complex list" where
  "stencil_row xs = map2 (+) (map2 (+) (map (\<lambda>x. 0.25 * x) (slice_to_m2 xs))
                                       (map (\<lambda>x. 0.5 * x) (slice_1_m1 xs)))
                             (map (\<lambda>x. 0.25 * x) (slice_from_2 xs))"

definition filtered_row_r :: "int \<Rightarrow> complex list \<Rightarrow> complex list" where
  "filtered_row_r sg xs =
     ((set_slice_1_m1 xs (stencil_row xs))
        [0 := 0.25 * of_int sg * xs ! 0 + 0.5 * xs ! 0 + 0.5 * xs ! 1])
        [length xs - 1 := 0.25 * xs ! (length xs - 1) + 0.5 * xs ! (length xs - 1)
                          + 0.25 * xs ! (length xs - 2)]"

text \<open>
  The entry of index \<open>(i, j)\<close> of the array filtered in the direction r, as the source
  computes it from an array \<open>A\<close> with \<open>nr\<close> radial cells and the sign \<open>sg\<close> of the guard
  cell: the weight of the neighbour \<open>A[i, 1]\<close> at the axis is 1/2.
\<close>

definition filtered_r :: "int \<Rightarrow> nat \<Rightarrow> complex ndarray \<Rightarrow> nat \<Rightarrow> nat \<Rightarrow> complex" where
  "filtered_r sg nr A i j =
     (if j = 0 then 0.25 * of_int sg * elem A i 0 + 0.5 * elem A i 0 + 0.5 * elem A i 1
      else if j = nr - 1 then
        0.25 * elem A i (nr - 1) + 0.5 * elem A i (nr - 1) + 0.25 * elem A i (nr - 2)
      else 0.25 * elem A i (j - 1) + 0.5 * elem A i j + 0.25 * elem A i (j + 1))"

text \<open>
  The entry at the axis that the three-point stencil (1/4, 1/2, 1/4) gives with a guard
  cell equal to \<open>sg * A[i, 0]\<close>.
\<close>

definition binomial_axis :: "int \<Rightarrow> complex ndarray \<Rightarrow> nat \<Rightarrow> complex" where
  "binomial_axis sg A i = 0.25 * (of_int sg * elem A i 0) + 0.5 * elem A i 0 + 0.25 * elem A i 1"

section \<open>Properties of the array operations\<close>

text \<open>
  On arrays of one shape the operations act entry by entry and keep the shape, and two
  arrays of one shape are equal when their entries are.
\<close>

lemma has_shape_length: "has_shape nz nr A \<Longrightarrow> length (rows A) = nz"
  by (simp add: has_shape_def)

lemma has_shape_row: "has_shape nz nr A \<Longrightarrow> i < nz \<Longrightarrow> length (rows A ! i) = nr"
  by (simp add: has_shape_def list_all_length)

lemma has_shapeI:
  "length (rows A) = nz \<Longrightarrow> (\<And>i. i < nz \<Longrightarrow> length (rows A ! i) = nr) \<Longrightarrow> has_shape nz nr A"
  by (simp add: has_shape_def list_all_length)

lemma has_shape_amap: "has_shape nz nr A \<Longrightarrow> has_shape nz nr (amap f A)"
  by (simp add: has_shape_def amap_def list_all_length)

lemma has_shape_amap2:
  "has_shape nz nr A \<Longrightarrow> has_shape nz nr B \<Longrightarrow> has_shape nz nr (amap2 f A B)"
  by (simp add: has_shape_def amap2_def list_all_length)

lemma elem_amap:
  "has_shape nz nr A \<Longrightarrow> i < nz \<Longrightarrow> j < nr \<Longrightarrow> elem (amap f A) i j = f (elem A i j)"
  by (simp add: has_shape_def amap_def elem_def list_all_length)

lemma elem_amap2:
  "has_shape nz nr A \<Longrightarrow> has_shape nz nr B \<Longrightarrow> i < nz \<Longrightarrow> j < nr
   \<Longrightarrow> elem (amap2 f A B) i j = f (elem A i j) (elem B i j)"
  by (simp add: has_shape_def amap2_def elem_def list_all_length)

lemma array_eqI:
  assumes "has_shape nz nr A" and "has_shape nz nr B"
    and "\<And>i j. i < nz \<Longrightarrow> j < nr \<Longrightarrow> elem A i j = elem B i j"
  shows "A = B"
proof -
  have "rows A = rows B"
  proof (rule nth_equalityI)
    show "length (rows A) = length (rows B)"
      using assms(1,2) by (simp add: has_shape_length)
  next
    fix i assume i: "i < length (rows A)"
    then have i': "i < nz" using assms(1) by (simp add: has_shape_length)
    show "rows A ! i = rows B ! i"
    proof (rule nth_equalityI)
      show "length (rows A ! i) = length (rows B ! i)"
        using assms(1,2) i' by (simp add: has_shape_row)
    next
      fix j assume "j < length (rows A ! i)"
      then have "j < nr" using assms(1) i' by (simp add: has_shape_row)
      then show "rows A ! i ! j = rows B ! i ! j"
        using assms(3)[OF i'] by (simp add: elem_def)
    qed
  qed
  then show ?thesis by (simp add: ndarray.expand)
qed

lemma has_shape_zeros: "has_shape nz nr (zeros nz nr)"
  by (simp add: has_shape_def zeros_def list_all_length)

lemma elem_zeros: "i < nz \<Longrightarrow> j < nr \<Longrightarrow> elem (zeros nz nr) i j = 0"
  by (simp add: elem_def zeros_def)

lemma has_shape_arith:
  "has_shape nz nr A \<Longrightarrow> has_shape nz nr B \<Longrightarrow> has_shape nz nr (A + B)"
  "has_shape nz nr A1 \<Longrightarrow> has_shape nz nr B1 \<Longrightarrow> has_shape nz nr (A1 - B1)"
  "has_shape nz nr A2 \<Longrightarrow> has_shape nz nr B2 \<Longrightarrow> has_shape nz nr (A2 * B2)"
  "has_shape nz nr A3 \<Longrightarrow> has_shape nz nr (- A3)"
  "has_shape nz nr A4 \<Longrightarrow> has_shape nz nr (scal a A4)"
  "has_shape nz nr R \<Longrightarrow> has_shape nz nr (cplx R)"
  "has_shape nz nr R \<Longrightarrow> has_shape nz nr (sq R)"
  "has_shape nz nr R \<Longrightarrow> has_shape nz nr (recip R)"
  "has_shape nz nr R \<Longrightarrow> has_shape nz nr (np_sqrt R)"
  "has_shape nz nr R \<Longrightarrow> has_shape nz nr (np_cos R)"
  "has_shape nz nr R \<Longrightarrow> has_shape nz nr (np_sin R)"
  "has_shape nz nr R \<Longrightarrow> has_shape nz nr (eq0 R)"
  "has_shape nz nr A5 \<Longrightarrow> has_shape nz nr B5 \<Longrightarrow> has_shape nz nr (assign_all A5 B5)"
  "has_shape nz nr A6 \<Longrightarrow> has_shape nz nr (fill A6 v)"
  "has_shape nz nr M \<Longrightarrow> has_shape nz nr N \<Longrightarrow> has_shape nz nr (mask_and M N)"
  "has_shape nz nr M \<Longrightarrow> has_shape nz nr A7 \<Longrightarrow> has_shape nz nr (where_scalar M v7 A7)"
  "has_shape nz nr A8 \<Longrightarrow> has_shape nz nr M \<Longrightarrow> has_shape nz nr (set_masked A8 M v8)"
  by (simp_all add: plus_ndarray_def minus_ndarray_def times_ndarray_def uminus_ndarray_def
      scal_def cplx_def sq_def recip_def np_sqrt_def np_cos_def np_sin_def eq0_def assign_all_def
      fill_def mask_and_def where_scalar_def set_masked_def has_shape_amap has_shape_amap2)

lemma elem_arith:
  "has_shape nz nr A \<Longrightarrow> has_shape nz nr B \<Longrightarrow> i < nz \<Longrightarrow> j < nr
   \<Longrightarrow> elem (A + B) i j = elem A i j + elem B i j"
  "has_shape nz nr A1 \<Longrightarrow> has_shape nz nr B1 \<Longrightarrow> i < nz \<Longrightarrow> j < nr
   \<Longrightarrow> elem (A1 - B1) i j = elem A1 i j - elem B1 i j"
  "has_shape nz nr A2 \<Longrightarrow> has_shape nz nr B2 \<Longrightarrow> i < nz \<Longrightarrow> j < nr
   \<Longrightarrow> elem (A2 * B2) i j = elem A2 i j * elem B2 i j"
  "has_shape nz nr A3 \<Longrightarrow> i < nz \<Longrightarrow> j < nr \<Longrightarrow> elem (- A3) i j = - elem A3 i j"
  "has_shape nz nr A4 \<Longrightarrow> i < nz \<Longrightarrow> j < nr \<Longrightarrow> elem (scal a A4) i j = a * elem A4 i j"
  "has_shape nz nr R \<Longrightarrow> i < nz \<Longrightarrow> j < nr \<Longrightarrow> elem (cplx R) i j = complex_of_real (elem R i j)"
  "has_shape nz nr R \<Longrightarrow> i < nz \<Longrightarrow> j < nr \<Longrightarrow> elem (sq R) i j = (elem R i j) ^ 2"
  "has_shape nz nr R \<Longrightarrow> i < nz \<Longrightarrow> j < nr \<Longrightarrow> elem (recip R) i j = 1 / elem R i j"
  "has_shape nz nr R \<Longrightarrow> i < nz \<Longrightarrow> j < nr \<Longrightarrow> elem (np_sqrt R) i j = sqrt (elem R i j)"
  "has_shape nz nr R \<Longrightarrow> i < nz \<Longrightarrow> j < nr \<Longrightarrow> elem (np_cos R) i j = cos (elem R i j)"
  "has_shape nz nr R \<Longrightarrow> i < nz \<Longrightarrow> j < nr \<Longrightarrow> elem (np_sin R) i j = sin (elem R i j)"
  "has_shape nz nr R \<Longrightarrow> i < nz \<Longrightarrow> j < nr \<Longrightarrow> elem (eq0 R) i j = (elem R i j = 0)"
  "has_shape nz nr A5 \<Longrightarrow> has_shape nz nr B5 \<Longrightarrow> i < nz \<Longrightarrow> j < nr
   \<Longrightarrow> elem (assign_all A5 B5) i j = elem B5 i j"
  "has_shape nz nr A6 \<Longrightarrow> i < nz \<Longrightarrow> j < nr \<Longrightarrow> elem (fill A6 v) i j = v"
  "has_shape nz nr M \<Longrightarrow> has_shape nz nr N \<Longrightarrow> i < nz \<Longrightarrow> j < nr
   \<Longrightarrow> elem (mask_and M N) i j = (elem M i j \<and> elem N i j)"
  "has_shape nz nr M \<Longrightarrow> has_shape nz nr A7 \<Longrightarrow> i < nz \<Longrightarrow> j < nr
   \<Longrightarrow> elem (where_scalar M v7 A7) i j = (if elem M i j then v7 else elem A7 i j)"
  "has_shape nz nr A8 \<Longrightarrow> has_shape nz nr M \<Longrightarrow> i < nz \<Longrightarrow> j < nr
   \<Longrightarrow> elem (set_masked A8 M v8) i j = (if elem M i j then v8 else elem A8 i j)"
  by (simp_all add: plus_ndarray_def minus_ndarray_def times_ndarray_def uminus_ndarray_def
      scal_def cplx_def sq_def recip_def np_sqrt_def np_cos_def np_sin_def eq0_def assign_all_def
      fill_def mask_and_def where_scalar_def set_masked_def elem_amap elem_amap2)

lemma assign_all_same_shape:
  "has_shape nz nr A \<Longrightarrow> has_shape nz nr B \<Longrightarrow> assign_all A B = B"
  by (rule array_eqI[of nz nr]) (simp_all add: has_shape_arith elem_arith)

lemma fill_zeros: "has_shape nz nr A \<Longrightarrow> fill A 0 = zeros nz nr"
  by (rule array_eqI[of nz nr]) (simp_all add: has_shape_arith elem_arith has_shape_zeros elem_zeros)

lemma neg_neg_array: "has_shape nz nr A \<Longrightarrow> - (- A) = (A :: complex ndarray)"
  by (intro array_eqI[of nz nr])
     (simp_all add: has_shape_arith elem_arith[where nz = nz and nr = nr])

lemma scal_third_three: "has_shape nz nr A \<Longrightarrow> scal (1 / 3) (scal 3 A) = (A :: complex ndarray)"
  by (intro array_eqI[of nz nr])
     (simp_all add: has_shape_arith elem_arith[where nz = nz and nr = nr])

lemma zeros_3_2: "zeros 3 2 = NDArray [[0, 0], [0, 0], [0, 0]]"
  by (simp add: zeros_def numeral_3_eq_3 numeral_2_eq_2)

lemmas array_eval =
  amap_def amap2_def plus_ndarray_def minus_ndarray_def times_ndarray_def uminus_ndarray_def
  scal_def cplx_def sq_def recip_def np_sqrt_def np_cos_def np_sin_def zeros_3_2 assign_all_def
  fill_def eq0_def mask_and_def where_scalar_def set_masked_def asum_def abs2_def

section \<open>The constructor of the spectral grid\<close>

text \<open>
  The entries of \<open>inv_k2\<close> and of its divisor, and the invariant: the constructor
  establishes it, and the concrete grids satisfy it. The concrete grid of mode 1, with
  its fields set to zero, is the grid that the constructor returns for the wavenumbers
  \<open>example_kz\<close> and \<open>example_kr\<close>.
\<close>

lemma has_shape_meshgrid:
  "has_shape (length xs) (length ys) (fst (meshgrid_ij xs ys))"
  "has_shape (length xs) (length ys) (snd (meshgrid_ij xs ys))"
  by (simp_all add: meshgrid_ij_def has_shape_def list_all_length)

lemma has_shape_filter_array:
  "get_filter_array kz1 kr1 = Inr fa \<Longrightarrow> has_shape (length kz1) (length kr1) fa"
  by (auto simp add: get_filter_array_def Let_def has_shape_def list_all_length split: if_splits)

lemma has_shape_inv_k2_of:
  "has_shape nz nr kzm \<Longrightarrow> has_shape nz nr krm \<Longrightarrow> has_shape nz nr (inv_k2_of kzm krm)"
  by (simp add: inv_k2_of_def inv_k2_divisor_def k0_mask_def Let_def has_shape_arith)

lemma elem_inv_k2_of:
  assumes "has_shape nz nr kzm" "has_shape nz nr krm" "i < nz" "j < nr"
  shows "elem (inv_k2_of kzm krm) i j =
           (if elem kzm i j = 0 \<and> elem krm i j = 0 then 0
            else 1 / ((elem kzm i j) ^ 2 + (elem krm i j) ^ 2))"
  using assms
  by (simp add: inv_k2_of_def inv_k2_divisor_def k0_mask_def Let_def has_shape_arith elem_arith[where nz = nz and nr = nr])

lemma elem_inv_k2_divisor:
  assumes "has_shape nz nr kzm" "has_shape nz nr krm" "i < nz" "j < nr"
  shows "elem (inv_k2_divisor kzm krm) i j =
           (if elem kzm i j = 0 \<and> elem krm i j = 0 then 1
            else (elem kzm i j) ^ 2 + (elem krm i j) ^ 2)"
  using assms
  by (simp add: inv_k2_divisor_def k0_mask_def has_shape_arith elem_arith[where nz = nz and nr = nr])

lemma wf_spect_inv_k2: "wf_spect s \<Longrightarrow> has_shape (Nz s) (Nr s) (inv_k2 s)"
  by (simp add: wf_spect_def has_shape_inv_k2_of)

lemma SpectralGrid_init_wf:
  assumes "SpectralGrid_init kz1 kr1 m0 = Inr s"
  shows "wf_spect s"
  using assms has_shape_meshgrid[of kz1 kr1]
  by (auto simp add: SpectralGrid_init_def Let_def wf_spect_def has_shape_zeros
      has_shape_filter_array split: sum.splits prod.splits)

lemma example_grid_init:
  "SpectralGrid_init example_kz example_kr 1 =
     Inr (example_grid\<lparr> Ep := zeros 3 2, Em := zeros 3 2, Jp := zeros 3 2, Jm := zeros 3 2,
            Jz := zeros 3 2, rho_prev := zeros 3 2, rho_next := zeros 3 2 \<rparr>)"
  by (simp add: SpectralGrid_init_def example_grid_def example_kz_def example_kr_def
      get_filter_array_def meshgrid_ij_def zeros_def inv_k2_of_def inv_k2_divisor_def
      k0_mask_def mask_and_def eq0_def where_scalar_def set_masked_def recip_def sq_def
      amap_def amap2_def plus_ndarray_def Let_def numeral_2_eq_2 numeral_3_eq_3)

lemma example_grid_wf: "wf_spect example_grid"
  by (simp add: wf_spect_def example_grid_def has_shape_def inv_k2_of_def inv_k2_divisor_def
      k0_mask_def mask_and_def eq0_def where_scalar_def set_masked_def recip_def sq_def
      amap_def amap2_def plus_ndarray_def Let_def)

lemma example_grid0_wf: "wf_spect example_grid0"
  by (simp add: wf_spect_def example_grid0_def has_shape_zeros)
     (simp add: has_shape_def inv_k2_of_def inv_k2_divisor_def
      k0_mask_def mask_and_def eq0_def where_scalar_def set_masked_def recip_def sq_def
      amap_def amap2_def plus_ndarray_def Let_def)

lemma example_shapes:
  "has_shape 3 2 (kz example_grid)" "has_shape 3 2 (kr example_grid)"
  "Nz example_grid = 3" "Nr example_grid = 2"
  by (simp_all add: example_grid_def has_shape_def)

section \<open>The current correction\<close>

text \<open>
  The corrected currents at one point of the grid, in terms of the entry \<open>F_point\<close> of
  the scratch array; the correction keeps the invariant and the attributes that describe
  the grid.
\<close>

lemma correct_currents_elem:
  assumes wf: "wf_spect s" and dt: "dt \<noteq> 0" and ij: "i < Nz s" "j < Nr s"
  shows "\<exists>s'. correct_currents dt s = Inr s' \<and>
     elem (Jp s') i j = elem (Jp s) i j + 0.5 * complex_of_real (elem (kr s) i j) * F_point dt s i j \<and>
     elem (Jm s') i j = elem (Jm s) i j + (- 0.5) * complex_of_real (elem (kr s) i j) * F_point dt s i j \<and>
     elem (Jz s') i j = elem (Jz s) i j + (- \<i>) * complex_of_real (elem (kz s) i j) * F_point dt s i j"
proof -
  note sh = wf[unfolded wf_spect_def] wf_spect_inv_k2[OF wf]
  show ?thesis
    using sh dt ij
    by (simp add: correct_currents_def Let_def F_point_def has_shape_arith
        elem_arith[where nz = "Nz s" and nr = "Nr s"])
qed

lemma correct_currents_wf:
  assumes "wf_spect s" "correct_currents dt s = Inr s'"
  shows "wf_spect s'"
  using assms
  by (auto simp add: correct_currents_def Let_def wf_spect_def has_shape_arith has_shape_inv_k2_of
      split: if_splits)

lemma correct_currents_grid:
  assumes "correct_currents dt s = Inr s'"
  shows "kz s' = kz s \<and> kr s' = kr s \<and> inv_k2 s' = inv_k2 s \<and> Nz s' = Nz s \<and> Nr s' = Nr s
         \<and> m s' = m s \<and> filter_array s' = filter_array s
         \<and> rho_prev s' = rho_prev s \<and> rho_next s' = rho_next s"
  using assms by (auto simp add: correct_currents_def Let_def split: if_splits)

text \<open>
  Claim C9. For every spectral grid and every \<open>dt > 0\<close>, \<open>correct_currents\<close> returns
  normally and changes only the arrays \<open>Jp\<close>, \<open>Jm\<close>, \<open>Jz\<close> and the scratch array \<open>F\<close>:
  the arrays \<open>Ep\<close>, \<open>Em\<close>, \<open>Ez\<close>, \<open>Bp\<close>, \<open>Bm\<close>, \<open>Bz\<close>, \<open>rho_prev\<close> and \<open>rho_next\<close>
  are the same after the call, and so is every other attribute of the grid.
\<close>

theorem correct_currents_frame:
  assumes "0 < dt"
  shows "\<exists>s'. correct_currents dt s = Inr s' \<and>
           Ep s' = Ep s \<and> Em s' = Em s \<and> Ez s' = Ez s \<and>
           Bp s' = Bp s \<and> Bm s' = Bm s \<and> Bz s' = Bz s \<and>
           rho_prev s' = rho_prev s \<and> rho_next s' = rho_next s \<and>
           s' = s\<lparr> F := F s', Jp := Jp s', Jm := Jm s', Jz := Jz s' \<rparr>"
  using assms by (simp add: correct_currents_def Let_def)

theorem correct_currents_frame_witness:
  "0 < (1::real) \<and>
   (\<exists>s'. correct_currents 1 example_grid = Inr s' \<and>
      Ep s' = Ep example_grid \<and> Em s' = Em example_grid \<and> Ez s' = Ez example_grid \<and>
      Bp s' = Bp example_grid \<and> Bm s' = Bm example_grid \<and> Bz s' = Bz example_grid \<and>
      rho_prev s' = rho_prev example_grid \<and> rho_next s' = rho_next example_grid)"
  using correct_currents_frame[of 1 example_grid] by auto

text \<open>
  Claim C1. For every spectral grid that satisfies the invariant and every \<open>dt > 0\<close>,
  \<open>correct_currents\<close> returns normally, and the residual
  \<open>(rho_next - rho_prev)/dt + i kz Jz + kr (Jp - Jm)\<close> computed from the corrected
  currents is zero at every point of the grid where \<open>kz^2 + kr^2\<close> is not zero.
\<close>

theorem continuity_after_correction:
  assumes wf: "wf_spect s" and dt: "0 < dt" and ij: "i < Nz s" "j < Nr s"
    and k: "(elem (kz s) i j) ^ 2 + (elem (kr s) i j) ^ 2 \<noteq> 0"
  shows "\<exists>s'. correct_currents dt s = Inr s' \<and> elem (continuity_residual dt s') i j = 0"
proof -
  from dt have dt0: "dt \<noteq> 0" by simp
  from correct_currents_elem[OF wf dt0 ij] obtain s' where
    s': "correct_currents dt s = Inr s'"
    and Jp': "elem (Jp s') i j = elem (Jp s) i j + 0.5 * complex_of_real (elem (kr s) i j) * F_point dt s i j"
    and Jm': "elem (Jm s') i j = elem (Jm s) i j + (- 0.5) * complex_of_real (elem (kr s) i j) * F_point dt s i j"
    and Jz': "elem (Jz s') i j = elem (Jz s) i j + (- \<i>) * complex_of_real (elem (kz s) i j) * F_point dt s i j"
    by blast
  note g = correct_currents_grid[OF s']
  have wf': "wf_spect s'" by (rule correct_currents_wf[OF wf s'])
  note sh' = wf'[unfolded wf_spect_def]
  have ij': "i < Nz s'" "j < Nr s'" using ij g by simp_all
  define kzv where "kzv = elem (kz s) i j"
  define krv where "krv = elem (kr s) i j"
  define D where "D = (elem (rho_next s) i j - elem (rho_prev s) i j) / complex_of_real dt
        + \<i> * complex_of_real kzv * elem (Jz s) i j
        + complex_of_real krv * (elem (Jp s) i j - elem (Jm s) i j)"
  have inv: "elem (inv_k2 s) i j = 1 / (kzv ^ 2 + krv ^ 2)"
    using wf ij k unfolding wf_spect_def kzv_def krv_def
    by (auto simp add: elem_inv_k2_of[where nz = "Nz s" and nr = "Nr s"])
  have Fp: "F_point dt s i j = - (1 / complex_of_real (kzv ^ 2 + krv ^ 2)) * D"
    unfolding F_point_def inv D_def kzv_def krv_def by (simp add: divide_inverse mult.commute)
  have res: "elem (continuity_residual dt s') i j =
         (elem (rho_next s) i j - elem (rho_prev s) i j) / complex_of_real dt
        + \<i> * complex_of_real kzv * elem (Jz s') i j
        + complex_of_real krv * (elem (Jp s') i j - elem (Jm s') i j)"
    using sh' ij g unfolding continuity_residual_def kzv_def krv_def
    by (simp add: has_shape_arith has_shape_amap elem_arith[where nz = "Nz s" and nr = "Nr s"]
        elem_amap[where nz = "Nz s" and nr = "Nr s"])
  have k': "complex_of_real (kzv ^ 2 + krv ^ 2) \<noteq> 0"
    using k unfolding kzv_def krv_def of_real_eq_0_iff by assumption
  define G where "G = F_point dt s i j"
  have ii: "\<i> * (a * (\<i> * b)) = - (a * b)" for a b :: complex
    by (simp add: mult.left_commute)
  have "elem (continuity_residual dt s') i j = D + complex_of_real (kzv ^ 2 + krv ^ 2) * G"
    unfolding res Jp' Jm' Jz' D_def kzv_def[symmetric] krv_def[symmetric] G_def[symmetric]
    by (simp add: algebra_simps power2_eq_square ii)
  also have "\<dots> = D - complex_of_real (kzv ^ 2 + krv ^ 2) * ((1 / complex_of_real (kzv ^ 2 + krv ^ 2)) * D)"
    unfolding G_def Fp by simp
  also have "\<dots> = 0" using k' by simp
  finally show ?thesis using s' by blast
qed

theorem continuity_after_correction_witness:
  "wf_spect example_grid \<and> 0 < (1::real) \<and> 1 < Nz example_grid \<and> 1 < Nr example_grid \<and>
   (elem (kz example_grid) 1 1) ^ 2 + (elem (kr example_grid) 1 1) ^ 2 \<noteq> 0 \<and>
   (\<exists>s'. correct_currents 1 example_grid = Inr s' \<and> elem (continuity_residual 1 s') 1 1 = 0)"
proof -
  have ij: "1 < Nz example_grid" "1 < Nr example_grid" by (simp_all add: example_shapes)
  have k: "(elem (kz example_grid) 1 1) ^ 2 + (elem (kr example_grid) 1 1) ^ 2 \<noteq> 0"
    by (simp add: example_grid_def elem_def)
  have dt: "0 < (1::real)" by simp
  from continuity_after_correction[OF example_grid_wf dt ij k] example_grid_wf ij k
  show ?thesis by simp
qed

text \<open>
  Claim C4. At every point of the grid where \<open>kz = 0\<close> and \<open>kr = 0\<close>, the array \<open>inv_k2\<close>
  holds 0, the divisor from which the constructor computed it is 1 (so no division by
  zero took place), and \<open>correct_currents\<close> leaves the entries of \<open>Jp\<close>, \<open>Jm\<close> and \<open>Jz\<close>
  as they are.
\<close>

theorem zero_mode_unchanged:
  assumes wf: "wf_spect s" and dt: "0 < dt" and ij: "i < Nz s" "j < Nr s"
    and k: "elem (kz s) i j = 0" "elem (kr s) i j = 0"
  shows "elem (inv_k2 s) i j = 0 \<and> elem (inv_k2_divisor (kz s) (kr s)) i j = 1 \<and>
         (\<exists>s'. correct_currents dt s = Inr s' \<and> elem (Jp s') i j = elem (Jp s) i j \<and>
           elem (Jm s') i j = elem (Jm s) i j \<and> elem (Jz s') i j = elem (Jz s) i j)"
proof -
  from dt have dt0: "dt \<noteq> 0" by simp
  have inv: "elem (inv_k2 s) i j = 0"
    using wf ij k unfolding wf_spect_def
    by (auto simp add: elem_inv_k2_of[where nz = "Nz s" and nr = "Nr s"])
  then have "F_point dt s i j = 0" by (simp add: F_point_def)
  moreover have "elem (inv_k2_divisor (kz s) (kr s)) i j = 1"
    using wf ij k unfolding wf_spect_def
    by (simp add: elem_inv_k2_divisor[where nz = "Nz s" and nr = "Nr s"])
  ultimately show ?thesis using correct_currents_elem[OF wf dt0 ij] inv by auto
qed

theorem zero_mode_unchanged_witness:
  "wf_spect example_grid \<and> 0 < (1::real) \<and> 0 < Nz example_grid \<and> 0 < Nr example_grid \<and>
   elem (kz example_grid) 0 0 = 0 \<and> elem (kr example_grid) 0 0 = 0 \<and>
   elem (inv_k2 example_grid) 0 0 = 0 \<and>
   (\<exists>s'. correct_currents 1 example_grid = Inr s' \<and>
      elem (Jp s') 0 0 = 1 \<and> elem (Jm s') 0 0 = 2 \<and> elem (Jz s') 0 0 = 5)"
proof -
  have ij: "0 < Nz example_grid" "0 < Nr example_grid" by (simp_all add: example_shapes)
  have k: "elem (kz example_grid) 0 0 = 0" "elem (kr example_grid) 0 0 = 0"
    by (simp_all add: example_grid_def elem_def)
  have J: "elem (Jp example_grid) 0 0 = 1" "elem (Jm example_grid) 0 0 = 2"
    "elem (Jz example_grid) 0 0 = 5"
    by (simp_all add: example_grid_def elem_def)
  have dt: "0 < (1::real)" by simp
  from zero_mode_unchanged[OF example_grid_wf dt ij k] example_grid_wf ij k J
  show ?thesis by auto
qed

section \<open>The rotation of the charge density\<close>

lemma push_rho_fields:
  assumes "has_shape (Nz s) (Nr s) (rho_prev s)" "has_shape (Nz s) (Nr s) (rho_next s)"
  shows "rho_prev (push_rho s) = rho_next s" "rho_next (push_rho s) = zeros (Nz s) (Nr s)"
  using assms by (simp_all add: push_rho_def Let_def assign_all_same_shape[of "Nz s" "Nr s"] fill_zeros[of "Nz s" "Nr s"])

lemma push_rho_wf: "wf_spect s \<Longrightarrow> wf_spect (push_rho s)"
  by (simp add: push_rho_def Let_def wf_spect_def has_shape_arith)

text \<open>
  Claim C5. For every spectral grid that satisfies the invariant, after \<open>push_rho\<close> the
  array \<open>rho_prev\<close> is the array that \<open>rho_next\<close> was before the call, and \<open>rho_next\<close> is
  the array of zeros of the shape of the grid.
\<close>

theorem push_rho_rotation:
  assumes "wf_spect s"
  shows "rho_prev (push_rho s) = rho_next s \<and> rho_next (push_rho s) = zeros (Nz s) (Nr s)"
  using assms push_rho_fields[of s] by (simp add: wf_spect_def)

theorem push_rho_rotation_witness:
  "wf_spect example_grid \<and>
   rho_prev (push_rho example_grid) = NDArray [[3, 0], [1, 4], [\<i>, 1]] \<and>
   rho_next (push_rho example_grid) = NDArray [[0, 0], [0, 0], [0, 0]]"
  using push_rho_rotation[OF example_grid_wf] example_grid_wf
  by (simp add: example_shapes zeros_3_2) (simp add: example_grid_def)

section \<open>The coefficients\<close>

lemma c_light_pos: "0 < c_light"
  by (simp add: c_light_def)

lemma c_light_nz [simp]: "c_light \<noteq> 0"
  using c_light_pos by simp

lemma has_shape_omega:
  "has_shape nz nr kzm \<Longrightarrow> has_shape nz nr krm \<Longrightarrow> has_shape nz nr (omega kzm krm)"
  by (simp add: omega_def has_shape_arith)

lemma elem_omega:
  "has_shape nz nr kzm \<Longrightarrow> has_shape nz nr krm \<Longrightarrow> i < nz \<Longrightarrow> j < nr \<Longrightarrow>
   elem (omega kzm krm) i j = c_light * sqrt ((elem kzm i j) ^ 2 + (elem krm i j) ^ 2)"
  by (simp add: omega_def has_shape_arith elem_arith[where nz = nz and nr = nr])

lemma elem_inv_w_divisor:
  "has_shape nz nr w \<Longrightarrow> i < nz \<Longrightarrow> j < nr \<Longrightarrow>
   elem (inv_w_divisor w) i j = (if elem w i j = 0 then 1 else elem w i j)"
  by (simp add: inv_w_divisor_def has_shape_arith elem_arith[where nz = nz and nr = nr])

lemma has_shape_inv_w_divisor:
  "has_shape nz nr w \<Longrightarrow> has_shape nz nr (inv_w_divisor w)"
  by (simp add: inv_w_divisor_def has_shape_arith)

lemma psatd_elems:
  assumes kz: "has_shape nz nr kzm" and kr: "has_shape nz nr krm" and dt: "dt \<noteq> 0"
    and ij: "i < nz" "j < nr"
  shows "\<exists>ps. PsatdCoeffs_init kzm krm m0 dt nz nr = Inr ps \<and>
     ps_m ps = m0 \<and> ps_dt ps = dt \<and>
     elem (C ps) i j = cos (elem (omega kzm krm) i j * dt) \<and>
     elem (S_w ps) i j = (if elem (omega kzm krm) i j = 0 then dt
        else sin (elem (omega kzm krm) i j * dt) / elem (omega kzm krm) i j) \<and>
     elem (j_coef ps) i j = (if elem (omega kzm krm) i j = 0 then mu_0 * c_light ^ 2 * dt ^ 2 / 2
        else mu_0 * c_light ^ 2 * (1 - cos (elem (omega kzm krm) i j * dt)) / (elem (omega kzm krm) i j) ^ 2) \<and>
     elem (rho_prev_coef ps) i j = (if elem (omega kzm krm) i j = 0 then - (c_light ^ 2 / epsilon_0) * dt ^ 2 / 3
        else (c_light ^ 2 / epsilon_0) * (cos (elem (omega kzm krm) i j * dt)
               - (sin (elem (omega kzm krm) i j * dt) / elem (omega kzm krm) i j) / dt) / (elem (omega kzm krm) i j) ^ 2) \<and>
     elem (rho_next_coef ps) i j = (if elem (omega kzm krm) i j = 0 then (c_light ^ 2 / epsilon_0) * dt ^ 2 / 6
        else (c_light ^ 2 / epsilon_0) * (1
               - (sin (elem (omega kzm krm) i j * dt) / elem (omega kzm krm) i j) / dt) / (elem (omega kzm krm) i j) ^ 2)"
proof -
  note w = has_shape_omega[OF kz kr]
  note d = has_shape_inv_w_divisor[OF w]
  show ?thesis
    using w d dt ij
    by (simp add: PsatdCoeffs_init_def Let_def has_shape_arith has_shape_amap
        elem_inv_w_divisor[where nz = nz and nr = nr]
        elem_arith[where nz = nz and nr = nr] elem_amap[where nz = nz and nr = nr]
        power_divide mult.commute)
qed

lemma psatd_init_wf:
  assumes "has_shape nz nr kzm" "has_shape nz nr krm"
    and "PsatdCoeffs_init kzm krm m0 dt nz nr = Inr ps"
  shows "wf_psatd nz nr ps"
proof -
  note w = has_shape_omega[OF assms(1,2)]
  note d = has_shape_inv_w_divisor[OF w]
  show ?thesis
    using assms(3) w d
    by (auto simp add: PsatdCoeffs_init_def Let_def wf_psatd_def has_shape_arith has_shape_amap
        has_shape_zeros split: if_splits)
qed

text \<open>
  Claim C3. For meshes \<open>kz\<close>, \<open>kr\<close> of one shape and \<open>dt > 0\<close>, the constructor of the
  coefficients returns normally. With \<open>w = c sqrt(kz^2 + kr^2)\<close> at a point of the grid:
  \<open>C = cos(w dt)\<close>; where \<open>w\<close> is not zero, \<open>S_w = sin(w dt)/w\<close>,
  \<open>j_coef = mu_0 c^2 (1 - C)/w^2\<close>, \<open>rho_prev_coef = (c^2/epsilon_0) (C - S_w/dt)/w^2\<close> and
  \<open>rho_next_coef = (c^2/epsilon_0) (1 - S_w/dt)/w^2\<close>; where \<open>w\<close> is zero, \<open>S_w = dt\<close>,
  \<open>j_coef = mu_0 c^2 dt^2/2\<close>, \<open>rho_prev_coef = - (c^2/epsilon_0) dt^2/3\<close>,
  \<open>rho_next_coef = (c^2/epsilon_0) dt^2/6\<close>, and the divisor of \<open>inv_w\<close> is 1 there. The
  divisor of \<open>inv_w\<close> is zero at no point.
\<close>

theorem psatd_coefficients:
  assumes kz: "has_shape nz nr kzm" and kr: "has_shape nz nr krm" and dt: "0 < dt"
    and ij: "i < nz" "j < nr"
  shows "\<exists>ps. PsatdCoeffs_init kzm krm m0 dt nz nr = Inr ps \<and>
     elem (omega kzm krm) i j = c_light * sqrt ((elem kzm i j) ^ 2 + (elem krm i j) ^ 2) \<and>
     elem (C ps) i j = cos (elem (omega kzm krm) i j * dt) \<and>
     (elem (omega kzm krm) i j \<noteq> 0 \<longrightarrow>
        elem (S_w ps) i j = sin (elem (omega kzm krm) i j * dt) / elem (omega kzm krm) i j \<and>
        elem (j_coef ps) i j
          = mu_0 * c_light ^ 2 * (1 - elem (C ps) i j) / (elem (omega kzm krm) i j) ^ 2 \<and>
        elem (rho_prev_coef ps) i j
          = (c_light ^ 2 / epsilon_0) * (elem (C ps) i j - elem (S_w ps) i j / dt)
            / (elem (omega kzm krm) i j) ^ 2 \<and>
        elem (rho_next_coef ps) i j
          = (c_light ^ 2 / epsilon_0) * (1 - elem (S_w ps) i j / dt)
            / (elem (omega kzm krm) i j) ^ 2) \<and>
     (elem (omega kzm krm) i j = 0 \<longrightarrow>
        elem (S_w ps) i j = dt \<and>
        elem (j_coef ps) i j = mu_0 * c_light ^ 2 * dt ^ 2 / 2 \<and>
        elem (rho_prev_coef ps) i j = - (c_light ^ 2 / epsilon_0) * dt ^ 2 / 3 \<and>
        elem (rho_next_coef ps) i j = (c_light ^ 2 / epsilon_0) * dt ^ 2 / 6 \<and>
        elem (inv_w_divisor (omega kzm krm)) i j = 1) \<and>
     elem (inv_w_divisor (omega kzm krm)) i j \<noteq> 0"
proof -
  from dt have dt0: "dt \<noteq> 0" by simp
  note w = has_shape_omega[OF kz kr]
  from psatd_elems[OF kz kr dt0 ij, of m0] obtain ps where
    ps: "PsatdCoeffs_init kzm krm m0 dt nz nr = Inr ps"
    and C: "elem (C ps) i j = cos (elem (omega kzm krm) i j * dt)"
    and S: "elem (S_w ps) i j = (if elem (omega kzm krm) i j = 0 then dt
        else sin (elem (omega kzm krm) i j * dt) / elem (omega kzm krm) i j)"
    and J: "elem (j_coef ps) i j = (if elem (omega kzm krm) i j = 0 then mu_0 * c_light ^ 2 * dt ^ 2 / 2
        else mu_0 * c_light ^ 2 * (1 - cos (elem (omega kzm krm) i j * dt)) / (elem (omega kzm krm) i j) ^ 2)"
    and P: "elem (rho_prev_coef ps) i j = (if elem (omega kzm krm) i j = 0 then - (c_light ^ 2 / epsilon_0) * dt ^ 2 / 3
        else (c_light ^ 2 / epsilon_0) * (cos (elem (omega kzm krm) i j * dt)
               - (sin (elem (omega kzm krm) i j * dt) / elem (omega kzm krm) i j) / dt) / (elem (omega kzm krm) i j) ^ 2)"
    and N: "elem (rho_next_coef ps) i j = (if elem (omega kzm krm) i j = 0 then (c_light ^ 2 / epsilon_0) * dt ^ 2 / 6
        else (c_light ^ 2 / epsilon_0) * (1
               - (sin (elem (omega kzm krm) i j * dt) / elem (omega kzm krm) i j) / dt) / (elem (omega kzm krm) i j) ^ 2)"
    by blast
  have D: "elem (inv_w_divisor (omega kzm krm)) i j
             = (if elem (omega kzm krm) i j = 0 then 1 else elem (omega kzm krm) i j)"
    by (rule elem_inv_w_divisor[OF w ij])
  show ?thesis
    using ps elem_omega[OF kz kr ij] C S J P N D by auto
qed

theorem psatd_coefficients_witness:
  "has_shape 3 2 (kz example_grid) \<and> has_shape 3 2 (kr example_grid) \<and> 0 < example_dt \<and>
   (\<exists>ps. PsatdCoeffs_init (kz example_grid) (kr example_grid) 1 example_dt 3 2 = Inr ps \<and>
      elem (C ps) 0 1 = 0 \<and> elem (S_w ps) 0 1 = 1 / c_light \<and>
      elem (C ps) 0 0 = 1 \<and> elem (S_w ps) 0 0 = example_dt \<and>
      elem (rho_next_coef ps) 0 0 = (c_light ^ 2 / epsilon_0) * example_dt ^ 2 / 6)"
proof -
  have dt: "0 < example_dt" using c_light_pos by (simp add: example_dt_def)
  have p01: "(0::nat) < 3" "(1::nat) < 2" and p00: "(0::nat) < 3" "(0::nat) < 2" by simp_all
  have w01: "elem (omega (kz example_grid) (kr example_grid)) 0 1 = c_light"
    unfolding elem_omega[OF example_shapes(1,2) p01] by (simp add: example_grid_def elem_def)
  have w00: "elem (omega (kz example_grid) (kr example_grid)) 0 0 = 0"
    unfolding elem_omega[OF example_shapes(1,2) p00] by (simp add: example_grid_def elem_def)
  have half: "c_light * example_dt = pi / 2" by (simp add: example_dt_def)
  from psatd_coefficients[OF example_shapes(1,2) dt p01, of 1] obtain ps where
    ps: "PsatdCoeffs_init (kz example_grid) (kr example_grid) 1 example_dt 3 2 = Inr ps"
    and a: "elem (C ps) 0 1 = 0" "elem (S_w ps) 0 1 = 1 / c_light"
    unfolding w01 half by auto
  from psatd_coefficients[OF example_shapes(1,2) dt p00, of 1] ps
  have b: "elem (C ps) 0 0 = 1" "elem (S_w ps) 0 0 = example_dt"
    "elem (rho_next_coef ps) 0 0 = (c_light ^ 2 / epsilon_0) * example_dt ^ 2 / 6"
    unfolding w00 by auto
  from ps a b dt example_shapes(1,2) show ?thesis by blast
qed

section \<open>The push without particle feedback\<close>

text \<open>
  At one spectral point the push without feedback is \<open>E' = C E + c^2 S_w curl B\<close>,
  \<open>B' = C B - S_w curl E\<close>. The weighted square norm of the curl of a vector is
  \<open>(kz^2 + kr^2)\<close> times that of the vector, minus the square modulus of its divergence,
  and the coefficients satisfy \<open>C^2 + c^2 S_w^2 (kz^2 + kr^2) = 1\<close>; hence the weighted
  sum changes by \<open>- c^2 S_w^2 (|div E|^2 + c^2 |div B|^2)\<close> at each point
  (\<open>energy_step\<close>). The divergence of a curl vanishes, so a transverse state stays
  transverse.
\<close>

lemma wnorm_curl:
  "wnorm (curl_p kzv krv p q z) (curl_m kzv krv p q z) (curl_z kzv krv p q z)
   = (kzv ^ 2 + krv ^ 2) * wnorm p q z - (cmod (div_pt kzv krv p q z)) ^ 2"
  unfolding wnorm_def curl_p_def curl_m_def curl_z_def div_pt_def cmod_power2
  by (simp add: power2_eq_square algebra_simps)

lemma energy_step:
  fixes a sw cc kzv krv :: real and ep em ez bp bm bz :: complex
  shows
  "wnorm (complex_of_real a * ep + complex_of_real (cc ^ 2 * sw) * curl_p kzv krv bp bm bz)
         (complex_of_real a * em + complex_of_real (cc ^ 2 * sw) * curl_m kzv krv bp bm bz)
         (complex_of_real a * ez + complex_of_real (cc ^ 2 * sw) * curl_z kzv krv bp bm bz)
   + cc ^ 2 * wnorm (complex_of_real a * bp - complex_of_real sw * curl_p kzv krv ep em ez)
         (complex_of_real a * bm - complex_of_real sw * curl_m kzv krv ep em ez)
         (complex_of_real a * bz - complex_of_real sw * curl_z kzv krv ep em ez)
   = (a ^ 2 + cc ^ 2 * sw ^ 2 * (kzv ^ 2 + krv ^ 2)) * (wnorm ep em ez + cc ^ 2 * wnorm bp bm bz)
     - cc ^ 2 * sw ^ 2 * ((cmod (div_pt kzv krv ep em ez)) ^ 2 + cc ^ 2 * (cmod (div_pt kzv krv bp bm bz)) ^ 2)"
  unfolding wnorm_def curl_p_def curl_m_def curl_z_def div_pt_def cmod_power2
  by (simp add: power2_eq_square algebra_simps)

lemma div_curl:
  "div_pt kzv krv (curl_p kzv krv p q z) (curl_m kzv krv p q z) (curl_z kzv krv p q z) = 0"
  unfolding curl_p_def curl_m_def curl_z_def div_pt_def
  by (simp add: algebra_simps)

lemma div_pt_linear:
  "div_pt kzv krv (a * p + b * p') (a * q + b * q') (a * z + b * z')
   = a * div_pt kzv krv p q z + b * div_pt kzv krv p' q' z'"
  unfolding div_pt_def by (simp add: algebra_simps)

lemma push_eb_vacuum_elems:
  assumes wf: "wf_spect s" and ps: "wf_psatd (Nz s) (Nr s) ps" and mm: "m s = ps_m ps"
    and ij: "i < Nz s" "j < Nr s"
  shows "\<exists>s' ps'. push_eb_with s ps False u = Inr (s', ps') \<and>
     elem (Ep s') i j = complex_of_real (elem (C ps) i j) * elem (Ep s) i j
        + complex_of_real (c_light ^ 2 * elem (S_w ps) i j)
          * curl_p (elem (kz s) i j) (elem (kr s) i j) (elem (Bp s) i j) (elem (Bm s) i j) (elem (Bz s) i j) \<and>
     elem (Em s') i j = complex_of_real (elem (C ps) i j) * elem (Em s) i j
        + complex_of_real (c_light ^ 2 * elem (S_w ps) i j)
          * curl_m (elem (kz s) i j) (elem (kr s) i j) (elem (Bp s) i j) (elem (Bm s) i j) (elem (Bz s) i j) \<and>
     elem (Ez s') i j = complex_of_real (elem (C ps) i j) * elem (Ez s) i j
        + complex_of_real (c_light ^ 2 * elem (S_w ps) i j)
          * curl_z (elem (kz s) i j) (elem (kr s) i j) (elem (Bp s) i j) (elem (Bm s) i j) (elem (Bz s) i j) \<and>
     elem (Bp s') i j = complex_of_real (elem (C ps) i j) * elem (Bp s) i j
        - complex_of_real (elem (S_w ps) i j)
          * curl_p (elem (kz s) i j) (elem (kr s) i j) (elem (Ep s) i j) (elem (Em s) i j) (elem (Ez s) i j) \<and>
     elem (Bm s') i j = complex_of_real (elem (C ps) i j) * elem (Bm s) i j
        - complex_of_real (elem (S_w ps) i j)
          * curl_m (elem (kz s) i j) (elem (kr s) i j) (elem (Ep s) i j) (elem (Em s) i j) (elem (Ez s) i j) \<and>
     elem (Bz s') i j = complex_of_real (elem (C ps) i j) * elem (Bz s) i j
        - complex_of_real (elem (S_w ps) i j)
          * curl_z (elem (kz s) i j) (elem (kr s) i j) (elem (Ep s) i j) (elem (Em s) i j) (elem (Ez s) i j)"
proof -
  note sh = wf[unfolded wf_spect_def] ps[unfolded wf_psatd_def]
  show ?thesis
    using sh mm ij
    by (simp add: push_eb_with_def Let_def has_shape_arith curl_p_def curl_m_def curl_z_def
        elem_arith[where nz = "Nz s" and nr = "Nr s"])
qed

lemma coeffs_for_init:
  assumes "PsatdCoeffs_init (kz s) (kr s) (m s) dt (Nz s) (Nr s) = Inr ps"
  shows "coeffs_for s dt ps"
  using assms
  by (auto simp add: coeffs_for_def PsatdCoeffs_init_def Let_def has_shape_zeros split: if_splits)

lemma coeffs_for_wf:
  assumes wf: "wf_spect s" and cf: "coeffs_for s dt ps"
  shows "wf_psatd (Nz s) (Nr s) ps" and "ps_m ps = m s" and "dt \<noteq> 0"
proof -
  from cf obtain ps0 where ps0: "PsatdCoeffs_init (kz s) (kr s) (m s) dt (Nz s) (Nr s) = Inr ps0"
    and eqs: "ps_m ps = ps_m ps0" "C ps = C ps0" "S_w ps = S_w ps0" "j_coef ps = j_coef ps0"
      "rho_prev_coef ps = rho_prev_coef ps0" "rho_next_coef ps = rho_next_coef ps0"
      "has_shape (Nz s) (Nr s) (ps_Ep ps)" "has_shape (Nz s) (Nr s) (ps_Em ps)"
      "has_shape (Nz s) (Nr s) (ps_Ez ps)"
    by (auto simp add: coeffs_for_def split: sum.splits)
  from wf have k: "has_shape (Nz s) (Nr s) (kz s)" "has_shape (Nz s) (Nr s) (kr s)"
    by (simp_all add: wf_spect_def)
  from psatd_init_wf[OF k ps0] eqs show "wf_psatd (Nz s) (Nr s) ps"
    by (simp add: wf_psatd_def)
  from ps0 show "dt \<noteq> 0" by (auto simp add: PsatdCoeffs_init_def Let_def split: if_splits)
  from ps0 eqs(1) show "ps_m ps = m s"
    by (auto simp add: PsatdCoeffs_init_def Let_def split: if_splits)
qed

lemma propagator_unit:
  fixes dt kzv krv :: real
  defines "w \<equiv> c_light * sqrt (kzv ^ 2 + krv ^ 2)"
  shows "(cos (w * dt)) ^ 2
         + c_light ^ 2 * (if w = 0 then dt else sin (w * dt) / w) ^ 2 * (kzv ^ 2 + krv ^ 2) = 1"
proof (cases "w = 0")
  case True
  then have "sqrt (kzv ^ 2 + krv ^ 2) = 0" using c_light_pos by (simp add: w_def)
  then have "kzv ^ 2 + krv ^ 2 = 0" by simp
  with True show ?thesis by simp
next
  case False
  have "w ^ 2 = c_light ^ 2 * (kzv ^ 2 + krv ^ 2)"
    by (simp add: w_def power_mult_distrib)
  then have "c_light ^ 2 * (sin (w * dt) / w) ^ 2 * (kzv ^ 2 + krv ^ 2) = (sin (w * dt)) ^ 2 * (w ^ 2 / w ^ 2)"
    by (simp add: power_divide)
  also have "\<dots> = (sin (w * dt)) ^ 2" using False by simp
  finally show ?thesis using False by (simp add: add.commute)
qed

lemma coeffs_for_unit:
  assumes wf: "wf_spect s" and cf: "coeffs_for s dt ps" and ij: "i < Nz s" "j < Nr s"
  shows "(elem (C ps) i j) ^ 2
         + c_light ^ 2 * (elem (S_w ps) i j) ^ 2 * ((elem (kz s) i j) ^ 2 + (elem (kr s) i j) ^ 2) = 1"
proof -
  from cf obtain ps0 where ps0: "PsatdCoeffs_init (kz s) (kr s) (m s) dt (Nz s) (Nr s) = Inr ps0"
    and eqs: "C ps = C ps0" "S_w ps = S_w ps0"
    by (auto simp add: coeffs_for_def split: sum.splits)
  from wf have k: "has_shape (Nz s) (Nr s) (kz s)" "has_shape (Nz s) (Nr s) (kr s)"
    by (simp_all add: wf_spect_def)
  have dt: "dt \<noteq> 0" by (rule coeffs_for_wf(3)[OF wf cf])
  from psatd_elems[OF k dt ij, of "m s"] ps0
  have C: "elem (C ps0) i j = cos (elem (omega (kz s) (kr s)) i j * dt)"
    and S: "elem (S_w ps0) i j = (if elem (omega (kz s) (kr s)) i j = 0 then dt
        else sin (elem (omega (kz s) (kr s)) i j * dt) / elem (omega (kz s) (kr s)) i j)"
    by auto
  show ?thesis
    unfolding eqs C S elem_omega[OF k ij]
    by (rule propagator_unit)
qed

lemma push_eb_frame:
  assumes "push_eb_with s ps f u = Inr (s', ps')"
  shows "kz s' = kz s \<and> kr s' = kr s \<and> inv_k2 s' = inv_k2 s \<and> Nz s' = Nz s \<and> Nr s' = Nr s
         \<and> m s' = m s \<and> filter_array s' = filter_array s \<and> F s' = F s
         \<and> Jp s' = Jp s \<and> Jm s' = Jm s \<and> Jz s' = Jz s
         \<and> rho_prev s' = rho_prev s \<and> rho_next s' = rho_next s
         \<and> ps_m ps' = ps_m ps \<and> ps_dt ps' = ps_dt ps \<and> C ps' = C ps \<and> S_w ps' = S_w ps
         \<and> j_coef ps' = j_coef ps \<and> rho_prev_coef ps' = rho_prev_coef ps
         \<and> rho_next_coef ps' = rho_next_coef ps"
  using assms by (auto simp add: push_eb_with_def Let_def split: if_splits)

lemma push_eb_wf:
  assumes wf: "wf_spect s" and ps: "wf_psatd (Nz s) (Nr s) ps"
    and r: "push_eb_with s ps f u = Inr (s', ps')"
  shows "wf_spect s'" and "wf_psatd (Nz s) (Nr s) ps'"
proof -
  note sh = wf[unfolded wf_spect_def] ps[unfolded wf_psatd_def]
  show "wf_spect s'"
    using r sh
    by (auto simp add: push_eb_with_def Let_def wf_spect_def has_shape_arith split: if_splits)
  show "wf_psatd (Nz s) (Nr s) ps'"
    using r sh
    by (auto simp add: push_eb_with_def Let_def wf_psatd_def has_shape_arith split: if_splits)
qed

lemma has_shape_wed:
  assumes "wf_spect s"
  shows "has_shape (Nz s) (Nr s) (weighted_energy_density s)"
  using assms
  by (simp add: wf_spect_def weighted_energy_density_def abs2_def has_shape_arith has_shape_amap)

lemma elem_wed:
  assumes "wf_spect s" "i < Nz s" "j < Nr s"
  shows "elem (weighted_energy_density s) i j =
     wnorm (elem (Ep s) i j) (elem (Em s) i j) (elem (Ez s) i j)
     + c_light ^ 2 * wnorm (elem (Bp s) i j) (elem (Bm s) i j) (elem (Bz s) i j)"
  using assms
  by (simp add: wf_spect_def weighted_energy_density_def abs2_def wnorm_def has_shape_arith
      has_shape_amap elem_arith[where nz = "Nz s" and nr = "Nr s"]
      elem_amap[where nz = "Nz s" and nr = "Nr s"])

lemma elem_div:
  assumes "wf_spect s" "i < Nz s" "j < Nr s"
  shows "elem (div_E s) i j =
           div_pt (elem (kz s) i j) (elem (kr s) i j) (elem (Ep s) i j) (elem (Em s) i j) (elem (Ez s) i j)"
    and "elem (div_B s) i j =
           div_pt (elem (kz s) i j) (elem (kr s) i j) (elem (Bp s) i j) (elem (Bm s) i j) (elem (Bz s) i j)"
  using assms
  by (simp_all add: wf_spect_def div_E_def div_B_def div_pt_def has_shape_arith
      elem_arith[where nz = "Nz s" and nr = "Nr s"])

lemma has_shape_div:
  assumes "wf_spect s"
  shows "has_shape (Nz s) (Nr s) (div_E s)" "has_shape (Nz s) (Nr s) (div_B s)"
  using assms by (simp_all add: wf_spect_def div_E_def div_B_def has_shape_arith)

text \<open>
  Claim C2, as amended. For every spectral grid that satisfies the invariant and is
  transverse (the divergences of \<open>E\<close> and \<open>B\<close> vanish at every point), and for the
  coefficients built for the grid, \<open>push_eb_with\<close> without particle feedback returns
  normally and leaves the sum over the grid of
  \<open>2|Ep|^2 + 2|Em|^2 + |Ez|^2 + c^2 (2|Bp|^2 + 2|Bm|^2 + |Bz|^2)\<close> unchanged. The state
  after the push satisfies the same hypotheses, so the statement holds for every call of
  a sequence of pushes.
\<close>

theorem vacuum_push_conserves_weighted_energy:
  assumes wf: "wf_spect s" and cf: "coeffs_for s dt ps" and tr: "transverse s"
  shows "\<exists>s' ps'. push_eb_with s ps False u = Inr (s', ps') \<and>
           weighted_energy s' = weighted_energy s \<and>
           wf_spect s' \<and> coeffs_for s' dt ps' \<and> transverse s'"
proof -
  note psw = coeffs_for_wf[OF wf cf]
  have mm: "m s = ps_m ps" using psw(2) by simp
  have "\<exists>s' ps'. push_eb_with s ps False u = Inr (s', ps')"
    using mm by (simp add: push_eb_with_def Let_def)
  then obtain s' ps' where r: "push_eb_with s ps False u = Inr (s', ps')" by blast
  note fr = push_eb_frame[OF r]
  note wf' = push_eb_wf[OF wf psw(1) r]
  have pt: "elem (weighted_energy_density s') i j = elem (weighted_energy_density s) i j
            \<and> elem (div_E s') i j = 0 \<and> elem (div_B s') i j = 0"
    if ij: "i < Nz s" "j < Nr s" for i j
  proof -
    have ij': "i < Nz s'" "j < Nr s'" using ij fr by simp_all
    from push_eb_vacuum_elems[OF wf psw(1) mm ij, of u] r
    have el: "elem (Ep s') i j = complex_of_real (elem (C ps) i j) * elem (Ep s) i j
        + complex_of_real (c_light ^ 2 * elem (S_w ps) i j)
          * curl_p (elem (kz s) i j) (elem (kr s) i j) (elem (Bp s) i j) (elem (Bm s) i j) (elem (Bz s) i j)"
     "elem (Em s') i j = complex_of_real (elem (C ps) i j) * elem (Em s) i j
        + complex_of_real (c_light ^ 2 * elem (S_w ps) i j)
          * curl_m (elem (kz s) i j) (elem (kr s) i j) (elem (Bp s) i j) (elem (Bm s) i j) (elem (Bz s) i j)"
     "elem (Ez s') i j = complex_of_real (elem (C ps) i j) * elem (Ez s) i j
        + complex_of_real (c_light ^ 2 * elem (S_w ps) i j)
          * curl_z (elem (kz s) i j) (elem (kr s) i j) (elem (Bp s) i j) (elem (Bm s) i j) (elem (Bz s) i j)"
     "elem (Bp s') i j = complex_of_real (elem (C ps) i j) * elem (Bp s) i j
        - complex_of_real (elem (S_w ps) i j)
          * curl_p (elem (kz s) i j) (elem (kr s) i j) (elem (Ep s) i j) (elem (Em s) i j) (elem (Ez s) i j)"
     "elem (Bm s') i j = complex_of_real (elem (C ps) i j) * elem (Bm s) i j
        - complex_of_real (elem (S_w ps) i j)
          * curl_m (elem (kz s) i j) (elem (kr s) i j) (elem (Ep s) i j) (elem (Em s) i j) (elem (Ez s) i j)"
     "elem (Bz s') i j = complex_of_real (elem (C ps) i j) * elem (Bz s) i j
        - complex_of_real (elem (S_w ps) i j)
          * curl_z (elem (kz s) i j) (elem (kr s) i j) (elem (Ep s) i j) (elem (Em s) i j) (elem (Ez s) i j)"
      by simp_all
    have dE: "div_pt (elem (kz s) i j) (elem (kr s) i j) (elem (Ep s) i j) (elem (Em s) i j) (elem (Ez s) i j) = 0"
      using tr elem_div(1)[OF wf ij] ij by (simp add: transverse_def elem_zeros)
    have dB: "div_pt (elem (kz s) i j) (elem (kr s) i j) (elem (Bp s) i j) (elem (Bm s) i j) (elem (Bz s) i j) = 0"
      using tr elem_div(2)[OF wf ij] ij by (simp add: transverse_def elem_zeros)
    have unit: "(elem (C ps) i j) ^ 2
         + c_light ^ 2 * (elem (S_w ps) i j) ^ 2 * ((elem (kz s) i j) ^ 2 + (elem (kr s) i j) ^ 2) = 1"
      by (rule coeffs_for_unit[OF wf cf ij])
    have e1: "elem (weighted_energy_density s') i j = elem (weighted_energy_density s) i j"
      unfolding elem_wed[OF wf'(1) ij'] elem_wed[OF wf ij] el
      by (simp only: energy_step dE dB unit) simp
    have e2: "elem (div_E s') i j = 0"
      unfolding elem_div(1)[OF wf'(1) ij'] el
      using fr dE div_curl[of "elem (kz s) i j" "elem (kr s) i j" "elem (Bp s) i j" "elem (Bm s) i j" "elem (Bz s) i j"]
      by (simp add: div_pt_linear)
    have e3: "elem (div_B s') i j = 0"
      unfolding elem_div(2)[OF wf'(1) ij'] el
      using fr dB div_curl[of "elem (kz s) i j" "elem (kr s) i j" "elem (Ep s) i j" "elem (Em s) i j" "elem (Ez s) i j"]
        div_pt_linear[of "elem (kz s) i j" "elem (kr s) i j" "complex_of_real (elem (C ps) i j)" _ "- complex_of_real (elem (S_w ps) i j)"]
      by simp
    from e1 e2 e3 show ?thesis by simp
  qed
  have "weighted_energy_density s' = weighted_energy_density s"
    using has_shape_wed[OF wf'(1)] has_shape_wed[OF wf] fr pt
    by (intro array_eqI[of "Nz s" "Nr s"]) simp_all
  then have en: "weighted_energy s' = weighted_energy s" by (simp add: weighted_energy_def)
  have "div_E s' = zeros (Nz s) (Nr s)"
    using has_shape_div(1)[OF wf'(1)] fr pt
    by (intro array_eqI[of "Nz s" "Nr s"]) (simp_all add: has_shape_zeros elem_zeros)
  moreover have "div_B s' = zeros (Nz s) (Nr s)"
    using has_shape_div(2)[OF wf'(1)] fr pt
    by (intro array_eqI[of "Nz s" "Nr s"]) (simp_all add: has_shape_zeros elem_zeros)
  ultimately have tr': "transverse s'" using fr by (simp add: transverse_def)
  have cf': "coeffs_for s' dt ps'"
    using cf fr wf'(2) by (auto simp add: coeffs_for_def wf_psatd_def split: sum.splits)
  from r en wf'(1) cf' tr' show ?thesis by blast
qed

lemma example_transverse: "transverse example_grid"
  by (simp add: transverse_def div_E_def div_B_def example_grid_def array_eval)

lemma example_field_energy: "field_energy example_grid = 2"
  by (simp add: field_energy_def example_grid_def array_eval)

lemma example_weighted_energy: "weighted_energy example_grid = 4"
  by (simp add: weighted_energy_def weighted_energy_density_def example_grid_def array_eval)

theorem vacuum_push_conserves_weighted_energy_witness:
  "wf_spect example_grid \<and> transverse example_grid \<and>
   (\<exists>ps. PsatdCoeffs_init (kz example_grid) (kr example_grid) (m example_grid) example_dt
            (Nz example_grid) (Nr example_grid) = Inr ps \<and>
      coeffs_for example_grid example_dt ps \<and>
      (\<exists>s' ps'. push_eb_with example_grid ps False False = Inr (s', ps') \<and>
         weighted_energy s' = 4 \<and> weighted_energy example_grid = 4))"
proof -
  have dt: "0 < example_dt" using c_light_pos by (simp add: example_dt_def)
  from psatd_elems[OF example_shapes(1,2), of example_dt 0 0 "m example_grid"] dt
  obtain ps where ps: "PsatdCoeffs_init (kz example_grid) (kr example_grid) (m example_grid)
      example_dt (Nz example_grid) (Nr example_grid) = Inr ps"
    by (auto simp add: example_shapes)
  have cf: "coeffs_for example_grid example_dt ps" by (rule coeffs_for_init[OF ps])
  from vacuum_push_conserves_weighted_energy[OF example_grid_wf cf example_transverse, of False]
  obtain s' ps' where "push_eb_with example_grid ps False False = Inr (s', ps')"
    and "weighted_energy s' = weighted_energy example_grid"
    by blast
  with ps cf example_grid_wf example_transverse example_weighted_energy show ?thesis
    by auto
qed

text \<open>
  Claim C2 as stated fails on the concrete grid, which is transverse: the sum of
  \<open>|Ep|^2 + |Em|^2 + |Ez|^2 + c^2 (|Bp|^2 + |Bm|^2 + |Bz|^2)\<close> is 2 before the push
  without particle feedback and 4 after it.
\<close>

theorem vacuum_energy_counterexample:
  "wf_spect example_grid \<and> transverse example_grid \<and> field_energy example_grid = 2 \<and>
   after_vacuum_push field_energy example_grid example_dt = Some 4"
proof -
  have "after_vacuum_push field_energy example_grid example_dt = Some 4"
    apply (simp add: after_vacuum_push_def PsatdCoeffs_init_def omega_def inv_w_divisor_def
        example_grid_def Let_def array_eval push_eb_with_def field_energy_def)
    apply (simp add: example_dt_def norm_mult norm_divide power_divide)
    done
  with example_grid_wf example_transverse example_field_energy show ?thesis by simp
qed

text \<open>
  The hypothesis of transversality is needed: a longitudinal field, \<open>Ez = 1\<close> at the point
  \<open>kz = 1\<close>, \<open>kr = 0\<close>, is multiplied by \<open>C = cos(w dt)\<close>, and the weighted sum goes from 1
  to 0.
\<close>

lemma longitudinal_field_decays:
  "weighted_energy (example_grid\<lparr> Ep := zeros 3 2, Em := zeros 3 2,
       Ez := NDArray [[0, 0], [1, 0], [0, 0]] \<rparr>) = 1 \<and>
   after_vacuum_push weighted_energy (example_grid\<lparr> Ep := zeros 3 2, Em := zeros 3 2,
       Ez := NDArray [[0, 0], [1, 0], [0, 0]] \<rparr>) example_dt = Some 0"
  apply (simp add: after_vacuum_push_def PsatdCoeffs_init_def omega_def inv_w_divisor_def
      example_grid_def Let_def array_eval push_eb_with_def weighted_energy_def
      weighted_energy_density_def)
  apply (simp add: example_dt_def norm_mult norm_divide power_divide)
  done

section \<open>The spectral filter\<close>

text \<open>The filter keeps the invariant of the grid.\<close>

lemma SpectralGrid_filter_wf:
  assumes "wf_spect s" "SpectralGrid_filter s kind = Inr s'"
  shows "wf_spect s'"
  using assms
  by (auto simp add: SpectralGrid_filter_def Let_def wf_spect_def has_shape_arith split: if_splits)

section \<open>Loops over the modes\<close>

text \<open>
  A loop over the modes \<open>0, ..., n - 1\<close>: an invariant that every iteration establishes
  for the next mode without raising holds at the end, and the loop then returns
  normally; an invariant kept by the iterations that return holds after a loop that has
  returned; an error in the first iteration ends the loop.
\<close>

lemma for_modes_append:
  "for_modes (ks @ ls) body fs =
     (case for_modes ks body fs of Inl e \<Rightarrow> Inl e | Inr fs' \<Rightarrow> for_modes ls body fs')"
  by (induction ks arbitrary: fs) (auto split: sum.splits)

lemma for_modes_invariant:
  assumes step: "\<And>k fs'. k < n \<Longrightarrow> I k fs' \<Longrightarrow> \<exists>fs''. body k fs' = Inr fs'' \<and> I (Suc k) fs''"
    and init: "I 0 fs"
  shows "\<exists>fs'. for_modes [0..<n] body fs = Inr fs' \<and> I n fs'"
  using step
proof (induction n)
  case 0
  then show ?case using init by simp
next
  case (Suc n)
  from Suc.IH Suc.prems obtain fs' where a: "for_modes [0..<n] body fs = Inr fs'" and b: "I n fs'"
    by (metis less_Suc_eq)
  from Suc.prems[of n fs'] b obtain fs'' where c: "body n fs' = Inr fs''" and d: "I (Suc n) fs''"
    by blast
  show ?case using a c d by (simp add: for_modes_append)
qed

lemma for_modes_invariant_Inr:
  assumes run: "for_modes [0..<n] body fs = Inr fs1"
    and step: "\<And>k fs' fs''. k < n \<Longrightarrow> I k fs' \<Longrightarrow> body k fs' = Inr fs'' \<Longrightarrow> I (Suc k) fs''"
    and init: "I 0 fs"
  shows "I n fs1"
  using run step
proof (induction n arbitrary: fs1)
  case 0
  then show ?case using init by simp
next
  case (Suc n)
  from Suc.prems(1) obtain fs' where a: "for_modes [0..<n] body fs = Inr fs'"
    and b: "body n fs' = Inr fs1"
    by (auto simp add: for_modes_append split: sum.splits)
  have "I n fs'" using Suc.IH[OF a] Suc.prems(2) by (metis less_Suc_eq)
  then show ?case using Suc.prems(2)[of n fs' fs1] b by simp
qed

lemma for_modes_first_error:
  assumes "0 < n" and "body 0 fs = Inl e"
  shows "for_modes [0..<n] body fs = Inl e"
  using assms by (simp add: upt_conv_Cons)

section \<open>Unrecognized field types\<close>

lemma InterpolationGrid_filter_invalid:
  assumes "kind \<notin> {''rho'', ''J'', ''E'', ''B''}"
  shows "InterpolationGrid_filter g kind direction = Inl (InvalidFieldtype kind, g)"
  using assms by (simp add: InterpolationGrid_filter_def)

lemma SpectralGrid_filter_invalid:
  assumes "kind \<notin> {''rho_prev'', ''rho_next'', ''J'', ''E'', ''B''}"
  shows "SpectralGrid_filter s kind = Inl (InvalidFieldtype kind, s)"
  using assms by (simp add: SpectralGrid_filter_def)

lemma filter_interp_invalid:
  assumes "kind \<notin> {''rho'', ''J'', ''E'', ''B''}" and "0 < Nm fs" and "0 < length (interp fs)"
  shows "filter_interp fs kind direction = Inl (InvalidFieldtype kind, fs)"
  unfolding filter_interp_def
  using assms(3)
  by (intro for_modes_first_error[OF assms(2)])
     (simp add: InterpolationGrid_filter_invalid[OF assms(1)])

lemma filter_spect_invalid:
  assumes "kind \<notin> {''rho_prev'', ''rho_next'', ''J'', ''E'', ''B''}" and "0 < Nm fs"
    and "0 < length (spect fs)"
  shows "filter_spect fs kind = Inl (InvalidFieldtype kind, fs)"
  unfolding filter_spect_def
  using assms(3)
  by (intro for_modes_first_error[OF assms(2)])
     (simp add: SpectralGrid_filter_invalid[OF assms(1)])

text \<open>
  With no mode at all the two loops have no grid to call, and return without an error.
\<close>

lemma filter_interp_no_modes:
  "Nm fs = 0 \<Longrightarrow> filter_interp fs kind direction = Inr fs"
  by (simp add: filter_interp_def)

lemma filter_spect_no_modes:
  "Nm fs = 0 \<Longrightarrow> filter_spect fs kind = Inr fs"
  by (simp add: filter_spect_def)

text \<open>
  Claim C8. For every state of the fields and every string outside the set of field
  types that an operation recognizes, \<open>erase\<close>, \<open>divide_by_volume\<close>, \<open>interp2spect\<close> and
  \<open>spect2interp\<close> raise the error for an invalid field type and leave the fields as they
  are; so does the method \<open>filter\<close> of every interpolation grid and of every spectral
  grid. \<open>filter_interp\<close> and \<open>filter_spect\<close>, which call \<open>filter\<close> on the grid of each
  mode in turn, therefore raise the same error from the grid of mode 0, when the fields
  have at least one mode, and leave the fields as they are.
\<close>

theorem invalid_field_kind:
  "(kind \<notin> {''rho'', ''J'', ''E'', ''B''} \<longrightarrow>
      erase fs kind = Inl (InvalidFieldtype kind, fs) \<and>
      spect2interp fs kind = Inl (InvalidFieldtype kind, fs) \<and>
      InterpolationGrid_filter g kind direction = Inl (InvalidFieldtype kind, g) \<and>
      (0 < Nm fs \<and> 0 < length (interp fs) \<longrightarrow>
         filter_interp fs kind direction = Inl (InvalidFieldtype kind, fs))) \<and>
   (kind \<notin> {''rho'', ''J''} \<longrightarrow>
      divide_by_volume fs kind = Inl (InvalidFieldtype kind, fs)) \<and>
   (kind \<notin> {''E'', ''B'', ''J'', ''rho_next'', ''rho_prev''} \<longrightarrow>
      interp2spect fs kind = Inl (InvalidFieldtype kind, fs) \<and>
      SpectralGrid_filter s kind = Inl (InvalidFieldtype kind, s) \<and>
      (0 < Nm fs \<and> 0 < length (spect fs) \<longrightarrow>
         filter_spect fs kind = Inl (InvalidFieldtype kind, fs)))"
proof (intro conjI impI)
  assume k: "kind \<notin> {''rho'', ''J'', ''E'', ''B''}"
  show "erase fs kind = Inl (InvalidFieldtype kind, fs)"
    using k by (simp add: erase_def)
  show "spect2interp fs kind = Inl (InvalidFieldtype kind, fs)"
    using k by (simp add: spect2interp_def)
  show "InterpolationGrid_filter g kind direction = Inl (InvalidFieldtype kind, g)"
    by (rule InterpolationGrid_filter_invalid[OF k])
  show "filter_interp fs kind direction = Inl (InvalidFieldtype kind, fs)"
    if "0 < Nm fs \<and> 0 < length (interp fs)"
    using that by (simp add: filter_interp_invalid[OF k])
next
  assume "kind \<notin> {''rho'', ''J''}"
  then show "divide_by_volume fs kind = Inl (InvalidFieldtype kind, fs)"
    by (simp add: divide_by_volume_def)
next
  assume k: "kind \<notin> {''E'', ''B'', ''J'', ''rho_next'', ''rho_prev''}"
  show "interp2spect fs kind = Inl (InvalidFieldtype kind, fs)"
    using k by (simp add: interp2spect_def)
  have k': "kind \<notin> {''rho_prev'', ''rho_next'', ''J'', ''E'', ''B''}" using k by auto
  show "SpectralGrid_filter s kind = Inl (InvalidFieldtype kind, s)"
    by (rule SpectralGrid_filter_invalid[OF k'])
  show "filter_spect fs kind = Inl (InvalidFieldtype kind, fs)"
    if "0 < Nm fs \<and> 0 < length (spect fs)"
    using that by (simp add: filter_spect_invalid[OF k'])
qed

theorem invalid_field_kind_witness:
  "''Ex'' \<notin> {''rho'', ''J'', ''E'', ''B''} \<and> ''Ex'' \<notin> {''rho'', ''J''} \<and>
   ''Ex'' \<notin> {''E'', ''B'', ''J'', ''rho_next'', ''rho_prev''} \<and>
   0 < Nm example_fields \<and> 0 < length (interp example_fields) \<and>
   0 < length (spect example_fields) \<and>
   erase example_fields ''Ex'' = Inl (InvalidFieldtype ''Ex'', example_fields) \<and>
   divide_by_volume example_fields ''Ex'' = Inl (InvalidFieldtype ''Ex'', example_fields) \<and>
   interp2spect example_fields ''Ex'' = Inl (InvalidFieldtype ''Ex'', example_fields) \<and>
   spect2interp example_fields ''Ex'' = Inl (InvalidFieldtype ''Ex'', example_fields) \<and>
   InterpolationGrid_filter (example_interp 1) ''Ex'' ''r''
     = Inl (InvalidFieldtype ''Ex'', example_interp 1) \<and>
   SpectralGrid_filter example_grid ''Ex'' = Inl (InvalidFieldtype ''Ex'', example_grid) \<and>
   filter_interp example_fields ''Ex'' ''r'' = Inl (InvalidFieldtype ''Ex'', example_fields) \<and>
   filter_spect example_fields ''Ex'' = Inl (InvalidFieldtype ''Ex'', example_fields)"
proof -
  have a: "''Ex'' \<notin> {''rho'', ''J'', ''E'', ''B''}" "''Ex'' \<notin> {''rho'', ''J''}"
    "''Ex'' \<notin> {''E'', ''B'', ''J'', ''rho_next'', ''rho_prev''}"
    by simp_all
  have b: "0 < Nm example_fields" "0 < length (interp example_fields)"
    "0 < length (spect example_fields)"
    by (simp_all add: example_fields_def)
  from invalid_field_kind[of "''Ex''" example_fields "example_interp 1" "''r''" example_grid] a b
  show ?thesis by simp
qed

section \<open>The transforms\<close>

text \<open>
  The four conversions in closed form, for buffers and arrays of the shape of the grid,
  and the contracts of the concrete transformer.
\<close>

lemma pm_recombine_r:
  assumes "has_shape nz nr Zr" "has_shape nz nr Zt"
  shows "scal 0.5 (Zr - scal \<i> Zt) + scal 0.5 (Zr + scal \<i> Zt) = Zr"
  using assms
  by (intro array_eqI[of nz nr])
     (simp_all add: has_shape_arith elem_arith[where nz = nz and nr = nr] algebra_simps)

lemma pm_recombine_t:
  assumes "has_shape nz nr Zr" "has_shape nz nr Zt"
  shows "scal \<i> (scal 0.5 (Zr - scal \<i> Zt) - scal 0.5 (Zr + scal \<i> Zt)) = Zt"
  using assms
  by (intro array_eqI[of nz nr])
     (simp_all add: has_shape_arith elem_arith[where nz = nz and nr = nr] algebra_simps)

lemma interp2spect_scal_eq:
  assumes "has_shape nz nr (interp_buffer_r tr)" "has_shape nz nr A"
  shows "interp2spect_scal tr A S0 =
           (tr\<lparr> interp_buffer_r := A, spect_buffer_r := fft_r tr A \<rparr>, to_spectral_scalar tr A)"
  using assms
  by (simp add: interp2spect_scal_def Let_def to_spectral_scalar_def
      assign_all_same_shape[of nz nr])

lemma spect2interp_scal_eq:
  "spect2interp_scal tr S out =
     (tr\<lparr> spect_buffer_r := dht0_inverse_transform tr S,
          interp_buffer_r := to_interp_scalar tr S \<rparr>,
      assign_all out (to_interp_scalar tr S))"
  by (simp add: spect2interp_scal_def Let_def to_interp_scalar_def)

lemma interp2spect_vect_eq:
  assumes wf: "wf_trans nz nr tr" and sp: "shape_preserving nz nr tr"
    and Fr: "has_shape nz nr Fr" and Ft: "has_shape nz nr Ft"
  shows "interp2spect_vect tr Fr Ft P0 M0 =
     (tr\<lparr> interp_buffer_r := Fr, interp_buffer_t := Ft,
          spect_buffer_r := scal 0.5 (fft_r tr Fr - scal \<i> (fft_t tr Ft)),
          spect_buffer_t := scal 0.5 (fft_r tr Fr + scal \<i> (fft_t tr Ft)) \<rparr>,
      dhtp_transform tr (scal 0.5 (fft_r tr Fr - scal \<i> (fft_t tr Ft))),
      dhtm_transform tr (scal 0.5 (fft_r tr Fr + scal \<i> (fft_t tr Ft))))"
proof -
  have Z: "has_shape nz nr (fft_r tr Fr)" "has_shape nz nr (fft_t tr Ft)"
    using sp Fr Ft by (simp_all add: shape_preserving_def)
  show ?thesis
    using wf Fr Ft Z
    by (simp add: interp2spect_vect_def Let_def wf_trans_def has_shape_arith
        assign_all_same_shape[of nz nr])
qed

lemma spect2interp_vect_eq:
  assumes sp: "shape_preserving nz nr tr"
    and P: "has_shape nz nr P" and M: "has_shape nz nr M"
    and o: "has_shape nz nr out_r" "has_shape nz nr out_t"
  shows "spect2interp_vect tr P M out_r out_t =
     (tr\<lparr> spect_buffer_r := dhtp_inverse_transform tr P + dhtm_inverse_transform tr M,
          spect_buffer_t := scal \<i> (dhtp_inverse_transform tr P - dhtm_inverse_transform tr M),
          interp_buffer_r := ifft_r tr (dhtp_inverse_transform tr P + dhtm_inverse_transform tr M),
          interp_buffer_t := ifft_t tr (scal \<i> (dhtp_inverse_transform tr P - dhtm_inverse_transform tr M)) \<rparr>,
      ifft_r tr (dhtp_inverse_transform tr P + dhtm_inverse_transform tr M),
      ifft_t tr (scal \<i> (dhtp_inverse_transform tr P - dhtm_inverse_transform tr M)))"
proof -
  have a: "has_shape nz nr (dhtp_inverse_transform tr P)" "has_shape nz nr (dhtm_inverse_transform tr M)"
    using sp P M by (simp_all add: shape_preserving_def)
  then have b: "has_shape nz nr (dhtp_inverse_transform tr P + dhtm_inverse_transform tr M)"
    "has_shape nz nr (scal \<i> (dhtp_inverse_transform tr P - dhtm_inverse_transform tr M))"
    by (simp_all add: has_shape_arith)
  then have c: "has_shape nz nr (ifft_r tr (dhtp_inverse_transform tr P + dhtm_inverse_transform tr M))"
    "has_shape nz nr (ifft_t tr (scal \<i> (dhtp_inverse_transform tr P - dhtm_inverse_transform tr M)))"
    using sp by (simp_all add: shape_preserving_def)
  show ?thesis
    using a b c o
    by (simp add: spect2interp_vect_def Let_def assign_all_same_shape[of nz nr])
qed

lemma has_shape_transformed:
  assumes "wf_trans nz nr tr" "shape_preserving nz nr tr"
    and "has_shape nz nr A" "has_shape nz nr B"
  shows "has_shape nz nr (snd (interp2spect_scal tr A S0))"
    and "has_shape nz nr (fst (snd (interp2spect_vect tr A B P0 M0)))"
    and "has_shape nz nr (snd (snd (interp2spect_vect tr A B P0 M0)))"
proof -
  have Z: "has_shape nz nr (fft_r tr A)" "has_shape nz nr (fft_t tr B)"
    using assms by (simp_all add: shape_preserving_def)
  have b: "has_shape nz nr (interp_buffer_r tr)" using assms(1) by (simp add: wf_trans_def)
  show "has_shape nz nr (snd (interp2spect_scal tr A S0))"
    using assms(2) Z(1) by (simp add: interp2spect_scal_eq[OF b assms(3)] to_spectral_scalar_def shape_preserving_def)
  have S: "has_shape nz nr (scal 0.5 (fft_r tr A - scal \<i> (fft_t tr B)))"
    "has_shape nz nr (scal 0.5 (fft_r tr A + scal \<i> (fft_t tr B)))"
    using Z by (simp_all add: has_shape_arith)
  show "has_shape nz nr (fst (snd (interp2spect_vect tr A B P0 M0)))"
    and "has_shape nz nr (snd (snd (interp2spect_vect tr A B P0 M0)))"
    using assms(2) S by (simp_all add: interp2spect_vect_eq[OF assms] shape_preserving_def)
qed

lemma has_shape_to_interp_scalar:
  "shape_preserving nz nr tr \<Longrightarrow> has_shape nz nr S \<Longrightarrow> has_shape nz nr (to_interp_scalar tr S)"
  by (simp add: to_interp_scalar_def shape_preserving_def)

lemma example_trans_wf: "wf_trans 3 2 example_trans"
  by (simp add: wf_trans_def example_trans_def has_shape_zeros)

lemma example_trans_shape: "shape_preserving 3 2 example_trans"
  by (simp add: shape_preserving_def example_trans_def has_shape_arith)

lemma example_trans_inverse: "inverse_contract 3 2 example_trans"
  by (simp add: inverse_contract_def example_trans_def neg_neg_array[of 3 2]
      scal_third_three[of 3 2])

lemma example_trans_zero: "zero_preserving 3 2 example_trans"
  by (simp add: zero_preserving_def example_trans_def zeros_3_2 scal_def uminus_ndarray_def amap_def)

lemma example_interp_wf: "wf_interp (example_interp k)"
  by (simp add: wf_interp_def example_interp_def has_shape_zeros) (simp add: has_shape_def)

lemma same_transforms_refl: "same_transforms tr tr"
  by (simp add: same_transforms_def)

lemma same_transforms_contracts:
  assumes "same_transforms tr ti"
  shows "shape_preserving nz nr tr \<Longrightarrow> shape_preserving nz nr ti"
    and "inverse_contract nz nr tr \<Longrightarrow> inverse_contract nz nr ti"
  using assms by (simp_all add: same_transforms_def shape_preserving_def inverse_contract_def)

lemma example_trans_used_same: "same_transforms example_trans example_trans_used"
  by (simp add: same_transforms_def example_trans_used_def)

text \<open>
  Claim C7. For a transformer whose external transforms keep the shape of the grid and
  whose inverse transforms undo the forward ones, and for any later state \<open>ti\<close> of it
  (the same transforms, buffers holding anything):
  the conversion of a scalar field \<open>Fs\<close> yields the Hankel transform of order m of its
  Fourier transform along z; the inverse conversion of any spectral array \<open>S\<close> yields the
  inverse Fourier transform of its inverse Hankel transform, whatever the buffers held;
  hence a scalar field converted to the spectral grid and back is restored.
  The conversion of a pair \<open>(Fr, Ft)\<close> yields the Hankel transforms of order m+1 and m-1
  of \<open>(Z[r] - i Z[t])/2\<close> and \<open>(Z[r] + i Z[t])/2\<close>, where \<open>Z\<close> is the Fourier transform
  along z; the inverse conversion of any pair \<open>(P, M)\<close> yields the inverse Fourier
  transforms of \<open>p + m\<close> and \<open>i (p - m)\<close>, where \<open>p\<close> and \<open>m\<close> are the inverse Hankel
  transforms of \<open>P\<close> and \<open>M\<close>; hence the pair \<open>(Fr, Ft)\<close> converted and converted back
  is restored, jointly. Every conversion returns a state with the same transforms, so
  the statements apply to the state that the forward conversion returns.
\<close>

theorem transform_round_trip:
  assumes wf: "wf_trans nz nr tr" and sp: "shape_preserving nz nr tr"
    and inv: "inverse_contract nz nr tr" and st: "same_transforms tr ti"
    and Fs: "has_shape nz nr Fs" and Fr: "has_shape nz nr Fr" and Ft: "has_shape nz nr Ft"
    and S: "has_shape nz nr S" and P: "has_shape nz nr P" and M: "has_shape nz nr M"
    and o: "has_shape nz nr out" "has_shape nz nr out_r" "has_shape nz nr out_t"
  shows "(\<exists>tr1. interp2spect_scal tr Fs S0 = (tr1, dht0_transform tr (fft_r tr Fs)) \<and>
            same_transforms tr tr1) \<and>
         (\<exists>t2. spect2interp_scal ti S out = (t2, ifft_r tr (dht0_inverse_transform tr S)) \<and>
            same_transforms tr t2) \<and>
         (\<exists>t2. spect2interp_scal ti (dht0_transform tr (fft_r tr Fs)) out = (t2, Fs)) \<and>
         (\<exists>tr1. interp2spect_vect tr Fr Ft P0 M0 =
            (tr1, dhtp_transform tr (scal 0.5 (fft_r tr Fr - scal \<i> (fft_t tr Ft))),
                  dhtm_transform tr (scal 0.5 (fft_r tr Fr + scal \<i> (fft_t tr Ft)))) \<and>
            same_transforms tr tr1) \<and>
         (\<exists>t2. spect2interp_vect ti P M out_r out_t =
            (t2, ifft_r tr (dhtp_inverse_transform tr P + dhtm_inverse_transform tr M),
                 ifft_t tr (scal \<i> (dhtp_inverse_transform tr P - dhtm_inverse_transform tr M))) \<and>
            same_transforms tr t2) \<and>
         (\<exists>t2. spect2interp_vect ti
              (dhtp_transform tr (scal 0.5 (fft_r tr Fr - scal \<i> (fft_t tr Ft))))
              (dhtm_transform tr (scal 0.5 (fft_r tr Fr + scal \<i> (fft_t tr Ft))))
              out_r out_t = (t2, Fr, Ft))"
proof -
  note spi = same_transforms_contracts(1)[OF st sp]
  have ops: "dht0_inverse_transform ti = dht0_inverse_transform tr"
    "dhtp_inverse_transform ti = dhtp_inverse_transform tr"
    "dhtm_inverse_transform ti = dhtm_inverse_transform tr"
    "ifft_r ti = ifft_r tr" "ifft_t ti = ifft_t tr"
    using st by (simp_all add: same_transforms_def)
  have b: "has_shape nz nr (interp_buffer_r tr)" using wf by (simp add: wf_trans_def)
  have f1: "\<exists>tr1. interp2spect_scal tr Fs S0 = (tr1, dht0_transform tr (fft_r tr Fs)) \<and>
            same_transforms tr tr1"
    by (simp add: interp2spect_scal_eq[OF b Fs] to_spectral_scalar_def same_transforms_def)
  have inv_scal: "\<exists>t2. spect2interp_scal ti X out = (t2, ifft_r tr (dht0_inverse_transform tr X)) \<and>
            same_transforms tr t2" if X: "has_shape nz nr X" for X
  proof -
    have "has_shape nz nr (to_interp_scalar ti X)"
      by (rule has_shape_to_interp_scalar[OF spi X])
    then show ?thesis
      using o(1) st
      by (simp add: spect2interp_scal_eq assign_all_same_shape[of nz nr] same_transforms_def)
         (simp add: to_interp_scalar_def)
  qed
  have Zs: "has_shape nz nr (fft_r tr Fs)" using sp Fs by (simp add: shape_preserving_def)
  then have Ss: "has_shape nz nr (dht0_transform tr (fft_r tr Fs))"
    using sp by (simp add: shape_preserving_def)
  have rt: "ifft_r tr (dht0_inverse_transform tr (dht0_transform tr (fft_r tr Fs))) = Fs"
    using inv Fs Zs by (simp add: inverse_contract_def)
  have f3: "\<exists>t2. spect2interp_scal ti (dht0_transform tr (fft_r tr Fs)) out = (t2, Fs)"
    using inv_scal[OF Ss] unfolding rt by blast
  define Sp where "Sp = scal 0.5 (fft_r tr Fr - scal \<i> (fft_t tr Ft))"
  define Sm where "Sm = scal 0.5 (fft_r tr Fr + scal \<i> (fft_t tr Ft))"
  have Z: "has_shape nz nr (fft_r tr Fr)" "has_shape nz nr (fft_t tr Ft)"
    using sp Fr Ft by (simp_all add: shape_preserving_def)
  have SS: "has_shape nz nr Sp" "has_shape nz nr Sm"
    using Z by (simp_all add: Sp_def Sm_def has_shape_arith)
  have f4: "\<exists>tr1. interp2spect_vect tr Fr Ft P0 M0 =
            (tr1, dhtp_transform tr Sp, dhtm_transform tr Sm) \<and> same_transforms tr tr1"
    unfolding Sp_def Sm_def
    by (simp add: interp2spect_vect_eq[OF wf sp Fr Ft] same_transforms_def)
  have inv_vect: "\<exists>t2. spect2interp_vect ti X Y out_r out_t =
            (t2, ifft_r tr (dhtp_inverse_transform tr X + dhtm_inverse_transform tr Y),
                 ifft_t tr (scal \<i> (dhtp_inverse_transform tr X - dhtm_inverse_transform tr Y))) \<and>
            same_transforms tr t2"
    if X: "has_shape nz nr X" and Y: "has_shape nz nr Y" for X Y
    using st by (simp add: spect2interp_vect_eq[OF spi X Y o(2,3)] ops same_transforms_def)
  have PM: "has_shape nz nr (dhtp_transform tr Sp)" "has_shape nz nr (dhtm_transform tr Sm)"
    using sp SS by (simp_all add: shape_preserving_def)
  have ip: "dhtp_inverse_transform tr (dhtp_transform tr Sp) = Sp"
    and im: "dhtm_inverse_transform tr (dhtm_transform tr Sm) = Sm"
    using inv SS by (simp_all add: inverse_contract_def)
  have r: "Sp + Sm = fft_r tr Fr" unfolding Sp_def Sm_def by (rule pm_recombine_r[OF Z])
  have t: "scal \<i> (Sp - Sm) = fft_t tr Ft" unfolding Sp_def Sm_def by (rule pm_recombine_t[OF Z])
  have bk: "ifft_r tr (fft_r tr Fr) = Fr" "ifft_t tr (fft_t tr Ft) = Ft"
    using inv Fr Ft by (simp_all add: inverse_contract_def)
  have f6: "\<exists>t2. spect2interp_vect ti (dhtp_transform tr Sp) (dhtm_transform tr Sm) out_r out_t
              = (t2, Fr, Ft)"
    using inv_vect[OF PM] unfolding ip im r t bk by blast
  from f1 inv_scal[OF S] f3 f4 inv_vect[OF P M] f6 show ?thesis
    unfolding Sp_def Sm_def by blast
qed

theorem transform_round_trip_witness:
  "wf_trans 3 2 example_trans \<and> shape_preserving 3 2 example_trans \<and>
   inverse_contract 3 2 example_trans \<and> same_transforms example_trans example_trans_used \<and>
   has_shape 3 2 (rho (example_interp 0)) \<and> has_shape 3 2 (Er (example_interp 0)) \<and>
   has_shape 3 2 (Et (example_interp 0)) \<and> has_shape 3 2 (rho_next example_grid) \<and>
   has_shape 3 2 (Jp example_grid) \<and> has_shape 3 2 (Jm example_grid) \<and>
   has_shape 3 2 (zeros 3 2 :: complex ndarray) \<and>
   (\<exists>tr1. interp2spect_scal example_trans (rho (example_interp 0)) (zeros 3 2)
             = (tr1, NDArray [[- 3, - 6], [- 9, - 12], [- 15, - 18]])) \<and>
   (\<exists>t2. spect2interp_scal example_trans_used (rho_next example_grid) (zeros 3 2)
            = (t2, NDArray [[- 1, 0], [- 1 / 3, - 4 / 3], [- \<i> / 3, - 1 / 3]])) \<and>
   (\<exists>t2. spect2interp_scal example_trans_used
            (NDArray [[- 3, - 6], [- 9, - 12], [- 15, - 18]]) (zeros 3 2)
            = (t2, rho (example_interp 0))) \<and>
   (\<exists>tr1 P M t2.
      interp2spect_vect example_trans (Er (example_interp 0)) (Et (example_interp 0))
         (zeros 3 2) (zeros 3 2) = (tr1, P, M) \<and>
      spect2interp_vect example_trans_used P M (zeros 3 2) (zeros 3 2)
         = (t2, Er (example_interp 0), Et (example_interp 0)))"
proof -
  have sh: "has_shape 3 2 (rho (example_interp 0))" "has_shape 3 2 (Er (example_interp 0))"
    "has_shape 3 2 (Et (example_interp 0))"
    using example_interp_wf[of 0] by (simp_all add: wf_interp_def) (simp_all add: example_interp_def)
  have sg: "has_shape 3 2 (rho_next example_grid)" "has_shape 3 2 (Jp example_grid)"
    "has_shape 3 2 (Jm example_grid)"
    using example_grid_wf by (simp_all add: wf_spect_def example_shapes)
  have z: "has_shape 3 2 (zeros 3 2 :: complex ndarray)" by (rule has_shape_zeros)
  have v: "dht0_transform example_trans (fft_r example_trans (rho (example_interp 0)))
             = NDArray [[- 3, - 6], [- 9, - 12], [- 15, - 18]]"
    by (simp add: example_trans_def example_interp_def scal_def uminus_ndarray_def amap_def)
  have w: "ifft_r example_trans (dht0_inverse_transform example_trans (rho_next example_grid))
             = NDArray [[- 1, 0], [- 1 / 3, - 4 / 3], [- \<i> / 3, - 1 / 3]]"
    by (simp add: example_trans_def example_grid_def scal_def uminus_ndarray_def amap_def)
  from transform_round_trip[OF example_trans_wf example_trans_shape example_trans_inverse
      example_trans_used_same sh sg z z z, of "zeros 3 2" "zeros 3 2" "zeros 3 2"]
  show ?thesis
    using example_trans_wf example_trans_shape example_trans_inverse example_trans_used_same
      sh sg z
    unfolding v w by blast
qed

section \<open>The transforms of the charge density\<close>

text \<open>
  A loop of scalar conversions changes, for each mode, the transformer and the one array
  it writes, and nothing of the other modes.
\<close>

lemma i2s_scal_loop:
  assumes len: "n \<le> length (trans fs)" "n \<le> length (interp fs)" "n \<le> length (spect fs)"
  shows "\<exists>fs'. for_modes [0..<n] (i2s_scal src dst put) fs = Inr fs' \<and>
     interp fs' = interp fs \<and> length (spect fs') = length (spect fs) \<and>
     length (trans fs') = length (trans fs) \<and>
     (\<forall>j<n. spect fs' ! j =
        put (snd (interp2spect_scal (trans fs ! j) (src (interp fs ! j)) (dst (spect fs ! j))))
            (spect fs ! j)) \<and>
     (\<forall>j. n \<le> j \<longrightarrow> spect fs' ! j = spect fs ! j \<and> trans fs' ! j = trans fs ! j)"
proof -
  define I where "I = (\<lambda>(k::nat) (fs'::Fields).
     interp fs' = interp fs \<and> length (spect fs') = length (spect fs) \<and>
     length (trans fs') = length (trans fs) \<and>
     (\<forall>j<k. spect fs' ! j =
        put (snd (interp2spect_scal (trans fs ! j) (src (interp fs ! j)) (dst (spect fs ! j))))
            (spect fs ! j)) \<and>
     (\<forall>j. k \<le> j \<longrightarrow> spect fs' ! j = spect fs ! j \<and> trans fs' ! j = trans fs ! j))"
  have step: "\<exists>fs''. i2s_scal src dst put k fs' = Inr fs'' \<and> I (Suc k) fs''"
    if "k < n" "I k fs'" for k fs'
    using that len unfolding I_def i2s_scal_def
    by (auto simp add: split_beta nth_list_update less_Suc_eq)
  have init: "I 0 fs" by (simp add: I_def)
  from for_modes_invariant[of n I "i2s_scal src dst put", OF step init]
  show ?thesis unfolding I_def by blast
qed

lemma s2i_scal_loop:
  assumes len: "n \<le> length (trans fs)" "n \<le> length (interp fs)" "n \<le> length (spect fs)"
  shows "\<exists>fs'. for_modes [0..<n] (s2i_scal src dst put) fs = Inr fs' \<and>
     spect fs' = spect fs \<and> length (interp fs') = length (interp fs) \<and>
     length (trans fs') = length (trans fs) \<and>
     (\<forall>j<n. interp fs' ! j =
        put (snd (spect2interp_scal (trans fs ! j) (src (spect fs ! j)) (dst (interp fs ! j))))
            (interp fs ! j)) \<and>
     (\<forall>j. n \<le> j \<longrightarrow> interp fs' ! j = interp fs ! j \<and> trans fs' ! j = trans fs ! j)"
proof -
  define I where "I = (\<lambda>(k::nat) (fs'::Fields).
     spect fs' = spect fs \<and> length (interp fs') = length (interp fs) \<and>
     length (trans fs') = length (trans fs) \<and>
     (\<forall>j<k. interp fs' ! j =
        put (snd (spect2interp_scal (trans fs ! j) (src (spect fs ! j)) (dst (interp fs ! j))))
            (interp fs ! j)) \<and>
     (\<forall>j. k \<le> j \<longrightarrow> interp fs' ! j = interp fs ! j \<and> trans fs' ! j = trans fs ! j))"
  have step: "\<exists>fs''. s2i_scal src dst put k fs' = Inr fs'' \<and> I (Suc k) fs''"
    if "k < n" "I k fs'" for k fs'
    using that len unfolding I_def s2i_scal_def
    by (auto simp add: split_beta nth_list_update less_Suc_eq)
  have init: "I 0 fs" by (simp add: I_def)
  from for_modes_invariant[of n I "s2i_scal src dst put", OF step init]
  show ?thesis unfolding I_def by blast
qed

lemma wf_fields_mode:
  assumes "wf_fields fs" "k < Nm fs"
  shows "has_shape (Nz_fields fs) (Nr_fields fs) (interp_buffer_r (trans fs ! k))"
    and "has_shape (Nz_fields fs) (Nr_fields fs) (rho (interp fs ! k))"
    and "has_shape (Nz_fields fs) (Nr_fields fs) (rho_next (spect fs ! k))"
    and "has_shape (Nz_fields fs) (Nr_fields fs) (rho_prev (spect fs ! k))"
    and "shape_preserving (Nz_fields fs) (Nr_fields fs) (trans fs ! k)"
    and "Nz (spect fs ! k) = Nz_fields fs" "Nr (spect fs ! k) = Nr_fields fs"
  using assms
  by (auto simp add: wf_fields_def wf_mode_def wf_trans_def wf_interp_def wf_spect_def)

lemma example_fields_wf: "wf_fields example_fields"
  unfolding wf_fields_def wf_mode_def
  by (simp add: example_fields_def less_Suc_eq numeral_2_eq_2 all_conj_distrib
      example_trans_wf[unfolded numeral_2_eq_2] example_trans_shape[unfolded numeral_2_eq_2]
      example_interp_wf example_grid0_wf example_grid_wf)
     (simp add: example_interp_def example_grid0_def example_grid_def numeral_2_eq_2)

text \<open>
  Claim C10. For fields that satisfy the invariant and every mode \<open>k\<close>:
  \<open>interp2spect('rho_next')\<close> and \<open>interp2spect('rho_prev')\<close> both leave the interpolation
  grids as they are and write the transform of the array \<open>rho\<close> of the interpolation grid
  into \<open>rho_next\<close>, respectively \<open>rho_prev\<close>, of the spectral grid;
  \<open>spect2interp('rho')\<close> writes the inverse transform of the spectral \<open>rho_next\<close> into
  \<open>rho\<close>; and when the transforms map zero to zero, \<open>spect2interp('rho')\<close> called after
  \<open>push_rho\<close> on every mode leaves \<open>rho\<close> equal to the array of zeros.
\<close>

theorem rho_transforms:
  assumes wf: "wf_fields fs" and k: "k < Nm fs"
  shows "(\<exists>fs'. interp2spect fs ''rho_next'' = Inr fs' \<and> interp fs' = interp fs \<and>
            spect fs' ! k = (spect fs ! k)
              \<lparr> rho_next := to_spectral_scalar (trans fs ! k) (rho (interp fs ! k)) \<rparr>) \<and>
         (\<exists>fs'. interp2spect fs ''rho_prev'' = Inr fs' \<and> interp fs' = interp fs \<and>
            spect fs' ! k = (spect fs ! k)
              \<lparr> rho_prev := to_spectral_scalar (trans fs ! k) (rho (interp fs ! k)) \<rparr>) \<and>
         (\<exists>fs'. spect2interp fs ''rho'' = Inr fs' \<and> spect fs' = spect fs \<and>
            interp fs' ! k = (interp fs ! k)
              \<lparr> rho := to_interp_scalar (trans fs ! k) (rho_next (spect fs ! k)) \<rparr>) \<and>
         (zero_preserving (Nz_fields fs) (Nr_fields fs) (trans fs ! k) \<longrightarrow>
            (\<exists>fs'. spect2interp (fs\<lparr> spect := map push_rho (spect fs) \<rparr>) ''rho'' = Inr fs' \<and>
               rho (interp fs' ! k) = zeros (Nz_fields fs) (Nr_fields fs)))"
proof (intro conjI impI)
  note m = wf_fields_mode[OF wf k]
  have len: "Nm fs \<le> length (trans fs)" "Nm fs \<le> length (interp fs)" "Nm fs \<le> length (spect fs)"
    using wf by (simp_all add: wf_fields_def)
  have v: "snd (interp2spect_scal (trans fs ! k) (rho (interp fs ! k)) S0)
             = to_spectral_scalar (trans fs ! k) (rho (interp fs ! k))" for S0
    by (simp add: interp2spect_scal_eq[OF m(1,2)])
  from i2s_scal_loop[OF len, of rho rho_next "\<lambda>a s. s\<lparr> rho_next := a \<rparr>"] k
  show "\<exists>fs'. interp2spect fs ''rho_next'' = Inr fs' \<and> interp fs' = interp fs \<and>
            spect fs' ! k = (spect fs ! k)
              \<lparr> rho_next := to_spectral_scalar (trans fs ! k) (rho (interp fs ! k)) \<rparr>"
    by (auto simp add: interp2spect_def v)
  from i2s_scal_loop[OF len, of rho rho_prev "\<lambda>a s. s\<lparr> rho_prev := a \<rparr>"] k
  show "\<exists>fs'. interp2spect fs ''rho_prev'' = Inr fs' \<and> interp fs' = interp fs \<and>
            spect fs' ! k = (spect fs ! k)
              \<lparr> rho_prev := to_spectral_scalar (trans fs ! k) (rho (interp fs ! k)) \<rparr>"
    by (auto simp add: interp2spect_def v)
  have w: "snd (spect2interp_scal (trans fs ! k) (rho_next (spect fs ! k)) (rho (interp fs ! k)))
             = to_interp_scalar (trans fs ! k) (rho_next (spect fs ! k))"
    using has_shape_to_interp_scalar[OF m(5) m(3)] m(2)
    by (simp add: spect2interp_scal_eq assign_all_same_shape[of "Nz_fields fs" "Nr_fields fs"])
  from s2i_scal_loop[OF len, of rho_next rho "\<lambda>a g. g\<lparr> rho := a \<rparr>"] k
  show "\<exists>fs'. spect2interp fs ''rho'' = Inr fs' \<and> spect fs' = spect fs \<and>
            interp fs' ! k = (interp fs ! k)
              \<lparr> rho := to_interp_scalar (trans fs ! k) (rho_next (spect fs ! k)) \<rparr>"
    by (auto simp add: spect2interp_def w)
  assume z: "zero_preserving (Nz_fields fs) (Nr_fields fs) (trans fs ! k)"
  define fs1 where "fs1 = fs\<lparr> spect := map push_rho (spect fs) \<rparr>"
  have len1: "Nm fs1 \<le> length (trans fs1)" "Nm fs1 \<le> length (interp fs1)"
    "Nm fs1 \<le> length (spect fs1)"
    using len by (simp_all add: fs1_def)
  have k1: "k < Nm fs1" using k by (simp add: fs1_def)
  have kl: "k < length (spect fs)" using k len by simp
  have rn: "rho_next (spect fs1 ! k) = zeros (Nz_fields fs) (Nr_fields fs)"
    using push_rho_fields(2)[of "spect fs ! k"] m kl by (simp add: fs1_def)
  have "to_interp_scalar (trans fs ! k) (zeros (Nz_fields fs) (Nr_fields fs))
          = zeros (Nz_fields fs) (Nr_fields fs)"
    using z by (simp add: to_interp_scalar_def zero_preserving_def)
  then have w1: "snd (spect2interp_scal (trans fs1 ! k) (rho_next (spect fs1 ! k)) (rho (interp fs1 ! k)))
             = zeros (Nz_fields fs) (Nr_fields fs)"
    unfolding rn using m(2)
    by (simp add: fs1_def spect2interp_scal_eq has_shape_zeros
        assign_all_same_shape[of "Nz_fields fs" "Nr_fields fs"])
  from s2i_scal_loop[OF len1, of rho_next rho "\<lambda>a g. g\<lparr> rho := a \<rparr>"] k1
  show "\<exists>fs'. spect2interp (fs\<lparr> spect := map push_rho (spect fs) \<rparr>) ''rho'' = Inr fs' \<and>
               rho (interp fs' ! k) = zeros (Nz_fields fs) (Nr_fields fs)"
    unfolding fs1_def[symmetric] by (auto simp add: spect2interp_def w1)
qed

theorem rho_transforms_witness:
  "wf_fields example_fields \<and> 1 < Nm example_fields \<and>
   zero_preserving (Nz_fields example_fields) (Nr_fields example_fields) (trans example_fields ! 1) \<and>
   (\<exists>fs'. interp2spect example_fields ''rho_next'' = Inr fs' \<and>
      rho_next (spect fs' ! 1) = NDArray [[- 3, - 6], [- 9, - 12], [- 15, - 18]]) \<and>
   (\<exists>fs'. interp2spect example_fields ''rho_prev'' = Inr fs' \<and>
      rho_prev (spect fs' ! 1) = NDArray [[- 3, - 6], [- 9, - 12], [- 15, - 18]]) \<and>
   (\<exists>fs'. spect2interp example_fields ''rho'' = Inr fs' \<and>
      rho (interp fs' ! 1) = NDArray [[- 1, 0], [- 1 / 3, - 4 / 3], [- \<i> / 3, - 1 / 3]]) \<and>
   (\<exists>fs'. spect2interp (example_fields\<lparr> spect := map push_rho (spect example_fields) \<rparr>) ''rho''
             = Inr fs' \<and>
      rho (interp fs' ! 1) = zeros 3 2)"
proof -
  have k: "1 < Nm example_fields" by (simp add: example_fields_def)
  have zp: "zero_preserving (Nz_fields example_fields) (Nr_fields example_fields)
              (trans example_fields ! 1)"
    using example_trans_zero by (simp add: example_fields_def)
  have a: "to_spectral_scalar (trans example_fields ! 1) (rho (interp example_fields ! 1))
             = NDArray [[- 3, - 6], [- 9, - 12], [- 15, - 18]]"
    by (simp add: to_spectral_scalar_def example_fields_def example_trans_def example_interp_def
        scal_def uminus_ndarray_def amap_def)
  have b: "to_interp_scalar (trans example_fields ! 1) (rho_next (spect example_fields ! 1))
             = NDArray [[- 1, 0], [- 1 / 3, - 4 / 3], [- \<i> / 3, - 1 / 3]]"
    by (simp add: to_interp_scalar_def example_fields_def example_trans_def example_grid_def
        scal_def uminus_ndarray_def amap_def)
  have nz: "Nz_fields example_fields = 3" "Nr_fields example_fields = 2"
    by (simp_all add: example_fields_def)
  from rho_transforms[OF example_fields_wf k] zp
  show ?thesis
    using example_fields_wf k zp unfolding a b nz by auto
qed

text \<open>
  The same after \<open>push\<close>, which ends with \<open>push_rho\<close> for every mode: when it
  returns, every spectral \<open>rho_next\<close> is zero, and \<open>spect2interp('rho')\<close> then leaves
  \<open>rho\<close> equal to the array of zeros.
\<close>

lemma push_rho_next_zero:
  assumes wf: "wf_fields fs" and run: "push fs pf = Inr fs1"
  shows "trans fs1 = trans fs \<and> interp fs1 = interp fs \<and> Nm fs1 = Nm fs \<and>
         Nz_fields fs1 = Nz_fields fs \<and> Nr_fields fs1 = Nr_fields fs \<and>
         length (spect fs1) = length (spect fs) \<and>
         (\<forall>k < Nm fs. rho_next (spect fs1 ! k) = zeros (Nz_fields fs) (Nr_fields fs))"
proof -
  define I where "I = (\<lambda>(n::nat) (fs'::Fields).
     trans fs' = trans fs \<and> interp fs' = interp fs \<and> Nm fs' = Nm fs \<and>
     Nz_fields fs' = Nz_fields fs \<and> Nr_fields fs' = Nr_fields fs \<and>
     length (spect fs') = length (spect fs) \<and>
     (\<forall>k<n. rho_next (spect fs' ! k) = zeros (Nz_fields fs) (Nr_fields fs)) \<and>
     (\<forall>k. n \<le> k \<longrightarrow> spect fs' ! k = spect fs ! k))"
  have len: "length (spect fs) = Nm fs" using wf by (simp add: wf_fields_def)
  have step: "I (Suc k) fs''"
    if k: "k < Nm fs" and i: "I k fs'"
      and b: "(if k < length (spect fs') \<and> k < length (psatd fs') then
         (case push_eb_with (spect fs' ! k) (psatd fs' ! k) pf False of
            Inl (e, (s, ps)) \<Rightarrow>
              Inl (e, fs'\<lparr> spect := (spect fs')[k := s], psatd := (psatd fs')[k := ps] \<rparr>)
          | Inr (s, ps) \<Rightarrow>
              Inr (fs'\<lparr> spect := (spect fs')[k := push_rho s], psatd := (psatd fs')[k := ps] \<rparr>))
       else Inl (IndexError, fs')) = Inr fs''" for k fs' fs''
  proof -
    from b obtain s ps where r: "push_eb_with (spect fs' ! k) (psatd fs' ! k) pf False = Inr (s, ps)"
      and f: "fs'' = fs'\<lparr> spect := (spect fs')[k := push_rho s], psatd := (psatd fs')[k := ps] \<rparr>"
      by (auto split: if_splits sum.splits prod.splits)
    have same: "spect fs' ! k = spect fs ! k" using i by (simp add: I_def)
    have m: "has_shape (Nz_fields fs) (Nr_fields fs) (rho_next (spect fs ! k))"
      "has_shape (Nz_fields fs) (Nr_fields fs) (rho_prev (spect fs ! k))"
      "Nz (spect fs ! k) = Nz_fields fs" "Nr (spect fs ! k) = Nr_fields fs"
      using wf_fields_mode[OF wf k] by simp_all
    note fr = push_eb_frame[OF r, unfolded same]
    have "rho_next (push_rho s) = zeros (Nz_fields fs) (Nr_fields fs)"
      using push_rho_fields(2)[of s] m fr by simp
    then show ?thesis
      using i k len unfolding I_def f
      by (auto simp add: nth_list_update less_Suc_eq)
  qed
  have init: "I 0 fs" by (simp add: I_def)
  from for_modes_invariant_Inr[of "Nm fs" _ fs fs1 I, OF run[unfolded push_def] step init]
  show ?thesis unfolding I_def by simp
qed

lemma spect2interp_rho_after_push:
  assumes wf: "wf_fields fs" and run: "push fs pf = Inr fs1" and k: "k < Nm fs"
    and z: "zero_preserving (Nz_fields fs) (Nr_fields fs) (trans fs ! k)"
  shows "\<exists>fs2. spect2interp fs1 ''rho'' = Inr fs2 \<and>
           rho (interp fs2 ! k) = zeros (Nz_fields fs) (Nr_fields fs)"
proof -
  note p = push_rho_next_zero[OF wf run]
  have len1: "Nm fs1 \<le> length (trans fs1)" "Nm fs1 \<le> length (interp fs1)"
    "Nm fs1 \<le> length (spect fs1)"
    using wf p by (simp_all add: wf_fields_def)
  have k1: "k < Nm fs1" using k p by simp
  have rn: "rho_next (spect fs1 ! k) = zeros (Nz_fields fs) (Nr_fields fs)" using p k by simp
  have "to_interp_scalar (trans fs ! k) (zeros (Nz_fields fs) (Nr_fields fs))
          = zeros (Nz_fields fs) (Nr_fields fs)"
    using z by (simp add: to_interp_scalar_def zero_preserving_def)
  then have w1: "snd (spect2interp_scal (trans fs1 ! k) (rho_next (spect fs1 ! k)) (rho (interp fs1 ! k)))
             = zeros (Nz_fields fs) (Nr_fields fs)"
    unfolding rn using wf_fields_mode(2)[OF wf k] p
    by (simp add: spect2interp_scal_eq has_shape_zeros
        assign_all_same_shape[of "Nz_fields fs" "Nr_fields fs"])
  from s2i_scal_loop[OF len1, of rho_next rho "\<lambda>a g. g\<lparr> rho := a \<rparr>"] k1
  show ?thesis by (auto simp add: spect2interp_def w1)
qed

section \<open>Properties of the binomial filter\<close>

text \<open>
  In the direction r, \<open>binomial_filter\<close> maps every row of an array with at least two
  radial cells to \<open>filtered_row_r\<close> of the row. Its entries are those of \<open>filtered_r\<close>: the
  stencil (1/4, 1/2, 1/4) in the interior, \<open>0.75 A[i, nr - 1] + 0.25 A[i, nr - 2]\<close> at the
  outer boundary, and at the axis the value of the stencil with the guard cell plus one
  more quarter of the neighbour \<open>A[i, 1]\<close> (\<open>filtered_r_axis\<close>).
\<close>

lemma length_slices:
  "length (slice_1_m1 xs) = length xs - 2"
  "length (slice_to_m2 xs) = length xs - 2"
  "length (slice_from_2 xs) = length xs - 2"
  by (simp_all add: slice_1_m1_def slice_to_m2_def slice_from_2_def)

lemma nth_slices:
  "j < length xs - 2 \<Longrightarrow> slice_1_m1 xs ! j = xs ! (j + 1)"
  "j < length xs - 2 \<Longrightarrow> slice_to_m2 xs ! j = xs ! j"
  "j < length xs - 2 \<Longrightarrow> slice_from_2 xs ! j = xs ! (j + 2)"
  by (simp_all add: slice_1_m1_def slice_to_m2_def slice_from_2_def nth_butlast nth_tl add.commute)

lemma nth_set_slice_1_m1:
  assumes "2 \<le> length xs" "length ys = length xs - 2" "j < length xs"
  shows "set_slice_1_m1 xs ys ! j =
           (if j = 0 then xs ! 0 else if j = length xs - 1 then xs ! (length xs - 1)
            else ys ! (j - 1))"
proof -
  from assms(1) have ne: "xs \<noteq> []" by auto
  show ?thesis
    using assms ne
    by (auto simp add: set_slice_1_m1_def nth_Cons' nth_append hd_conv_nth last_conv_nth)
qed

lemma length_set_slice_1_m1:
  "length ys = length xs - 2 \<Longrightarrow> length (set_slice_1_m1 xs ys) = length xs"
  by (auto simp add: set_slice_1_m1_def)

lemma stencil_row_props:
  "length (stencil_row xs) = length xs - 2"
  "j < length xs - 2 \<Longrightarrow>
     stencil_row xs ! j = 0.25 * xs ! j + 0.5 * xs ! (j + 1) + 0.25 * xs ! (j + 2)"
  by (simp_all add: stencil_row_def length_slices nth_slices)

lemma interior_rows:
  "rows (scal 0.25 (cols_to_m2 A) + scal 0.5 (cols_1_m1 A) + scal 0.25 (cols_from_2 A))
     = map stencil_row (rows A)"
  by (simp add: plus_ndarray_def scal_def amap_def amap2_def cols_to_m2_def cols_1_m1_def
      cols_from_2_def stencil_row_def zip_map_map map2_map_map split_def o_def
      zip_same_conv_map)

lemma binomial_filter_r_rows:
  assumes "\<not> list_ex (\<lambda>row. length row < 2) (rows A)"
  shows "binomial_filter A ''r'' sg = Inr (NDArray (map (filtered_row_r sg) (rows A)))"
proof -
  have len: "length (set_slice_1_m1 xs (stencil_row xs)) = length xs" for xs
    by (simp add: length_set_slice_1_m1 stencil_row_props)
  have "map2 (\<lambda>row x. row[length row - Suc 0 := x])
          (map2 (\<lambda>row x. row[0 := x]) (map2 set_slice_1_m1 (rows A) (map stencil_row (rows A)))
             (map2 (+) (map2 (+) (map (\<lambda>x. 0.25 * of_int sg * x) (map (\<lambda>row. row ! 0) (rows A)))
                                 (map (\<lambda>x. 0.5 * x) (map (\<lambda>row. row ! 0) (rows A))))
                       (map (\<lambda>x. 0.5 * x) (map (\<lambda>row. row ! Suc 0) (rows A)))))
          (map2 (+) (map2 (+) (map (\<lambda>x. 0.25 * x) (map (\<lambda>row. row ! (length row - Suc 0)) (rows A)))
                              (map (\<lambda>x. 0.5 * x) (map (\<lambda>row. row ! (length row - Suc 0)) (rows A))))
                    (map (\<lambda>x. 0.25 * x) (map (\<lambda>row. row ! (length row - 2)) (rows A))))
        = map (filtered_row_r sg) (rows A)"
    by (simp add: zip_map_map map2_map_map split_def o_def zip_same_conv_map filtered_row_r_def
        len zip_map1 zip_map2)
  then show ?thesis
    unfolding binomial_filter_def Let_def set_cols_1_m1_def interior_rows
    using assms
    by (simp add: set_col_def set_col_neg_def col_def col_neg_def vadd_def vscal_def)
qed

lemma nth_filtered_row_r:
  assumes n: "2 \<le> length xs" and j: "j < length xs"
  shows "filtered_row_r sg xs ! j =
     (if j = 0 then 0.25 * of_int sg * xs ! 0 + 0.5 * xs ! 0 + 0.5 * xs ! 1
      else if j = length xs - 1 then
        0.25 * xs ! (length xs - 1) + 0.5 * xs ! (length xs - 1) + 0.25 * xs ! (length xs - 2)
      else 0.25 * xs ! (j - 1) + 0.5 * xs ! j + 0.25 * xs ! (j + 1))"
proof -
  have len: "length (set_slice_1_m1 xs (stencil_row xs)) = length xs"
    by (simp add: length_set_slice_1_m1 stencil_row_props)
  show ?thesis
  proof (cases "j = 0 \<or> j = length xs - 1")
    case True
    then show ?thesis using n j by (auto simp add: filtered_row_r_def len nth_list_update)
  next
    case False
    then have jj: "j - 1 < length xs - 2" "0 < j" using n j by auto
    have "filtered_row_r sg xs ! j = set_slice_1_m1 xs (stencil_row xs) ! j"
      using False by (simp add: filtered_row_r_def)
    also have "\<dots> = stencil_row xs ! (j - 1)"
      using False n j by (simp add: nth_set_slice_1_m1 stencil_row_props)
    also have "\<dots> = 0.25 * xs ! (j - 1) + 0.5 * xs ! j + 0.25 * xs ! (j + 1)"
      using jj by (simp add: stencil_row_props)
    finally show ?thesis using False by simp
  qed
qed

lemma length_filtered_row_r: "length (filtered_row_r sg xs) = length xs"
  by (simp add: filtered_row_r_def length_set_slice_1_m1 stencil_row_props)

lemma binomial_filter_r_elems:
  assumes sh: "has_shape nz nr A" and n: "2 \<le> nr"
  shows "\<exists>A'. binomial_filter A ''r'' sg = Inr A' \<and> has_shape nz nr A' \<and>
     (\<forall>i<nz. \<forall>j<nr. elem A' i j =
        (if j = 0 then 0.25 * of_int sg * elem A i 0 + 0.5 * elem A i 0 + 0.5 * elem A i 1
         else if j = nr - 1 then
           0.25 * elem A i (nr - 1) + 0.5 * elem A i (nr - 1) + 0.25 * elem A i (nr - 2)
         else 0.25 * elem A i (j - 1) + 0.5 * elem A i j + 0.25 * elem A i (j + 1)))"
proof -
  have ok: "\<not> list_ex (\<lambda>row. length row < 2) (rows A)"
    using sh n by (auto simp add: has_shape_def list_all_iff list_ex_iff)
  have sh': "has_shape nz nr (NDArray (map (filtered_row_r sg) (rows A)))"
    using sh by (simp add: has_shape_def list_all_iff length_filtered_row_r)
  have "elem (NDArray (map (filtered_row_r sg) (rows A))) i j =
        (if j = 0 then 0.25 * of_int sg * elem A i 0 + 0.5 * elem A i 0 + 0.5 * elem A i 1
         else if j = nr - 1 then
           0.25 * elem A i (nr - 1) + 0.5 * elem A i (nr - 1) + 0.25 * elem A i (nr - 2)
         else 0.25 * elem A i (j - 1) + 0.5 * elem A i j + 0.25 * elem A i (j + 1))"
    if "i < nz" "j < nr" for i j
  proof -
    have l: "length (rows A ! i) = nr" "i < length (rows A)"
      using sh that by (simp_all add: has_shape_row has_shape_length)
    show ?thesis
      using nth_filtered_row_r[of "rows A ! i" j sg] l n that
      by (simp add: elem_def)
  qed
  with binomial_filter_r_rows[OF ok] sh' show ?thesis by blast
qed

lemma binomial_filter_r_filtered:
  assumes sh: "has_shape nz nr A" and n: "2 \<le> nr"
  shows "\<exists>A'. binomial_filter A ''r'' sg = Inr A' \<and> has_shape nz nr A' \<and>
     (\<forall>i<nz. \<forall>j<nr. elem A' i j = filtered_r sg nr A i j)"
  using binomial_filter_r_elems[OF sh n, of sg] unfolding filtered_r_def by blast

lemma filter_component_r:
  assumes sh: "has_shape nz nr (get g)" and n: "2 \<le> nr"
  shows "\<exists>a. filter_component get put ''r'' sg g = Inr (put a g) \<and> has_shape nz nr a \<and>
     (\<forall>i<nz. \<forall>j<nr. elem a i j = filtered_r sg nr (get g) i j)"
  using binomial_filter_r_filtered[OF sh n, of sg]
  by (auto simp add: filter_component_def)

lemma filter_rho_r:
  assumes wf: "wf_interp g" and n: "2 \<le> Nr_interp g"
  shows "\<exists>a. InterpolationGrid_filter g ''rho'' ''r'' = Inr (g\<lparr> rho := a \<rparr>) \<and>
     has_shape (Nz_interp g) (Nr_interp g) a \<and>
     (\<forall>i < Nz_interp g. \<forall>j < Nr_interp g.
        elem a i j = filtered_r ((- 1) ^ m_interp g) (Nr_interp g) (rho g) i j)"
proof -
  have sh: "has_shape (Nz_interp g) (Nr_interp g) (rho g)" using wf by (simp add: wf_interp_def)
  from filter_component_r[of _ _ rho g, OF sh n]
  show ?thesis by (simp add: InterpolationGrid_filter_def)
qed

lemma filter_E_r:
  assumes wf: "wf_interp g" and n: "2 \<le> Nr_interp g"
  shows "\<exists>a b c. InterpolationGrid_filter g ''E'' ''r'' = Inr (g\<lparr> Er := a, Et := b, Ez_interp := c \<rparr>) \<and>
     (\<forall>i < Nz_interp g. \<forall>j < Nr_interp g.
        elem a i j = filtered_r (- ((- 1) ^ m_interp g)) (Nr_interp g) (Er g) i j \<and>
        elem b i j = filtered_r (- ((- 1) ^ m_interp g)) (Nr_interp g) (Et g) i j \<and>
        elem c i j = filtered_r ((- 1) ^ m_interp g) (Nr_interp g) (Ez_interp g) i j)"
proof -
  have sh: "has_shape (Nz_interp g) (Nr_interp g) (Er g)"
    "has_shape (Nz_interp g) (Nr_interp g) (Et g)"
    "has_shape (Nz_interp g) (Nr_interp g) (Ez_interp g)"
    using wf by (simp_all add: wf_interp_def)
  from filter_component_r[of _ _ Er g "\<lambda>a g. g\<lparr> Er := a \<rparr>" "- ((- 1) ^ m_interp g)", OF sh(1) n]
  obtain a where a: "filter_component Er (\<lambda>a g. g\<lparr> Er := a \<rparr>) ''r'' (- ((- 1) ^ m_interp g)) g
                       = Inr (g\<lparr> Er := a \<rparr>)"
    and a': "\<forall>i < Nz_interp g. \<forall>j < Nr_interp g.
        elem a i j = filtered_r (- ((- 1) ^ m_interp g)) (Nr_interp g) (Er g) i j"
    by blast
  have sh2: "has_shape (Nz_interp g) (Nr_interp g) (Et (g\<lparr> Er := a \<rparr>))" using sh(2) by simp
  from filter_component_r[of _ _ Et "g\<lparr> Er := a \<rparr>" "\<lambda>a g. g\<lparr> Et := a \<rparr>" "- ((- 1) ^ m_interp g)",
      OF sh2 n]
  obtain b where b: "filter_component Et (\<lambda>a g. g\<lparr> Et := a \<rparr>) ''r'' (- ((- 1) ^ m_interp g)) (g\<lparr> Er := a \<rparr>)
                       = Inr (g\<lparr> Er := a, Et := b \<rparr>)"
    and b': "\<forall>i < Nz_interp g. \<forall>j < Nr_interp g.
        elem b i j = filtered_r (- ((- 1) ^ m_interp g)) (Nr_interp g) (Et g) i j"
    by auto
  have sh3: "has_shape (Nz_interp g) (Nr_interp g) (Ez_interp (g\<lparr> Er := a, Et := b \<rparr>))"
    using sh(3) by simp
  from filter_component_r[of _ _ Ez_interp "g\<lparr> Er := a, Et := b \<rparr>" "\<lambda>a g. g\<lparr> Ez_interp := a \<rparr>"
        "(- 1) ^ m_interp g", OF sh3 n]
  obtain c where c: "filter_component Ez_interp (\<lambda>a g. g\<lparr> Ez_interp := a \<rparr>) ''r'' ((- 1) ^ m_interp g)
                       (g\<lparr> Er := a, Et := b \<rparr>)
                       = Inr (g\<lparr> Er := a, Et := b, Ez_interp := c \<rparr>)"
    and c': "\<forall>i < Nz_interp g. \<forall>j < Nr_interp g.
        elem c i j = filtered_r ((- 1) ^ m_interp g) (Nr_interp g) (Ez_interp g) i j"
    by auto
  have "InterpolationGrid_filter g ''E'' ''r'' = Inr (g\<lparr> Er := a, Et := b, Ez_interp := c \<rparr>)"
    using a b c by (simp add: InterpolationGrid_filter_def bind_result_def)
  with a' b' c' show ?thesis by blast
qed

lemma filtered_r_interior_outer:
  assumes "2 \<le> nr" "0 < j" "j < nr"
  shows "filtered_r sg nr A i j =
     (if j = nr - 1 then 0.75 * elem A i (nr - 1) + 0.25 * elem A i (nr - 2)
      else 0.25 * elem A i (j - 1) + 0.5 * elem A i j + 0.25 * elem A i (j + 1))"
  using assms by (simp add: filtered_r_def)

lemma filtered_r_axis:
  "filtered_r sg nr A i 0 = binomial_axis sg A i + 0.25 * elem A i 1"
  by (simp add: filtered_r_def binomial_axis_def)

text \<open>
  The filter on concrete arrays: the periodic stencil in the direction z, the error for
  an array with a single radial cell, which is left as it is, and the error for a
  direction that is neither \<open>z\<close> nor \<open>r\<close>.
\<close>

lemmas filter_eval =
  binomial_filter_def Let_def
  set_cols_1_m1_def cols_to_m2_def cols_1_m1_def cols_from_2_def set_col_def set_col_neg_def
  col_def col_neg_def set_rows_1_m1_def rows_to_m2_def rows_1_m1_def rows_from_2_def
  set_row_def set_row_neg_def row_neg_def
  vadd_def vscal_def slice_1_m1_def slice_to_m2_def slice_from_2_def
  set_slice_1_m1_def scal_def plus_ndarray_def amap_def amap2_def

lemma binomial_filter_z_example:
  "binomial_filter (NDArray [[0, 1, 0], [0, 4, 0], [8, 0, 0]]) ''z'' 1
     = Inr (NDArray [[2, 3 / 2, 0], [2, 9 / 4, 0], [4, 5 / 4, 0]])"
  by (simp add: filter_eval)

lemma binomial_filter_one_column:
  "binomial_filter (NDArray [[1], [2]]) ''r'' 1 = Inl (IndexError, NDArray [[1], [2]])"
  by (simp add: filter_eval)

lemma binomial_filter_direction:
  "direction \<noteq> ''z'' \<Longrightarrow> direction \<noteq> ''r'' \<Longrightarrow>
   binomial_filter A direction sg = Inl (UnrecognizedDirection direction, A)"
  by (simp add: binomial_filter_def)

text \<open>
  Claim C6 at a concrete grid of mode 0, where the sign of the guard cell is 1: filtering
  \<open>rho = [[0, 1, 0], [0, 4, 0]]\<close> in the direction r gives \<open>[[1/2, 1/2, 1/4], [2, 2, 1]]\<close>.
  The stencil (1/4, 1/2, 1/4) with the guard cell \<open>sign * rho[:,0]\<close> would give 1/4 and 1
  in the column of the axis; the source gives 1/2 and 2, since it weights the neighbour
  \<open>rho[:,1]\<close> by 1/2. The interior and the outer boundary are as the claim states
  (\<open>filtered_r_interior_outer\<close>).
\<close>

theorem axis_weight_of_radial_filter:
  "InterpolationGrid_filter filter_example ''rho'' ''r''
     = Inr (filter_example\<lparr> rho := NDArray [[1 / 2, 1 / 2, 1 / 4], [2, 2, 1]] \<rparr>) \<and>
   binomial_axis ((- 1) ^ m_interp filter_example) (rho filter_example) 0 = 1 / 4 \<and>
   binomial_axis ((- 1) ^ m_interp filter_example) (rho filter_example) 1 = 1"
  by (simp add: InterpolationGrid_filter_def filter_component_def binomial_filter_def Let_def
      filter_example_def binomial_axis_def elem_def
      set_cols_1_m1_def cols_to_m2_def cols_1_m1_def cols_from_2_def set_col_def set_col_neg_def
      col_def col_neg_def vadd_def vscal_def slice_1_m1_def slice_to_m2_def slice_from_2_def
      set_slice_1_m1_def scal_def plus_ndarray_def amap_def amap2_def)

end
